theory Spec2Isabelle
  imports Complex_Main "HOL-Library.Word"
begin

section \<open>JavaScript numbers\<close>

text \<open>
  A TypeScript \<open>number\<close> is modelled as a real number or one of the three special values
  of IEEE 754 arithmetic. Finite arithmetic is exact (rounding and overflow are not
  modelled) and zero is unsigned: every divisor of the program that can vanish is a
  length, a count, a square root or a difference of equal numbers, hence a positive
  zero. The special values follow the IEEE rules, so that a division by zero yields an
  infinity or \<open>NaN\<close> exactly where the program's does. The range of the deviation and
  the rounded scores depend on rounding, overflow and the sign of zero: they are proved
  on the embedding of the scoring engine in double precision further below.
\<close>

datatype jsnum = Num real | PInf | NInf | NaN

fun js_neg :: "jsnum \<Rightarrow> jsnum" where
  "js_neg (Num a) = Num (- a)"
| "js_neg PInf = NInf"
| "js_neg NInf = PInf"
| "js_neg NaN = NaN"

fun js_add :: "jsnum \<Rightarrow> jsnum \<Rightarrow> jsnum" where
  "js_add (Num a) (Num b) = Num (a + b)"
| "js_add NaN _ = NaN"
| "js_add _ NaN = NaN"
| "js_add PInf NInf = NaN"
| "js_add NInf PInf = NaN"
| "js_add PInf _ = PInf"
| "js_add NInf _ = NInf"
| "js_add _ PInf = PInf"
| "js_add _ NInf = NInf"

definition js_sub :: "jsnum \<Rightarrow> jsnum \<Rightarrow> jsnum" where
  "js_sub a b = js_add a (js_neg b)"

fun js_mul :: "jsnum \<Rightarrow> jsnum \<Rightarrow> jsnum" where
  "js_mul (Num a) (Num b) = Num (a * b)"
| "js_mul NaN _ = NaN"
| "js_mul _ NaN = NaN"
| "js_mul PInf (Num b) = (if 0 < b then PInf else if b < 0 then NInf else NaN)"
| "js_mul NInf (Num b) = (if 0 < b then NInf else if b < 0 then PInf else NaN)"
| "js_mul (Num a) PInf = (if 0 < a then PInf else if a < 0 then NInf else NaN)"
| "js_mul (Num a) NInf = (if 0 < a then NInf else if a < 0 then PInf else NaN)"
| "js_mul PInf PInf = PInf"
| "js_mul PInf NInf = NInf"
| "js_mul NInf PInf = NInf"
| "js_mul NInf NInf = PInf"

fun js_div :: "jsnum \<Rightarrow> jsnum \<Rightarrow> jsnum" where
  "js_div (Num a) (Num b) =
     (if b \<noteq> 0 then Num (a / b)
      else if 0 < a then PInf else if a < 0 then NInf else NaN)"
| "js_div NaN _ = NaN"
| "js_div _ NaN = NaN"
| "js_div (Num a) PInf = Num 0"
| "js_div (Num a) NInf = Num 0"
| "js_div PInf (Num b) = (if 0 \<le> b then PInf else NInf)"
| "js_div NInf (Num b) = (if 0 \<le> b then NInf else PInf)"
| "js_div _ _ = NaN"

text \<open>The comparison operators; every comparison with \<open>NaN\<close> is false.\<close>

fun js_lt :: "jsnum \<Rightarrow> jsnum \<Rightarrow> bool" where
  "js_lt (Num a) (Num b) = (a < b)"
| "js_lt NaN _ = False"
| "js_lt _ NaN = False"
| "js_lt NInf NInf = False"
| "js_lt NInf _ = True"
| "js_lt PInf _ = False"
| "js_lt (Num a) PInf = True"
| "js_lt (Num a) NInf = False"

fun js_le :: "jsnum \<Rightarrow> jsnum \<Rightarrow> bool" where
  "js_le (Num a) (Num b) = (a \<le> b)"
| "js_le NaN _ = False"
| "js_le _ NaN = False"
| "js_le NInf _ = True"
| "js_le PInf PInf = True"
| "js_le PInf _ = False"
| "js_le (Num a) PInf = True"
| "js_le (Num a) NInf = False"

definition js_gt :: "jsnum \<Rightarrow> jsnum \<Rightarrow> bool" where
  "js_gt a b = js_lt b a"

definition js_ge :: "jsnum \<Rightarrow> jsnum \<Rightarrow> bool" where
  "js_ge a b = js_le b a"

text \<open>Strict equality \<open>===\<close> on numbers: \<open>NaN\<close> equals nothing.\<close>

definition js_eq :: "jsnum \<Rightarrow> jsnum \<Rightarrow> bool" where
  "js_eq a b = (a \<noteq> NaN \<and> a = b)"

text \<open>\<open>Math.min\<close>, \<open>Math.max\<close>, \<open>Math.abs\<close>, \<open>Math.sqrt\<close>, \<open>Math.pow(x, 2)\<close>, \<open>Math.round\<close>.\<close>

definition js_min :: "jsnum \<Rightarrow> jsnum \<Rightarrow> jsnum" where
  "js_min a b = (if a = NaN \<or> b = NaN then NaN else if js_le a b then a else b)"

definition js_max :: "jsnum \<Rightarrow> jsnum \<Rightarrow> jsnum" where
  "js_max a b = (if a = NaN \<or> b = NaN then NaN else if js_le a b then b else a)"

fun js_abs :: "jsnum \<Rightarrow> jsnum" where
  "js_abs (Num a) = Num \<bar>a\<bar>"
| "js_abs PInf = PInf"
| "js_abs NInf = PInf"
| "js_abs NaN = NaN"

fun js_sqrt :: "jsnum \<Rightarrow> jsnum" where
  "js_sqrt (Num a) = (if a < 0 then NaN else Num (sqrt a))"
| "js_sqrt PInf = PInf"
| "js_sqrt NInf = NaN"
| "js_sqrt NaN = NaN"

definition js_pow2 :: "jsnum \<Rightarrow> jsnum" where
  "js_pow2 a = js_mul a a"

fun js_round :: "jsnum \<Rightarrow> jsnum" where
  "js_round (Num a) = Num (of_int \<lfloor>a + 1 / 2\<rfloor>)"
| "js_round a = a"

section \<open>Scoring engine: deviation\<close>

definition calculateDeviation :: "jsnum \<Rightarrow> jsnum \<times> jsnum \<Rightarrow> jsnum" where
  "calculateDeviation v idealRange =
     (case idealRange of (mn, mx) \<Rightarrow>
        if js_ge v mn \<and> js_le v mx then Num 0
        else
          let center = js_div (js_add mn mx) (Num 2);
              rangeSize = js_sub mx mn;
              deviation = js_div (js_abs (js_sub v center)) rangeSize
          in js_min deviation (Num 1))"


section \<open>Geometry kernel and landmark index registry\<close>

text \<open>\<open>Math.acos\<close> and \<open>Math.atan2\<close>; \<open>atan2_real\<close> is the two-argument arctangent on reals.\<close>

fun js_acos :: "jsnum \<Rightarrow> jsnum" where
  "js_acos (Num a) = (if - 1 \<le> a \<and> a \<le> 1 then Num (arccos a) else NaN)"
| "js_acos _ = NaN"

definition atan2_real :: "real \<Rightarrow> real \<Rightarrow> real" where
  "atan2_real b a =
     (if 0 < a then arctan (b / a)
      else if a < 0 then (if 0 \<le> b then arctan (b / a) + pi else arctan (b / a) - pi)
      else if 0 < b then pi / 2 else if b < 0 then - (pi / 2) else 0)"

fun js_atan2 :: "jsnum \<Rightarrow> jsnum \<Rightarrow> jsnum" where
  "js_atan2 (Num b) (Num a) = Num (atan2_real b a)"
| "js_atan2 NaN _ = NaN"
| "js_atan2 _ NaN = NaN"
| "js_atan2 (Num b) PInf = Num 0"
| "js_atan2 (Num b) NInf = (if 0 \<le> b then Num pi else Num (- pi))"
| "js_atan2 PInf (Num a) = Num (pi / 2)"
| "js_atan2 NInf (Num a) = Num (- (pi / 2))"
| "js_atan2 PInf PInf = Num (pi / 4)"
| "js_atan2 PInf NInf = Num (3 * pi / 4)"
| "js_atan2 NInf PInf = Num (- (pi / 4))"
| "js_atan2 NInf NInf = Num (- (3 * pi / 4))"

text \<open>\<open>x ?? 0\<close> on an optional number.\<close>

definition or_zero :: "jsnum option \<Rightarrow> jsnum" where
  "or_zero v = (case v of None \<Rightarrow> Num 0 | Some a \<Rightarrow> a)"

record NormalizedLandmark =
  lm_x :: jsnum
  lm_y :: jsnum
  lm_z :: "jsnum option"
  lm_visibility :: "jsnum option"
  lm_presence :: "jsnum option"

text \<open>
  What can be thrown inside the library. The \<open>Error\<close> of \<open>extractLandmarksByIndices\<close>
  carries the index that was not found, the others a fixed message. \<open>DOMException\<close> is
  the exception of the canvas: \<open>drawImage\<close> refuses a canvas of width or height 0
  (\<open>InvalidStateError\<close>) and \<open>getImageData\<close> a rectangle of width or height 0
  (\<open>IndexSizeError\<close>).
\<close>

datatype js_error = LandmarkNotFound nat | Error string | DOMException

definition bind_err :: "'e + 'a \<Rightarrow> ('a \<Rightarrow> 'e + 'b) \<Rightarrow> 'e + 'b" where
  "bind_err m f = (case m of Inl e \<Rightarrow> Inl e | Inr v \<Rightarrow> f v)"

text \<open>An array read \<open>xs[i]\<close>, which is \<open>undefined\<close> out of range.\<close>

definition nth_opt :: "'a list \<Rightarrow> nat \<Rightarrow> 'a option" where
  "nth_opt xs i = (if i < length xs then Some (xs ! i) else None)"

definition LEFT_EYE :: "nat list" where
  "LEFT_EYE = [33, 7, 163, 144, 145, 153, 154, 155, 133, 173, 157, 158, 159, 160, 161, 246]"

definition RIGHT_EYE :: "nat list" where
  "RIGHT_EYE = [362, 382, 381, 380, 374, 373, 390, 249, 263, 466, 388, 387, 386, 385, 384, 398]"

definition NOSE_TIP :: "nat list" where
  "NOSE_TIP = [1, 2, 5, 4, 6, 19, 20, 94, 125, 141, 235, 236, 237, 238, 239, 240, 241, 242]"

definition NOSE_BRIDGE :: "nat list" where
  "NOSE_BRIDGE = [6, 9, 10, 151, 195, 197, 196, 3, 51, 48, 115, 131, 134, 102, 49, 220]"

definition NOSTRIL_LEFT :: "nat list" where
  "NOSTRIL_LEFT = [235, 31, 228, 229, 230, 231, 232, 233, 244, 245, 122, 6, 202, 214, 234]"

definition NOSTRIL_RIGHT :: "nat list" where
  "NOSTRIL_RIGHT = [455, 462, 459, 458, 457, 456, 448, 449, 451, 452, 453, 464, 435, 410, 454]"

definition JAW_LEFT :: "nat list" where
  "JAW_LEFT = [172, 136, 150, 149, 176, 148, 152, 377, 400, 378, 379, 365, 397, 288, 361, 323]"

definition JAW_RIGHT :: "nat list" where
  "JAW_RIGHT = [397, 365, 379, 378, 400, 377, 152, 148, 176, 149, 150, 136, 172, 58, 132, 93]"

definition CHIN :: "nat list" where
  "CHIN = [18, 175, 199, 200, 9, 10, 151, 175, 18, 175, 199, 200, 9, 10, 151]"

definition FACE_OUTLINE :: "nat list" where
  "FACE_OUTLINE = [10, 338, 297, 332, 284, 251, 389, 356, 454, 323, 361, 288, 397, 365, 379,
     378, 400, 377, 152, 148, 176, 149, 150, 136, 172, 58, 132, 93, 234, 127, 162, 21, 54,
     103, 67, 109]"

fun extractLandmarksByIndices ::
  "NormalizedLandmark list \<Rightarrow> nat list \<Rightarrow> js_error + NormalizedLandmark list" where
  "extractLandmarksByIndices landmarks [] = Inr []"
| "extractLandmarksByIndices landmarks (i # indices) =
     (case nth_opt landmarks i of
        None \<Rightarrow> Inl (LandmarkNotFound i)
      | Some landmark \<Rightarrow>
          bind_err (extractLandmarksByIndices landmarks indices) (\<lambda>rest. Inr (landmark # rest)))"

definition calculateDistance :: "NormalizedLandmark \<Rightarrow> NormalizedLandmark \<Rightarrow> jsnum" where
  "calculateDistance point1 point2 =
     (let dx = js_sub (lm_x point1) (lm_x point2);
          dy = js_sub (lm_y point1) (lm_y point2)
      in js_sqrt (js_add (js_mul dx dx) (js_mul dy dy)))"

definition calculateAngle ::
  "NormalizedLandmark \<Rightarrow> NormalizedLandmark \<Rightarrow> NormalizedLandmark \<Rightarrow> jsnum" where
  "calculateAngle point1 center point2 =
     (let v1x = js_sub (lm_x point1) (lm_x center);
          v1y = js_sub (lm_y point1) (lm_y center);
          v2x = js_sub (lm_x point2) (lm_x center);
          v2y = js_sub (lm_y point2) (lm_y center);
          dot = js_add (js_mul v1x v2x) (js_mul v1y v2y);
          mag1 = js_sqrt (js_add (js_mul v1x v1x) (js_mul v1y v1y));
          mag2 = js_sqrt (js_add (js_mul v2x v2x) (js_mul v2y v2y))
      in if js_eq mag1 (Num 0) \<or> js_eq mag2 (Num 0) then Num 0
         else
           let cosAngle = js_div dot (js_mul mag1 mag2)
           in js_mul (js_acos (js_max (Num (- 1)) (js_min (Num 1) cosAngle)))
                (js_div (Num 180) (Num pi)))"


section \<open>Facial feature extractor\<close>

record SingleEyeMetrics =
  eye_width :: jsnum
  eye_height :: jsnum
  eye_aspectRatio :: jsnum
  eye_tilt :: jsnum
  eye_landmarks :: "NormalizedLandmark list"

record EyeMetrics =
  leftEye :: SingleEyeMetrics
  rightEye :: SingleEyeMetrics
  interPupillaryDistance :: jsnum
  eyeSymmetry :: jsnum

record NoseMetrics =
  nose_width :: jsnum
  nose_length :: jsnum
  tipProjection :: jsnum
  bridgeWidth :: jsnum
  nostrilSymmetry :: jsnum
  nose_landmarks :: "NormalizedLandmark list"

record JawMetrics =
  jaw_width :: jsnum
  jaw_angle :: jsnum
  chinProjection :: jsnum
  lowerFaceRatio :: jsnum
  jaw_asymmetry :: jsnum
  jaw_landmarks :: "NormalizedLandmark list"

record FacialFeatures =
  eyes :: EyeMetrics
  nose :: NoseMetrics
  jaw :: JawMetrics

datatype metrics_error_code = INSUFFICIENT_LANDMARKS | CALCULATION_ERROR | INVALID_INPUT

text \<open>
  The thrown \<open>MetricsCalculationError\<close> object: its code, its feature and, for a wrapped
  error, the cause. The message text is not modelled.
\<close>

datatype MetricsCalculationError =
  MetricsCalculationError metrics_error_code string "js_error option"

definition calculateCentroid :: "NormalizedLandmark list \<Rightarrow> NormalizedLandmark" where
  "calculateCentroid landmarks =
     (let sum = fold (\<lambda>landmark acc.
                   (js_add (fst acc) (lm_x landmark),
                    js_add (fst (snd acc)) (lm_y landmark),
                    js_add (snd (snd acc)) (or_zero (lm_z landmark))))
                 landmarks (Num 0, Num 0, Num 0);
          n = Num (real (length landmarks))
      in \<lparr>lm_x = js_div (fst sum) n, lm_y = js_div (fst (snd sum)) n,
          lm_z = Some (js_div (snd (snd sum)) n), lm_visibility = None, lm_presence = None\<rparr>)"

definition calculateSingleEyeMetrics ::
  "NormalizedLandmark list \<Rightarrow> js_error + SingleEyeMetrics" where
  "calculateSingleEyeMetrics eyeLandmarks =
     (case (nth_opt eyeLandmarks 0, nth_opt eyeLandmarks 8) of
        (Some leftCorner, Some rightCorner) \<Rightarrow>
          (let width = calculateDistance leftCorner rightCorner in
           case (nth_opt eyeLandmarks 4, nth_opt eyeLandmarks 12) of
             (Some topPoint, Some bottomPoint) \<Rightarrow>
               (let height = calculateDistance topPoint bottomPoint;
                    aspectRatio = js_div width height;
                    tilt = js_mul (js_atan2 (js_sub (lm_y rightCorner) (lm_y leftCorner))
                                            (js_sub (lm_x rightCorner) (lm_x leftCorner)))
                                  (js_div (Num 180) (Num pi))
                in Inr \<lparr>eye_width = width, eye_height = height, eye_aspectRatio = aspectRatio,
                        eye_tilt = tilt, eye_landmarks = eyeLandmarks\<rparr>)
           | _ \<Rightarrow> Inl (Error ''Missing eye vertical landmarks''))
      | _ \<Rightarrow> Inl (Error ''Missing eye corner landmarks''))"

definition calculateEyeMetrics :: "NormalizedLandmark list \<Rightarrow> js_error + EyeMetrics" where
  "calculateEyeMetrics landmarks =
     bind_err (extractLandmarksByIndices landmarks LEFT_EYE) (\<lambda>leftEyeLandmarks.
     bind_err (extractLandmarksByIndices landmarks RIGHT_EYE) (\<lambda>rightEyeLandmarks.
     bind_err (calculateSingleEyeMetrics leftEyeLandmarks) (\<lambda>leftEye.
     bind_err (calculateSingleEyeMetrics rightEyeLandmarks) (\<lambda>rightEye.
       let leftCenter = calculateCentroid leftEyeLandmarks;
           rightCenter = calculateCentroid rightEyeLandmarks
       in Inr \<lparr>leftEye = leftEye, rightEye = rightEye,
               interPupillaryDistance = calculateDistance leftCenter rightCenter,
               eyeSymmetry = js_div (eye_width leftEye) (eye_width rightEye)\<rparr>))))"

definition calculateNostrilWidth :: "NormalizedLandmark list \<Rightarrow> js_error + jsnum" where
  "calculateNostrilWidth nostrilLandmarks =
     (case (nth_opt nostrilLandmarks 0, nth_opt nostrilLandmarks 8) of
        (Some outerPoint, Some innerPoint) \<Rightarrow> Inr (calculateDistance outerPoint innerPoint)
      | _ \<Rightarrow> Inl (Error ''Missing nostril width landmarks''))"

definition calculateNoseMetrics :: "NormalizedLandmark list \<Rightarrow> js_error + NoseMetrics" where
  "calculateNoseMetrics landmarks =
     bind_err (extractLandmarksByIndices landmarks NOSE_TIP) (\<lambda>noseTipLandmarks.
     bind_err (extractLandmarksByIndices landmarks NOSE_BRIDGE) (\<lambda>noseBridgeLandmarks.
     bind_err (extractLandmarksByIndices landmarks NOSTRIL_LEFT) (\<lambda>leftNostrilLandmarks.
     bind_err (extractLandmarksByIndices landmarks NOSTRIL_RIGHT) (\<lambda>rightNostrilLandmarks.
       case (nth_opt leftNostrilLandmarks 0, nth_opt rightNostrilLandmarks 0) of
         (Some leftNostril, Some rightNostril) \<Rightarrow>
           (let width = calculateDistance leftNostril rightNostril in
            case (nth_opt noseBridgeLandmarks 0, nth_opt noseTipLandmarks 0) of
              (Some bridgeTop, Some noseTip) \<Rightarrow>
                (let len = calculateDistance bridgeTop noseTip;
                     tipProj = or_zero (lm_z noseTip)
                 in case (nth_opt noseBridgeLandmarks 4, nth_opt noseBridgeLandmarks 12) of
                      (Some bridgeLeft, Some bridgeRight) \<Rightarrow>
                        (let bridgeW = calculateDistance bridgeLeft bridgeRight in
                         bind_err (calculateNostrilWidth leftNostrilLandmarks) (\<lambda>leftNostrilWidth.
                         bind_err (calculateNostrilWidth rightNostrilLandmarks) (\<lambda>rightNostrilWidth.
                           Inr \<lparr>nose_width = width, nose_length = len, tipProjection = tipProj,
                                bridgeWidth = bridgeW,
                                nostrilSymmetry = js_div leftNostrilWidth rightNostrilWidth,
                                nose_landmarks = noseTipLandmarks @ noseBridgeLandmarks @
                                  leftNostrilLandmarks @ rightNostrilLandmarks\<rparr>)))
                    | _ \<Rightarrow> Inl (Error ''Missing nose bridge width landmarks''))
            | _ \<Rightarrow> Inl (Error ''Missing nose bridge or tip landmarks''))
       | _ \<Rightarrow> Inl (Error ''Missing nostril landmarks'')))))"

definition calculateChinWidth :: "NormalizedLandmark list \<Rightarrow> js_error + jsnum" where
  "calculateChinWidth chinLandmarks =
     (case (nth_opt chinLandmarks 4, nth_opt chinLandmarks 12) of
        (Some leftChin, Some rightChin) \<Rightarrow> Inr (calculateDistance leftChin rightChin)
      | _ \<Rightarrow> Inl (Error ''Missing chin width landmarks''))"

text \<open>The perimeter loop runs over \<open>i = 0, ..., length - 2\<close> and skips a missing pair.\<close>

definition calculateJawSideSize :: "NormalizedLandmark list \<Rightarrow> jsnum" where
  "calculateJawSideSize jawSideLandmarks =
     fold (\<lambda>i perimeter.
             case (nth_opt jawSideLandmarks i, nth_opt jawSideLandmarks (i + 1)) of
               (Some current, Some next) \<Rightarrow> js_add perimeter (calculateDistance current next)
             | _ \<Rightarrow> perimeter)
       [0 ..< length jawSideLandmarks - 1] (Num 0)"

definition calculateJawMetrics :: "NormalizedLandmark list \<Rightarrow> js_error + JawMetrics" where
  "calculateJawMetrics landmarks =
     bind_err (extractLandmarksByIndices landmarks JAW_LEFT) (\<lambda>leftJawLandmarks.
     bind_err (extractLandmarksByIndices landmarks JAW_RIGHT) (\<lambda>rightJawLandmarks.
     bind_err (extractLandmarksByIndices landmarks CHIN) (\<lambda>chinLandmarks.
       case (nth_opt leftJawLandmarks 0, nth_opt rightJawLandmarks 0) of
         (Some leftJawPoint, Some rightJawPoint) \<Rightarrow>
           (let width = calculateDistance leftJawPoint rightJawPoint in
            case nth_opt chinLandmarks 0 of
              Some chinPoint \<Rightarrow>
                (let angle = calculateAngle leftJawPoint chinPoint rightJawPoint;
                     chinProj = or_zero (lm_z chinPoint)
                 in bind_err (calculateChinWidth chinLandmarks) (\<lambda>chinWidth.
                      let leftJawSize = calculateJawSideSize leftJawLandmarks;
                          rightJawSize = calculateJawSideSize rightJawLandmarks
                      in Inr \<lparr>jaw_width = width, jaw_angle = angle, chinProjection = chinProj,
                              lowerFaceRatio = js_div chinWidth width,
                              jaw_asymmetry = js_div leftJawSize rightJawSize,
                              jaw_landmarks = leftJawLandmarks @ rightJawLandmarks @
                                chinLandmarks\<rparr>))
            | None \<Rightarrow> Inl (Error ''Missing chin landmark''))
       | _ \<Rightarrow> Inl (Error ''Missing jaw landmarks''))))"

definition calculateFacialFeatures ::
  "NormalizedLandmark list \<Rightarrow> MetricsCalculationError + FacialFeatures" where
  "calculateFacialFeatures landmarks =
     (if length landmarks < 468
      then Inl (MetricsCalculationError INSUFFICIENT_LANDMARKS ''general'' None)
      else
        case bind_err (calculateEyeMetrics landmarks) (\<lambda>e.
             bind_err (calculateNoseMetrics landmarks) (\<lambda>n.
             bind_err (calculateJawMetrics landmarks) (\<lambda>j.
               Inr \<lparr>eyes = e, nose = n, jaw = j\<rparr>))) of
          Inl err \<Rightarrow> Inl (MetricsCalculationError CALCULATION_ERROR ''general'' (Some err))
        | Inr features \<Rightarrow> Inr features)"

section \<open>Scoring engine\<close>

record BaselineRanges =
  range_eyes_aspectRatio :: "jsnum \<times> jsnum"
  range_eyes_symmetry :: "jsnum \<times> jsnum"
  range_eyes_tilt :: "jsnum \<times> jsnum"
  range_nose_widthRatio :: "jsnum \<times> jsnum"
  range_nose_projection :: "jsnum \<times> jsnum"
  range_nose_symmetry :: "jsnum \<times> jsnum"
  range_jaw_angle :: "jsnum \<times> jsnum"
  range_jaw_chinRatio :: "jsnum \<times> jsnum"
  range_jaw_asymmetry :: "jsnum \<times> jsnum"

record WeightingFactors =
  weight_eyes_aspectRatio :: jsnum
  weight_eyes_symmetry :: jsnum
  weight_eyes_tilt :: jsnum
  weight_nose_width :: jsnum
  weight_nose_projection :: jsnum
  weight_nose_symmetry :: jsnum
  weight_jaw_angle :: jsnum
  weight_jaw_projection :: jsnum
  weight_jaw_asymmetry :: jsnum

definition DEFAULT_BASELINE_RANGES :: BaselineRanges where
  "DEFAULT_BASELINE_RANGES =
     \<lparr>range_eyes_aspectRatio = (Num 2.8, Num 3.2),
      range_eyes_symmetry = (Num 0.9, Num 1.1),
      range_eyes_tilt = (Num (- 5), Num 5),
      range_nose_widthRatio = (Num 0.75, Num 0.85),
      range_nose_projection = (Num 0.67, Num 0.75),
      range_nose_symmetry = (Num 0.9, Num 1.1),
      range_jaw_angle = (Num 120, Num 130),
      range_jaw_chinRatio = (Num 0.85, Num 0.95),
      range_jaw_asymmetry = (Num 0.95, Num 1.05)\<rparr>"

definition DEFAULT_WEIGHTING_FACTORS :: WeightingFactors where
  "DEFAULT_WEIGHTING_FACTORS =
     \<lparr>weight_eyes_aspectRatio = Num 0.4,
      weight_eyes_symmetry = Num 0.35,
      weight_eyes_tilt = Num 0.25,
      weight_nose_width = Num 0.4,
      weight_nose_projection = Num 0.35,
      weight_nose_symmetry = Num 0.25,
      weight_jaw_angle = Num 0.45,
      weight_jaw_projection = Num 0.3,
      weight_jaw_asymmetry = Num 0.25\<rparr>"

text \<open>The calculator object: the two configuration tables fixed at construction.\<close>

record FacialMetricsCalculator =
  baselineRanges :: BaselineRanges
  weightingFactors :: WeightingFactors

definition default_calculator :: FacialMetricsCalculator where
  "default_calculator =
     \<lparr>baselineRanges = DEFAULT_BASELINE_RANGES, weightingFactors = DEFAULT_WEIGHTING_FACTORS\<rparr>"

definition deviationToScore :: "jsnum \<Rightarrow> jsnum" where
  "deviationToScore weightedDeviation =
     (let score = js_mul (Num 100) (js_sub (Num 1) weightedDeviation)
      in js_max (Num 0) (js_min (Num 100) score))"

definition calculateEyeScore :: "FacialMetricsCalculator \<Rightarrow> EyeMetrics \<Rightarrow> jsnum" where
  "calculateEyeScore this eyeMetrics =
     (let aspectRatioDeviation = calculateDeviation
            (js_div (js_add (eye_aspectRatio (leftEye eyeMetrics))
                            (eye_aspectRatio (rightEye eyeMetrics))) (Num 2))
            (range_eyes_aspectRatio (baselineRanges this));
          symmetryDeviation = calculateDeviation (eyeSymmetry eyeMetrics)
            (range_eyes_symmetry (baselineRanges this));
          tiltDeviation = calculateDeviation
            (js_div (js_add (js_abs (eye_tilt (leftEye eyeMetrics)))
                            (js_abs (eye_tilt (rightEye eyeMetrics)))) (Num 2))
            (range_eyes_tilt (baselineRanges this));
          weightedDeviation =
            js_add (js_add
              (js_mul (weight_eyes_aspectRatio (weightingFactors this)) aspectRatioDeviation)
              (js_mul (weight_eyes_symmetry (weightingFactors this)) symmetryDeviation))
              (js_mul (weight_eyes_tilt (weightingFactors this)) tiltDeviation)
      in deviationToScore weightedDeviation)"

definition calculateNoseScore :: "FacialMetricsCalculator \<Rightarrow> NoseMetrics \<Rightarrow> jsnum" where
  "calculateNoseScore this noseMetrics =
     (let normalizedWidth = js_div (nose_width noseMetrics) (bridgeWidth noseMetrics);
          widthDeviation = calculateDeviation normalizedWidth
            (range_nose_widthRatio (baselineRanges this));
          projectionDeviation = calculateDeviation (js_abs (tipProjection noseMetrics))
            (range_nose_projection (baselineRanges this));
          symmetryDeviation = calculateDeviation (nostrilSymmetry noseMetrics)
            (range_nose_symmetry (baselineRanges this));
          weightedDeviation =
            js_add (js_add
              (js_mul (weight_nose_width (weightingFactors this)) widthDeviation)
              (js_mul (weight_nose_projection (weightingFactors this)) projectionDeviation))
              (js_mul (weight_nose_symmetry (weightingFactors this)) symmetryDeviation)
      in deviationToScore weightedDeviation)"

definition calculateJawScore :: "FacialMetricsCalculator \<Rightarrow> JawMetrics \<Rightarrow> jsnum" where
  "calculateJawScore this jawMetrics =
     (let angleDeviation = calculateDeviation (jaw_angle jawMetrics)
            (range_jaw_angle (baselineRanges this));
          projectionDeviation = calculateDeviation (lowerFaceRatio jawMetrics)
            (range_jaw_chinRatio (baselineRanges this));
          asymmetryDeviation = calculateDeviation (jaw_asymmetry jawMetrics)
            (range_jaw_asymmetry (baselineRanges this));
          weightedDeviation =
            js_add (js_add
              (js_mul (weight_jaw_angle (weightingFactors this)) angleDeviation)
              (js_mul (weight_jaw_projection (weightingFactors this)) projectionDeviation))
              (js_mul (weight_jaw_asymmetry (weightingFactors this)) asymmetryDeviation)
      in deviationToScore weightedDeviation)"

record QualityScores =
  eyes_score :: jsnum
  nose_score :: jsnum
  jaw_score :: jsnum
  overall :: jsnum

definition calculateQualityScores :: "FacialMetricsCalculator \<Rightarrow> FacialFeatures \<Rightarrow> QualityScores" where
  "calculateQualityScores this features =
     (let eyeScore = calculateEyeScore this (eyes features);
          noseScore = calculateNoseScore this (nose features);
          jawScore = calculateJawScore this (jaw features);
          overallScore = js_div (js_add (js_add eyeScore noseScore) jawScore) (Num 3)
      in \<lparr>eyes_score = js_round eyeScore, nose_score = js_round noseScore,
          jaw_score = js_round jawScore, overall = js_round overallScore\<rparr>)"


section \<open>Quality validation: data\<close>

record QualityThresholds =
  maxYaw :: jsnum
  maxPitch :: jsnum
  maxRoll :: jsnum
  brightness_min :: jsnum
  brightness_max :: jsnum
  contrast_min :: jsnum
  blur_max :: jsnum
  minWidth :: jsnum
  minHeight :: jsnum
  maxWidth :: jsnum
  maxHeight :: jsnum
  centerTolerance :: jsnum

definition DEFAULT_QUALITY_THRESHOLDS :: QualityThresholds where
  "DEFAULT_QUALITY_THRESHOLDS =
     \<lparr>maxYaw = Num 15, maxPitch = Num 15, maxRoll = Num 10,
      brightness_min = Num 80, brightness_max = Num 200,
      contrast_min = Num 30,
      blur_max = Num 0.1,
      minWidth = Num 0.3, minHeight = Num 0.4, maxWidth = Num 0.8, maxHeight = Num 0.9,
      centerTolerance = Num 0.15\<rparr>"

datatype QualityIssueType =
  ty_face_angle | ty_brightness | ty_contrast | ty_blur | ty_face_size | ty_face_position
| ty_multiple_faces | ty_no_face_detected | ty_partial_face | ty_poor_lighting | ty_shadow
| ty_reflection

datatype Severity = low | medium | high

record QualityIssue =
  issue_type :: QualityIssueType
  severity :: Severity
  message :: string
  issue_value :: "jsnum option"
  threshold :: "jsnum option"

text \<open>
  The confidence is computed from the constant 100 by adding and subtracting integer
  constants only, so it is modelled as an integer.
\<close>

record QualityCheckResult =
  isValid :: bool
  issues :: "QualityIssue list"
  confidence :: int
  recommendations :: "string list"

record ImageQualityMetrics =
  iq_brightness :: jsnum
  iq_contrast :: jsnum
  iq_blur :: jsnum
  iq_saturation :: jsnum
  iq_noise :: jsnum

record FaceQualityMetrics =
  fq_yaw :: jsnum
  fq_pitch :: jsnum
  fq_roll :: jsnum
  fq_size_width :: jsnum
  fq_size_height :: jsnum
  fq_size_area :: jsnum
  fq_centerX :: jsnum
  fq_centerY :: jsnum
  fq_offsetFromCenter :: jsnum
  fq_completeness :: jsnum
  fq_symmetry :: jsnum

datatype quality_error_code = ANALYSIS_FAILED | INVALID_IMAGE | PROCESSING_ERROR

datatype QualityValidationError = QualityValidationError quality_error_code js_error

text \<open>
  The image handed to the validator, as the canvas gives it back: its (natural) width and
  height, the RGBA bytes that \<open>getImageData\<close> returns once the image is drawn, and
  whether a 2d context could be obtained. The canvas itself belongs to the browser; of
  its behaviour the model keeps that drawing and reading back an image of width or
  height 0 throws.
\<close>

record ImageElement =
  el_width :: nat
  el_height :: nat
  el_pixels :: "8 word list"
  el_context :: bool

text \<open>
  The five recommendation texts are Japanese sentences that start with an emoji; they are
  given by the UTF-8 bytes of the source literals: the guidance on lighting, on facing the
  camera, on the distance and on holding the camera steady, and the positive message.
\<close>

definition REC_LIGHTING :: string where
  "REC_LIGHTING =
    [CHR 0xF0, CHR 0x9F, CHR 0x92, CHR 0xA1, CHR 0x20, CHR 0xE8, CHR 0x89, CHR 0xAF,
     CHR 0xE5, CHR 0xA5, CHR 0xBD, CHR 0xE3, CHR 0x81, CHR 0xAA, CHR 0xE7, CHR 0x85,
     CHR 0xA7, CHR 0xE6, CHR 0x98, CHR 0x8E, CHR 0xE7, CHR 0x92, CHR 0xB0, CHR 0xE5,
     CHR 0xA2, CHR 0x83, CHR 0xE3, CHR 0x81, CHR 0xA7, CHR 0xE6, CHR 0x92, CHR 0xAE,
     CHR 0xE5, CHR 0xBD, CHR 0xB1, CHR 0xE3, CHR 0x81, CHR 0x97, CHR 0xE3, CHR 0x81,
     CHR 0xA6, CHR 0xE3, CHR 0x81, CHR 0x8F, CHR 0xE3, CHR 0x81, CHR 0xA0, CHR 0xE3,
     CHR 0x81, CHR 0x95, CHR 0xE3, CHR 0x81, CHR 0x84, CHR 0xEF, CHR 0xBC, CHR 0x88,
     CHR 0xE8, CHR 0x87, CHR 0xAA, CHR 0xE7, CHR 0x84, CHR 0xB6, CHR 0xE5, CHR 0x85,
     CHR 0x89, CHR 0xE3, CHR 0x81, CHR 0x8C, CHR 0xE7, CHR 0x90, CHR 0x86, CHR 0xE6,
     CHR 0x83, CHR 0xB3, CHR 0xE7, CHR 0x9A, CHR 0x84, CHR 0xEF, CHR 0xBC, CHR 0x89]"

definition REC_FACE_ANGLE :: string where
  "REC_FACE_ANGLE =
    [CHR 0xF0, CHR 0x9F, CHR 0x93, CHR 0x90, CHR 0x20, CHR 0xE3, CHR 0x82, CHR 0xAB,
     CHR 0xE3, CHR 0x83, CHR 0xA1, CHR 0xE3, CHR 0x83, CHR 0xA9, CHR 0xE3, CHR 0x81,
     CHR 0xAB, CHR 0xE5, CHR 0xAF, CHR 0xBE, CHR 0xE3, CHR 0x81, CHR 0x97, CHR 0xE3,
     CHR 0x81, CHR 0xA6, CHR 0xE3, CHR 0x81, CHR 0xBE, CHR 0xE3, CHR 0x81, CHR 0xA3,
     CHR 0xE3, CHR 0x81, CHR 0x99, CHR 0xE3, CHR 0x81, CHR 0x90, CHR 0xE9, CHR 0xA1,
     CHR 0x94, CHR 0xE3, CHR 0x82, CHR 0x92, CHR 0xE5, CHR 0x90, CHR 0x91, CHR 0xE3,
     CHR 0x81, CHR 0x91, CHR 0xE3, CHR 0x81, CHR 0xA6, CHR 0xE3, CHR 0x81, CHR 0x8F,
     CHR 0xE3, CHR 0x81, CHR 0xA0, CHR 0xE3, CHR 0x81, CHR 0x95, CHR 0xE3, CHR 0x81,
     CHR 0x84]"

definition REC_FACE_SIZE :: string where
  "REC_FACE_SIZE =
    [CHR 0xF0, CHR 0x9F, CHR 0x93, CHR 0x8F, CHR 0x20, CHR 0xE9, CHR 0xA1, CHR 0x94,
     CHR 0xE5, CHR 0x85, CHR 0xA8, CHR 0xE4, CHR 0xBD, CHR 0x93, CHR 0xE3, CHR 0x81,
     CHR 0x8C, CHR 0xE3, CHR 0x83, CHR 0x95, CHR 0xE3, CHR 0x83, CHR 0xAC, CHR 0xE3,
     CHR 0x83, CHR 0xBC, CHR 0xE3, CHR 0x83, CHR 0xA0, CHR 0xE3, CHR 0x81, CHR 0xAB,
     CHR 0xE5, CHR 0x8F, CHR 0x8E, CHR 0xE3, CHR 0x81, CHR 0xBE, CHR 0xE3, CHR 0x82,
     CHR 0x8B, CHR 0xE8, CHR 0xB7, CHR 0x9D, CHR 0xE9, CHR 0x9B, CHR 0xA2, CHR 0xE3,
     CHR 0x82, CHR 0x92, CHR 0xE8, CHR 0xAA, CHR 0xBF, CHR 0xE6, CHR 0x95, CHR 0xB4,
     CHR 0xE3, CHR 0x81, CHR 0x97, CHR 0xE3, CHR 0x81, CHR 0xA6, CHR 0xE3, CHR 0x81,
     CHR 0x8F, CHR 0xE3, CHR 0x81, CHR 0xA0, CHR 0xE3, CHR 0x81, CHR 0x95, CHR 0xE3,
     CHR 0x81, CHR 0x84]"

definition REC_BLUR :: string where
  "REC_BLUR =
    [CHR 0xF0, CHR 0x9F, CHR 0x8E, CHR 0xAF, CHR 0x20, CHR 0xE3, CHR 0x82, CHR 0xAB,
     CHR 0xE3, CHR 0x83, CHR 0xA1, CHR 0xE3, CHR 0x83, CHR 0xA9, CHR 0xE3, CHR 0x82,
     CHR 0x92, CHR 0xE3, CHR 0x81, CHR 0x97, CHR 0xE3, CHR 0x81, CHR 0xA3, CHR 0xE3,
     CHR 0x81, CHR 0x8B, CHR 0xE3, CHR 0x82, CHR 0x8A, CHR 0xE5, CHR 0x9B, CHR 0xBA,
     CHR 0xE5, CHR 0xAE, CHR 0x9A, CHR 0xE3, CHR 0x81, CHR 0x97, CHR 0xE3, CHR 0x80,
     CHR 0x81, CHR 0xE3, CHR 0x83, CHR 0x94, CHR 0xE3, CHR 0x83, CHR 0xB3, CHR 0xE3,
     CHR 0x83, CHR 0x88, CHR 0xE3, CHR 0x82, CHR 0x92, CHR 0xE5, CHR 0x90, CHR 0x88,
     CHR 0xE3, CHR 0x82, CHR 0x8F, CHR 0xE3, CHR 0x81, CHR 0x9B, CHR 0xE3, CHR 0x81,
     CHR 0xA6, CHR 0xE3, CHR 0x81, CHR 0x8F, CHR 0xE3, CHR 0x81, CHR 0xA0, CHR 0xE3,
     CHR 0x81, CHR 0x95, CHR 0xE3, CHR 0x81, CHR 0x84]"

definition REC_POSITIVE :: string where
  "REC_POSITIVE =
    [CHR 0xE2, CHR 0x9C, CHR 0x85, CHR 0x20, CHR 0xE7, CHR 0x94, CHR 0xBB, CHR 0xE5,
     CHR 0x83, CHR 0x8F, CHR 0xE5, CHR 0x93, CHR 0x81, CHR 0xE8, CHR 0xB3, CHR 0xAA,
     CHR 0xE3, CHR 0x81, CHR 0xAF, CHR 0xE5, CHR 0x88, CHR 0x86, CHR 0xE6, CHR 0x9E,
     CHR 0x90, CHR 0xE3, CHR 0x81, CHR 0xAB, CHR 0xE9, CHR 0x81, CHR 0xA9, CHR 0xE3,
     CHR 0x81, CHR 0x97, CHR 0xE3, CHR 0x81, CHR 0xA6, CHR 0xE3, CHR 0x81, CHR 0x84,
     CHR 0xE3, CHR 0x81, CHR 0xBE, CHR 0xE3, CHR 0x81, CHR 0x99]"

section \<open>Image quality analyzer\<close>

text \<open>\<open>pixels[i] ?? 0\<close> on the byte array.\<close>

definition byte_at :: "8 word list \<Rightarrow> nat \<Rightarrow> jsnum" where
  "byte_at pixels i = (case nth_opt pixels i of None \<Rightarrow> Num 0 | Some b \<Rightarrow> Num (real (unat b)))"

definition luminance_at :: "8 word list \<Rightarrow> nat \<Rightarrow> jsnum" where
  "luminance_at pixels i =
     js_add (js_add (js_mul (Num 0.299) (byte_at pixels i))
                    (js_mul (Num 0.587) (byte_at pixels (i + 1))))
            (js_mul (Num 0.114) (byte_at pixels (i + 2)))"

text \<open>The loop \<open>for (i = 0; i < pixels.length; i += 4)\<close> visits these offsets.\<close>

definition pixel_offsets :: "8 word list \<Rightarrow> nat list" where
  "pixel_offsets pixels = filter (\<lambda>i. i mod 4 = 0) [0 ..< length pixels]"

text \<open>The loops \<open>for (y = 1; y < height - 1; y += step)\<close>, and the same for \<open>x\<close> inside.\<close>

definition interior :: "nat \<Rightarrow> nat \<Rightarrow> nat list" where
  "interior step n = filter (\<lambda>k. k mod step = 1 mod step) [1 ..< n - 1]"

definition interior_grid :: "nat \<Rightarrow> nat \<Rightarrow> nat \<Rightarrow> (nat \<times> nat) list" where
  "interior_grid step width height =
     concat (map (\<lambda>y. map (\<lambda>x. (x, y)) (interior step width)) (interior step height))"

definition estimateBlur :: "8 word list \<Rightarrow> nat \<Rightarrow> nat \<Rightarrow> jsnum" where
  "estimateBlur pixels width height =
     (let (edgeSum, edgeCount) =
            fold (\<lambda>(x, y) (edgeSum, edgeCount).
                    let index = (y * width + x) * 4;
                        current = byte_at pixels index;
                        right = byte_at pixels (index + 4);
                        down = byte_at pixels ((y + 1) * width * 4 + x * 4);
                        edgeStrength = js_add (js_abs (js_sub current right))
                                              (js_abs (js_sub current down))
                    in (js_add edgeSum edgeStrength, edgeCount + 1))
              (interior_grid 1 width height) (Num 0, 0 :: nat);
          averageEdge = js_div edgeSum (Num (real edgeCount))
      in js_max (Num 0) (js_min (Num 1) (js_sub (Num 1) (js_div averageEdge (Num 255)))))"

definition calculateSaturation :: "8 word list \<Rightarrow> jsnum" where
  "calculateSaturation pixels =
     (let pixelCount = js_div (Num (real (length pixels))) (Num 4);
          totalSaturation =
            fold (\<lambda>i total.
                    let r = byte_at pixels i;
                        g = byte_at pixels (i + 1);
                        b = byte_at pixels (i + 2);
                        mx = js_max (js_max r g) b;
                        mn = js_min (js_min r g) b;
                        saturation = (if js_eq mx (Num 0) then Num 0
                                      else js_div (js_sub mx mn) mx)
                    in js_add total saturation)
              (pixel_offsets pixels) (Num 0)
      in js_mul (js_div totalSaturation pixelCount) (Num 255))"

definition estimateNoise :: "8 word list \<Rightarrow> nat \<Rightarrow> nat \<Rightarrow> jsnum" where
  "estimateNoise pixels width height =
     (let (totalVariance, sampleCount) =
            fold (\<lambda>(x, y) (totalVariance, sampleCount).
                    let neighbors =
                          concat (map (\<lambda>dy. map (\<lambda>dx.
                              luminance_at pixels (((y - 1 + dy) * width + (x - 1 + dx)) * 4))
                            [0, 1, 2]) [0, 1, 2]);
                        n = Num (real (length neighbors));
                        mean = js_div (fold (\<lambda>val sum. js_add sum val) neighbors (Num 0)) n;
                        variance =
                          js_div (fold (\<lambda>val sum. js_add sum (js_pow2 (js_sub val mean)))
                                    neighbors (Num 0)) n
                    in (js_add totalVariance variance, sampleCount + 1))
              (interior_grid 4 width height) (Num 0, 0 :: nat)
      in js_div totalVariance (Num (real sampleCount)))"

definition analyzeImageQuality :: "ImageElement \<Rightarrow> js_error + ImageQualityMetrics" where
  "analyzeImageQuality imageElement =
     (if \<not> el_context imageElement
      then Inl (Error ''Could not get canvas context for image analysis'')
      else if el_width imageElement = 0 \<or> el_height imageElement = 0
      then Inl DOMException
      else
        let pixels = el_pixels imageElement;
            pixelCount = js_div (Num (real (length pixels))) (Num 4);
            totalBrightness =
              fold (\<lambda>i total. js_add total (luminance_at pixels i)) (pixel_offsets pixels) (Num 0);
            brightness = js_div totalBrightness pixelCount;
            varianceSum =
              fold (\<lambda>i total. js_add total (js_pow2 (js_sub (luminance_at pixels i) brightness)))
                (pixel_offsets pixels) (Num 0);
            contrast = js_sqrt (js_div varianceSum pixelCount);
            blur = estimateBlur pixels (el_width imageElement) (el_height imageElement);
            saturation = calculateSaturation pixels;
            noise = estimateNoise pixels (el_width imageElement) (el_height imageElement)
        in Inr \<lparr>iq_brightness = brightness, iq_contrast = contrast, iq_blur = blur,
                iq_saturation = saturation, iq_noise = noise\<rparr>)"


section \<open>Face quality analyzer\<close>

definition calculateFaceAngles :: "NormalizedLandmark list \<Rightarrow> jsnum \<times> jsnum \<times> jsnum" where
  "calculateFaceAngles faceOutline =
     (case (nth_opt faceOutline 0, nth_opt faceOutline 16, nth_opt faceOutline 8,
            nth_opt faceOutline 24) of
        (Some leftPoint, Some rightPoint, Some topPoint, Some bottomPoint) \<Rightarrow>
          (let roll = js_mul (js_atan2 (js_sub (lm_y rightPoint) (lm_y leftPoint))
                                       (js_sub (lm_x rightPoint) (lm_x leftPoint)))
                             (js_div (Num 180) (Num pi));
               centerX = js_div (js_add (lm_x leftPoint) (lm_x rightPoint)) (Num 2);
               yaw = js_mul (js_sub centerX (Num 0.5)) (Num 60);
               centerY = js_div (js_add (lm_y topPoint) (lm_y bottomPoint)) (Num 2);
               pitch = js_mul (js_sub centerY (Num 0.5)) (Num 40)
           in (yaw, pitch, roll))
      | _ \<Rightarrow> (Num 0, Num 0, Num 0))"

record BoundingBox =
  bb_left :: jsnum
  bb_top :: jsnum
  bb_width :: jsnum
  bb_height :: jsnum

definition calculateFaceBoundingBox :: "NormalizedLandmark list \<Rightarrow> BoundingBox" where
  "calculateFaceBoundingBox landmarks =
     (let (minX, maxX, minY, maxY) =
            fold (\<lambda>landmark (minX, maxX, minY, maxY).
                    (js_min minX (lm_x landmark), js_max maxX (lm_x landmark),
                     js_min minY (lm_y landmark), js_max maxY (lm_y landmark)))
              landmarks (PInf, NInf, PInf, NInf)
      in \<lparr>bb_left = minX, bb_top = minY, bb_width = js_sub maxX minX,
          bb_height = js_sub maxY minY\<rparr>)"

definition keyLandmarkIndices :: "nat list" where
  "keyLandmarkIndices = take 4 LEFT_EYE @ take 4 RIGHT_EYE @ take 4 NOSE_TIP @ take 4 CHIN"

definition landmark_visible :: "NormalizedLandmark list \<Rightarrow> nat \<Rightarrow> bool" where
  "landmark_visible landmarks index =
     (case nth_opt landmarks index of
        None \<Rightarrow> False
      | Some landmark \<Rightarrow>
          js_ge (lm_x landmark) (Num 0) \<and> js_le (lm_x landmark) (Num 1) \<and>
          js_ge (lm_y landmark) (Num 0) \<and> js_le (lm_y landmark) (Num 1) \<and>
          (case lm_visibility landmark of None \<Rightarrow> True | Some v \<Rightarrow> js_gt v (Num 0.5)))"

definition calculateFaceCompleteness :: "NormalizedLandmark list \<Rightarrow> jsnum" where
  "calculateFaceCompleteness landmarks =
     (let visibleCount =
            fold (\<lambda>index visibleCount.
                    if landmark_visible landmarks index then visibleCount + 1 else visibleCount)
              keyLandmarkIndices (0 :: nat)
      in js_div (Num (real visibleCount)) (Num (real (length keyLandmarkIndices))))"

text \<open>The validator's own centroid, on \<open>x\<close> and \<open>y\<close> only.\<close>

definition quality_calculateCentroid :: "NormalizedLandmark list \<Rightarrow> jsnum \<times> jsnum" where
  "quality_calculateCentroid landmarks =
     (let sum = fold (\<lambda>landmark acc. (js_add (fst acc) (lm_x landmark),
                                        js_add (snd acc) (lm_y landmark)))
                 landmarks (Num 0, Num 0);
          n = Num (real (length landmarks))
      in (js_div (fst sum) n, js_div (snd sum) n))"

definition calculateFaceSymmetry :: "NormalizedLandmark list \<Rightarrow> js_error + jsnum" where
  "calculateFaceSymmetry landmarks =
     bind_err (extractLandmarksByIndices landmarks LEFT_EYE) (\<lambda>leftEyeLms.
     bind_err (extractLandmarksByIndices landmarks RIGHT_EYE) (\<lambda>rightEyeLms.
       let leftCentroid = quality_calculateCentroid leftEyeLms;
           rightCentroid = quality_calculateCentroid rightEyeLms;
           leftDistance = js_sqrt (js_add (js_pow2 (js_sub (fst leftCentroid) (Num 0.5)))
                                          (js_pow2 (js_sub (snd leftCentroid) (Num 0.5))));
           rightDistance = js_sqrt (js_add (js_pow2 (js_sub (fst rightCentroid) (Num 0.5)))
                                           (js_pow2 (js_sub (snd rightCentroid) (Num 0.5))))
       in Inr (js_div (js_min leftDistance rightDistance) (js_max leftDistance rightDistance))))"

definition analyzeFaceQuality ::
  "NormalizedLandmark list \<Rightarrow> ImageElement \<Rightarrow> js_error + FaceQualityMetrics" where
  "analyzeFaceQuality landmarks imageElement =
     (let imageWidth = Num (real (el_width imageElement));
          imageHeight = Num (real (el_height imageElement))
      in bind_err (extractLandmarksByIndices landmarks FACE_OUTLINE) (\<lambda>faceOutline.
           let angles = calculateFaceAngles faceOutline;
               boundingBox = calculateFaceBoundingBox landmarks;
               faceWidth = js_mul (bb_width boundingBox) imageWidth;
               faceHeight = js_mul (bb_height boundingBox) imageHeight;
               faceArea = js_mul faceWidth faceHeight;
               centerX = js_mul (js_add (bb_left boundingBox)
                                   (js_div (bb_width boundingBox) (Num 2))) imageWidth;
               centerY = js_mul (js_add (bb_top boundingBox)
                                   (js_div (bb_height boundingBox) (Num 2))) imageHeight;
               imageCenterX = js_div imageWidth (Num 2);
               imageCenterY = js_div imageHeight (Num 2);
               offsetFromCenter =
                 js_div (js_sqrt (js_add (js_pow2 (js_sub centerX imageCenterX))
                                         (js_pow2 (js_sub centerY imageCenterY))))
                        (js_sqrt (js_add (js_pow2 (js_div imageWidth (Num 2)))
                                         (js_pow2 (js_div imageHeight (Num 2)))));
               completeness = calculateFaceCompleteness landmarks
           in bind_err (calculateFaceSymmetry landmarks) (\<lambda>symmetry.
                Inr \<lparr>fq_yaw = fst angles, fq_pitch = fst (snd angles), fq_roll = snd (snd angles),
                     fq_size_width = js_div faceWidth imageWidth,
                     fq_size_height = js_div faceHeight imageHeight,
                     fq_size_area = js_div faceArea (js_mul imageWidth imageHeight),
                     fq_centerX = js_div centerX imageWidth,
                     fq_centerY = js_div centerY imageHeight,
                     fq_offsetFromCenter = offsetFromCenter,
                     fq_completeness = completeness,
                     fq_symmetry = symmetry\<rparr>)))"

section \<open>Quality validation\<close>

definition estimateFaceCount :: "NormalizedLandmark list \<Rightarrow> nat" where
  "estimateFaceCount landmarks = (if 0 < length landmarks then 1 else 0)"

definition validateImageQuality :: "QualityThresholds \<Rightarrow> ImageQualityMetrics \<Rightarrow> QualityIssue list" where
  "validateImageQuality thresholds imageQuality =
     (if js_lt (iq_brightness imageQuality) (brightness_min thresholds)
      then [\<lparr>issue_type = ty_brightness, severity = medium,
              message = ''Image is too dark. Please ensure adequate lighting.'',
              issue_value = Some (iq_brightness imageQuality),
              threshold = Some (brightness_min thresholds)\<rparr>]
      else if js_gt (iq_brightness imageQuality) (brightness_max thresholds)
      then [\<lparr>issue_type = ty_brightness, severity = medium,
              message = ''Image is too bright. Please reduce lighting or avoid direct light.'',
              issue_value = Some (iq_brightness imageQuality),
              threshold = Some (brightness_max thresholds)\<rparr>]
      else []) @
     (if js_lt (iq_contrast imageQuality) (contrast_min thresholds)
      then [\<lparr>issue_type = ty_contrast, severity = low,
              message = ''Image has low contrast. Please ensure even lighting.'',
              issue_value = Some (iq_contrast imageQuality),
              threshold = Some (contrast_min thresholds)\<rparr>]
      else []) @
     (if js_gt (iq_blur imageQuality) (blur_max thresholds)
      then [\<lparr>issue_type = ty_blur, severity = high,
              message = ''Image is blurry. Please hold the camera steady and ensure focus.'',
              issue_value = Some (iq_blur imageQuality),
              threshold = Some (blur_max thresholds)\<rparr>]
      else [])"

definition validateFaceQuality :: "QualityThresholds \<Rightarrow> FaceQualityMetrics \<Rightarrow> QualityIssue list" where
  "validateFaceQuality thresholds faceQuality =
     (if js_gt (js_abs (fq_yaw faceQuality)) (maxYaw thresholds)
      then [\<lparr>issue_type = ty_face_angle, severity = medium,
              message = ''Please face the camera more directly (reduce left/right turn).'',
              issue_value = Some (js_abs (fq_yaw faceQuality)),
              threshold = Some (maxYaw thresholds)\<rparr>]
      else []) @
     (if js_gt (js_abs (fq_pitch faceQuality)) (maxPitch thresholds)
      then [\<lparr>issue_type = ty_face_angle, severity = medium,
              message = ''Please look straight ahead (reduce up/down tilt).'',
              issue_value = Some (js_abs (fq_pitch faceQuality)),
              threshold = Some (maxPitch thresholds)\<rparr>]
      else []) @
     (if js_gt (js_abs (fq_roll faceQuality)) (maxRoll thresholds)
      then [\<lparr>issue_type = ty_face_angle, severity = low,
              message = ''Please straighten your head (reduce tilt).'',
              issue_value = Some (js_abs (fq_roll faceQuality)),
              threshold = Some (maxRoll thresholds)\<rparr>]
      else []) @
     (if js_lt (fq_size_width faceQuality) (minWidth thresholds)
      then [\<lparr>issue_type = ty_face_size, severity = medium,
              message = ''Please move closer to the camera for better analysis.'',
              issue_value = Some (fq_size_width faceQuality),
              threshold = Some (minWidth thresholds)\<rparr>]
      else if js_gt (fq_size_width faceQuality) (maxWidth thresholds)
      then [\<lparr>issue_type = ty_face_size, severity = medium,
              message = ''Please move further from the camera.'',
              issue_value = Some (fq_size_width faceQuality),
              threshold = Some (maxWidth thresholds)\<rparr>]
      else []) @
     (if js_gt (fq_offsetFromCenter faceQuality) (centerTolerance thresholds)
      then [\<lparr>issue_type = ty_face_position, severity = low,
              message = ''Please center your face in the frame.'',
              issue_value = Some (fq_offsetFromCenter faceQuality),
              threshold = Some (centerTolerance thresholds)\<rparr>]
      else []) @
     (if js_lt (fq_completeness faceQuality) (Num 0.8)
      then [\<lparr>issue_type = ty_partial_face, severity = high,
              message = ''Part of your face is cut off. Please ensure your entire face is visible.'',
              issue_value = Some (fq_completeness faceQuality),
              threshold = Some (Num 0.8)\<rparr>]
      else [])"

definition calculateConfidence ::
  "QualityThresholds \<Rightarrow> QualityIssue list \<Rightarrow> ImageQualityMetrics \<Rightarrow> FaceQualityMetrics \<Rightarrow> int" where
  "calculateConfidence thresholds issueList imageQuality faceQuality =
     (let c0 = fold (\<lambda>issue c. case severity issue of
                                   high \<Rightarrow> c - 30
                                 | medium \<Rightarrow> c - 15
                                 | low \<Rightarrow> c - 5)
                 issueList (100 :: int);
          c1 = (if js_gt (iq_contrast imageQuality) (js_mul (contrast_min thresholds) (Num 1.5))
                then c0 + 5 else c0);
          c2 = (if js_lt (iq_blur imageQuality) (js_mul (blur_max thresholds) (Num 0.5))
                then c1 + 5 else c1);
          c3 = (if js_gt (fq_completeness faceQuality) (Num 0.95) then c2 + 10 else c2);
          c4 = (if js_gt (fq_symmetry faceQuality) (Num 0.9) then c3 + 5 else c3)
      in max 0 (min 100 c4))"

definition createResult :: "bool \<Rightarrow> QualityIssue list \<Rightarrow> int \<Rightarrow> QualityCheckResult" where
  "createResult valid issueList conf =
     (let issueTypes = set (map issue_type issueList);
          recs =
            (if ty_brightness \<in> issueTypes \<or> ty_poor_lighting \<in> issueTypes
             then [REC_LIGHTING] else []) @
            (if ty_face_angle \<in> issueTypes then [REC_FACE_ANGLE] else []) @
            (if ty_face_size \<in> issueTypes then [REC_FACE_SIZE] else []) @
            (if ty_blur \<in> issueTypes then [REC_BLUR] else [])
      in \<lparr>isValid = valid, issues = issueList, confidence = conf,
          recommendations = (if length recs = 0 \<and> valid then recs @ [REC_POSITIVE] else recs)\<rparr>)"

definition validateImage ::
  "QualityThresholds \<Rightarrow> ImageElement \<Rightarrow> NormalizedLandmark list
     \<Rightarrow> QualityValidationError + QualityCheckResult" where
  "validateImage thresholds imageElement landmarks =
     (if length landmarks = 0
      then Inr (createResult False
             [\<lparr>issue_type = ty_no_face_detected, severity = high,
               message = ''No face detected in the image. Please ensure your face is clearly visible.'',
               issue_value = None, threshold = None\<rparr>] 0)
      else
        let faceCount = estimateFaceCount landmarks;
            issues0 = (if 1 < faceCount
                       then [\<lparr>issue_type = ty_multiple_faces, severity = medium,
                               message = ''Multiple faces detected. Please ensure only one face is visible.'',
                               issue_value = Some (Num (real faceCount)), threshold = None\<rparr>]
                       else [])
        in case bind_err (analyzeImageQuality imageElement) (\<lambda>imageQuality.
                let issues1 = issues0 @ validateImageQuality thresholds imageQuality
                in bind_err (analyzeFaceQuality landmarks imageElement) (\<lambda>faceQuality.
                     let issues2 = issues1 @ validateFaceQuality thresholds faceQuality;
                         conf = calculateConfidence thresholds issues2 imageQuality faceQuality;
                         valid = (length (filter (\<lambda>issue. severity issue = high) issues2) = 0)
                     in Inr (createResult valid issues2 conf))) of
             Inl err \<Rightarrow> Inl (QualityValidationError ANALYSIS_FAILED err)
           | Inr result \<Rightarrow> Inr result)"

section \<open>Finite numbers\<close>

text \<open>Whether a number is finite, and the real number that a finite number stands for.\<close>

definition is_finite :: "jsnum \<Rightarrow> bool" where
  "is_finite v = (case v of Num a \<Rightarrow> True | _ \<Rightarrow> False)"

definition num_val :: "jsnum \<Rightarrow> real" where
  "num_val v = (case v of Num a \<Rightarrow> a | _ \<Rightarrow> 0)"

text \<open>A point with finite coordinates, and the Euclidean distance of two such points.\<close>

definition dist_real :: "NormalizedLandmark \<Rightarrow> NormalizedLandmark \<Rightarrow> real" where
  "dist_real p q = sqrt ((num_val (lm_x p) - num_val (lm_x q))\<^sup>2 +
                         (num_val (lm_y p) - num_val (lm_y q))\<^sup>2)"

definition finite_point :: "NormalizedLandmark \<Rightarrow> bool" where
  "finite_point p = (is_finite (lm_x p) \<and> is_finite (lm_y p))"

text \<open>
  A landmark set as the detector delivers it: the coordinates of every point are finite
  numbers.
\<close>

definition finite_landmarks :: "NormalizedLandmark list \<Rightarrow> bool" where
  "finite_landmarks landmarks = list_all finite_point landmarks"

section \<open>The region value in exact arithmetic\<close>

text \<open>
  The region value \<open>100 * (1 - weightedDeviation)\<close> clamped to \<open>[0, 100]\<close>, on reals.
\<close>

definition region_value :: "real \<Rightarrow> real" where
  "region_value wd = max 0 (min 100 (100 * (1 - wd)))"

section \<open>Double precision\<close>

text \<open>
  The sections above compute with exact reals, which settles every property that does
  not depend on rounding. The scoring engine is embedded a second time below, over IEEE
  754 binary64 numbers as the program computes them: finite values are rounded to
  nearest, ties to even, with gradual underflow, overflow to an infinity and a signed
  zero.

  \<open>Fin r\<close> is the finite double of value \<open>r\<close>, \<open>Fin 0\<close> being the positive zero and
  \<open>NegZero\<close> the negative one. Every operation returns its exact result rounded by
  \<open>round64\<close>, so the doubles are closed under the operations; the theorems below hold for
  every \<open>Fin r\<close>, representable or not.
\<close>

datatype double = Fin real | NegZero | PosInf | NegInf | NotANumber

definition val :: "double \<Rightarrow> real" where
  "val a = (case a of Fin r \<Rightarrow> r | _ \<Rightarrow> 0)"

definition is_neg :: "double \<Rightarrow> bool" where
  "is_neg a = (case a of Fin r \<Rightarrow> r < 0 | NegZero \<Rightarrow> True | NegInf \<Rightarrow> True | _ \<Rightarrow> False)"

definition is_inf :: "double \<Rightarrow> bool" where
  "is_inf a = (a = PosInf \<or> a = NegInf)"

definition is_fin :: "double \<Rightarrow> bool" where
  "is_fin a = (case a of Fin r \<Rightarrow> True | NegZero \<Rightarrow> True | _ \<Rightarrow> False)"

definition signed_zero :: "bool \<Rightarrow> double" where
  "signed_zero neg = (if neg then NegZero else Fin 0)"

definition signed_inf :: "bool \<Rightarrow> double" where
  "signed_inf neg = (if neg then NegInf else PosInf)"

text \<open>
  Rounding to the nearest double. \<open>binade x\<close> is the exponent of \<open>x\<close>, at least that of
  the subnormal numbers; the doubles of that binade are the multiples of
  \<open>2 powi (binade x - 52)\<close>, and a tie goes to the even multiple. A magnitude of at least
  \<open>2 ^ 1024 - 2 ^ 970\<close>, half a unit above the largest double, rounds to an infinity, and
  a nonzero number that rounds to zero keeps its sign.
\<close>

definition round_half_even :: "real \<Rightarrow> int" where
  "round_half_even m =
     (let f = \<lfloor>m\<rfloor>; d = m - of_int f
      in if d < 1 / 2 then f else if 1 / 2 < d then f + 1 else if even f then f else f + 1)"

definition binade :: "real \<Rightarrow> int" where
  "binade x = max \<lfloor>log 2 \<bar>x\<bar>\<rfloor> (- 1022)"

definition overflow_threshold :: real where
  "overflow_threshold = 2 ^ 1024 - 2 ^ 970"

definition round64 :: "real \<Rightarrow> double" where
  "round64 x =
     (if x = 0 then Fin 0
      else if overflow_threshold \<le> \<bar>x\<bar> then signed_inf (x < 0)
      else
        let u = 2 powi (binade x - 52);
            y = of_int (round_half_even (x / u)) * u
        in if y = 0 then signed_zero (x < 0) else Fin y)"

text \<open>
  Arithmetic, comparisons, \<open>Math.abs\<close>, \<open>Math.min\<close>, \<open>Math.max\<close> and \<open>Math.round\<close>, with
  the IEEE 754 rules for the special values and the sign of zero; \<open>Math.round\<close> rounds
  halves upwards and keeps a negative zero. \<open>lit x\<close> is the double that the decimal
  literal \<open>x\<close> of the program text denotes.
\<close>

definition d_neg :: "double \<Rightarrow> double" where
  "d_neg a = (case a of Fin r \<Rightarrow> (if r = 0 then NegZero else Fin (- r)) | NegZero \<Rightarrow> Fin 0
              | PosInf \<Rightarrow> NegInf | NegInf \<Rightarrow> PosInf | NotANumber \<Rightarrow> NotANumber)"

definition d_add :: "double \<Rightarrow> double \<Rightarrow> double" where
  "d_add a b =
     (if a = NotANumber \<or> b = NotANumber then NotANumber
      else if is_inf a then (if is_inf b \<and> a \<noteq> b then NotANumber else a)
      else if is_inf b then b
      else if val a + val b = 0 then signed_zero (a = NegZero \<and> b = NegZero)
      else round64 (val a + val b))"

definition d_sub :: "double \<Rightarrow> double \<Rightarrow> double" where
  "d_sub a b = d_add a (d_neg b)"

definition d_mul :: "double \<Rightarrow> double \<Rightarrow> double" where
  "d_mul a b =
     (if a = NotANumber \<or> b = NotANumber then NotANumber
      else if is_inf a \<or> is_inf b
      then (if (\<not> is_inf a \<and> val a = 0) \<or> (\<not> is_inf b \<and> val b = 0) then NotANumber
            else signed_inf (is_neg a \<noteq> is_neg b))
      else if val a = 0 \<or> val b = 0 then signed_zero (is_neg a \<noteq> is_neg b)
      else round64 (val a * val b))"

definition d_div :: "double \<Rightarrow> double \<Rightarrow> double" where
  "d_div a b =
     (if a = NotANumber \<or> b = NotANumber then NotANumber
      else if is_inf a then (if is_inf b then NotANumber else signed_inf (is_neg a \<noteq> is_neg b))
      else if is_inf b then signed_zero (is_neg a \<noteq> is_neg b)
      else if val b = 0
      then (if val a = 0 then NotANumber else signed_inf (is_neg a \<noteq> is_neg b))
      else if val a = 0 then signed_zero (is_neg a \<noteq> is_neg b)
      else round64 (val a / val b))"

definition d_abs :: "double \<Rightarrow> double" where
  "d_abs a = (case a of Fin r \<Rightarrow> Fin \<bar>r\<bar> | NegZero \<Rightarrow> Fin 0 | PosInf \<Rightarrow> PosInf
              | NegInf \<Rightarrow> PosInf | NotANumber \<Rightarrow> NotANumber)"

definition d_lt :: "double \<Rightarrow> double \<Rightarrow> bool" where
  "d_lt a b =
     (a \<noteq> NotANumber \<and> b \<noteq> NotANumber \<and> a \<noteq> PosInf \<and> b \<noteq> NegInf \<and>
      (a = NegInf \<or> b = PosInf \<or> val a < val b))"

definition d_le :: "double \<Rightarrow> double \<Rightarrow> bool" where
  "d_le a b =
     (a \<noteq> NotANumber \<and> b \<noteq> NotANumber \<and>
      (a = NegInf \<or> b = PosInf \<or> (a \<noteq> PosInf \<and> b \<noteq> NegInf \<and> val a \<le> val b)))"

definition d_ge :: "double \<Rightarrow> double \<Rightarrow> bool" where
  "d_ge a b = d_le b a"

definition d_min :: "double \<Rightarrow> double \<Rightarrow> double" where
  "d_min a b =
     (if a = NotANumber \<or> b = NotANumber then NotANumber
      else if d_lt a b then a else if d_lt b a then b
      else if is_neg a then a else b)"

definition d_max :: "double \<Rightarrow> double \<Rightarrow> double" where
  "d_max a b =
     (if a = NotANumber \<or> b = NotANumber then NotANumber
      else if d_lt a b then b else if d_lt b a then a
      else if is_neg a then b else a)"

definition d_round :: "double \<Rightarrow> double" where
  "d_round a =
     (case a of
        Fin r \<Rightarrow> (if \<lfloor>r + 1 / 2\<rfloor> = 0 then signed_zero (r < 0) else Fin (of_int \<lfloor>r + 1 / 2\<rfloor>))
      | _ \<Rightarrow> a)"

definition lit :: "real \<Rightarrow> double" where
  "lit x = round64 x"


section \<open>Scoring engine in double precision\<close>

text \<open>
  The functions of the scoring engine, \<open>calculateDeviation\<close>, \<open>deviationToScore\<close>, the
  three region scores and \<open>calculateQualityScores\<close>, statement by statement as above
  with every operation in double precision. The small integer constants of the program
  (0, 1, 2, 3, 100) are doubles exactly. The records repeat the interfaces of
  \<open>types/metrics.ts\<close>; the scoring engine does not read the landmark lists.
\<close>

definition calculateDeviation64 :: "double \<Rightarrow> double \<times> double \<Rightarrow> double" where
  "calculateDeviation64 v idealRange =
     (case idealRange of (mn, mx) \<Rightarrow>
        if d_ge v mn \<and> d_le v mx then Fin 0
        else
          let center = d_div (d_add mn mx) (Fin 2);
              rangeSize = d_sub mx mn;
              deviation = d_div (d_abs (d_sub v center)) rangeSize
          in d_min deviation (Fin 1))"

definition deviationToScore64 :: "double \<Rightarrow> double" where
  "deviationToScore64 weightedDeviation =
     (let score = d_mul (Fin 100) (d_sub (Fin 1) weightedDeviation)
      in d_max (Fin 0) (d_min (Fin 100) score))"

record SingleEyeMetrics64 =
  eye_width64 :: double
  eye_height64 :: double
  eye_aspectRatio64 :: double
  eye_tilt64 :: double
  eye_landmarks64 :: "NormalizedLandmark list"

record EyeMetrics64 =
  leftEye64 :: SingleEyeMetrics64
  rightEye64 :: SingleEyeMetrics64
  interPupillaryDistance64 :: double
  eyeSymmetry64 :: double

record NoseMetrics64 =
  nose_width64 :: double
  nose_length64 :: double
  tipProjection64 :: double
  bridgeWidth64 :: double
  nostrilSymmetry64 :: double
  nose_landmarks64 :: "NormalizedLandmark list"

record JawMetrics64 =
  jaw_width64 :: double
  jaw_angle64 :: double
  chinProjection64 :: double
  lowerFaceRatio64 :: double
  jaw_asymmetry64 :: double
  jaw_landmarks64 :: "NormalizedLandmark list"

record FacialFeatures64 =
  eyes64 :: EyeMetrics64
  nose64 :: NoseMetrics64
  jaw64 :: JawMetrics64

record BaselineRanges64 =
  range_eyes_aspectRatio64 :: "double \<times> double"
  range_eyes_symmetry64 :: "double \<times> double"
  range_eyes_tilt64 :: "double \<times> double"
  range_nose_widthRatio64 :: "double \<times> double"
  range_nose_projection64 :: "double \<times> double"
  range_nose_symmetry64 :: "double \<times> double"
  range_jaw_angle64 :: "double \<times> double"
  range_jaw_chinRatio64 :: "double \<times> double"
  range_jaw_asymmetry64 :: "double \<times> double"

record WeightingFactors64 =
  weight_eyes_aspectRatio64 :: double
  weight_eyes_symmetry64 :: double
  weight_eyes_tilt64 :: double
  weight_nose_width64 :: double
  weight_nose_projection64 :: double
  weight_nose_symmetry64 :: double
  weight_jaw_angle64 :: double
  weight_jaw_projection64 :: double
  weight_jaw_asymmetry64 :: double

definition DEFAULT_BASELINE_RANGES64 :: BaselineRanges64 where
  "DEFAULT_BASELINE_RANGES64 =
     \<lparr>range_eyes_aspectRatio64 = (lit 2.8, lit 3.2),
      range_eyes_symmetry64 = (lit 0.9, lit 1.1),
      range_eyes_tilt64 = (lit (- 5), lit 5),
      range_nose_widthRatio64 = (lit 0.75, lit 0.85),
      range_nose_projection64 = (lit 0.67, lit 0.75),
      range_nose_symmetry64 = (lit 0.9, lit 1.1),
      range_jaw_angle64 = (lit 120, lit 130),
      range_jaw_chinRatio64 = (lit 0.85, lit 0.95),
      range_jaw_asymmetry64 = (lit 0.95, lit 1.05)\<rparr>"

definition DEFAULT_WEIGHTING_FACTORS64 :: WeightingFactors64 where
  "DEFAULT_WEIGHTING_FACTORS64 =
     \<lparr>weight_eyes_aspectRatio64 = lit 0.4,
      weight_eyes_symmetry64 = lit 0.35,
      weight_eyes_tilt64 = lit 0.25,
      weight_nose_width64 = lit 0.4,
      weight_nose_projection64 = lit 0.35,
      weight_nose_symmetry64 = lit 0.25,
      weight_jaw_angle64 = lit 0.45,
      weight_jaw_projection64 = lit 0.3,
      weight_jaw_asymmetry64 = lit 0.25\<rparr>"

record FacialMetricsCalculator64 =
  baselineRanges64 :: BaselineRanges64
  weightingFactors64 :: WeightingFactors64

definition default_calculator64 :: FacialMetricsCalculator64 where
  "default_calculator64 =
     \<lparr>baselineRanges64 = DEFAULT_BASELINE_RANGES64,
      weightingFactors64 = DEFAULT_WEIGHTING_FACTORS64\<rparr>"

definition calculateEyeScore64 :: "FacialMetricsCalculator64 \<Rightarrow> EyeMetrics64 \<Rightarrow> double" where
  "calculateEyeScore64 this eyeMetrics =
     (let aspectRatioDeviation = calculateDeviation64
            (d_div (d_add (eye_aspectRatio64 (leftEye64 eyeMetrics))
                          (eye_aspectRatio64 (rightEye64 eyeMetrics))) (Fin 2))
            (range_eyes_aspectRatio64 (baselineRanges64 this));
          symmetryDeviation = calculateDeviation64 (eyeSymmetry64 eyeMetrics)
            (range_eyes_symmetry64 (baselineRanges64 this));
          tiltDeviation = calculateDeviation64
            (d_div (d_add (d_abs (eye_tilt64 (leftEye64 eyeMetrics)))
                          (d_abs (eye_tilt64 (rightEye64 eyeMetrics)))) (Fin 2))
            (range_eyes_tilt64 (baselineRanges64 this));
          weightedDeviation =
            d_add (d_add
              (d_mul (weight_eyes_aspectRatio64 (weightingFactors64 this)) aspectRatioDeviation)
              (d_mul (weight_eyes_symmetry64 (weightingFactors64 this)) symmetryDeviation))
              (d_mul (weight_eyes_tilt64 (weightingFactors64 this)) tiltDeviation)
      in deviationToScore64 weightedDeviation)"

definition calculateNoseScore64 :: "FacialMetricsCalculator64 \<Rightarrow> NoseMetrics64 \<Rightarrow> double" where
  "calculateNoseScore64 this noseMetrics =
     (let normalizedWidth = d_div (nose_width64 noseMetrics) (bridgeWidth64 noseMetrics);
          widthDeviation = calculateDeviation64 normalizedWidth
            (range_nose_widthRatio64 (baselineRanges64 this));
          projectionDeviation = calculateDeviation64 (d_abs (tipProjection64 noseMetrics))
            (range_nose_projection64 (baselineRanges64 this));
          symmetryDeviation = calculateDeviation64 (nostrilSymmetry64 noseMetrics)
            (range_nose_symmetry64 (baselineRanges64 this));
          weightedDeviation =
            d_add (d_add
              (d_mul (weight_nose_width64 (weightingFactors64 this)) widthDeviation)
              (d_mul (weight_nose_projection64 (weightingFactors64 this)) projectionDeviation))
              (d_mul (weight_nose_symmetry64 (weightingFactors64 this)) symmetryDeviation)
      in deviationToScore64 weightedDeviation)"

definition calculateJawScore64 :: "FacialMetricsCalculator64 \<Rightarrow> JawMetrics64 \<Rightarrow> double" where
  "calculateJawScore64 this jawMetrics =
     (let angleDeviation = calculateDeviation64 (jaw_angle64 jawMetrics)
            (range_jaw_angle64 (baselineRanges64 this));
          projectionDeviation = calculateDeviation64 (lowerFaceRatio64 jawMetrics)
            (range_jaw_chinRatio64 (baselineRanges64 this));
          asymmetryDeviation = calculateDeviation64 (jaw_asymmetry64 jawMetrics)
            (range_jaw_asymmetry64 (baselineRanges64 this));
          weightedDeviation =
            d_add (d_add
              (d_mul (weight_jaw_angle64 (weightingFactors64 this)) angleDeviation)
              (d_mul (weight_jaw_projection64 (weightingFactors64 this)) projectionDeviation))
              (d_mul (weight_jaw_asymmetry64 (weightingFactors64 this)) asymmetryDeviation)
      in deviationToScore64 weightedDeviation)"

record QualityScores64 =
  eyes_score64 :: double
  nose_score64 :: double
  jaw_score64 :: double
  overall64 :: double

definition calculateQualityScores64 ::
  "FacialMetricsCalculator64 \<Rightarrow> FacialFeatures64 \<Rightarrow> QualityScores64" where
  "calculateQualityScores64 this features =
     (let eyeScore = calculateEyeScore64 this (eyes64 features);
          noseScore = calculateNoseScore64 this (nose64 features);
          jawScore = calculateJawScore64 this (jaw64 features);
          overallScore = d_div (d_add (d_add eyeScore noseScore) jawScore) (Fin 3)
      in \<lparr>eyes_score64 = d_round eyeScore, nose_score64 = d_round noseScore,
          jaw_score64 = d_round jawScore, overall64 = d_round overallScore\<rparr>)"


section \<open>The scoring rule in the specification's words, in double precision\<close>

text \<open>
  The quantities scored per region, in the order of the region's intervals and weights,
  as in the exact model.
\<close>

definition scored_eyes64 :: "EyeMetrics64 \<Rightarrow> double list" where
  "scored_eyes64 m =
     [d_div (d_add (eye_aspectRatio64 (leftEye64 m)) (eye_aspectRatio64 (rightEye64 m))) (Fin 2),
      eyeSymmetry64 m,
      d_div (d_add (d_abs (eye_tilt64 (leftEye64 m))) (d_abs (eye_tilt64 (rightEye64 m))))
        (Fin 2)]"

definition scored_nose64 :: "NoseMetrics64 \<Rightarrow> double list" where
  "scored_nose64 m =
     [d_div (nose_width64 m) (bridgeWidth64 m), d_abs (tipProjection64 m), nostrilSymmetry64 m]"

definition scored_jaw64 :: "JawMetrics64 \<Rightarrow> double list" where
  "scored_jaw64 m = [jaw_angle64 m, lowerFaceRatio64 m, jaw_asymmetry64 m]"

definition ranges_eyes64 :: "BaselineRanges64 \<Rightarrow> (double \<times> double) list" where
  "ranges_eyes64 b = [range_eyes_aspectRatio64 b, range_eyes_symmetry64 b, range_eyes_tilt64 b]"

definition ranges_nose64 :: "BaselineRanges64 \<Rightarrow> (double \<times> double) list" where
  "ranges_nose64 b =
     [range_nose_widthRatio64 b, range_nose_projection64 b, range_nose_symmetry64 b]"

definition ranges_jaw64 :: "BaselineRanges64 \<Rightarrow> (double \<times> double) list" where
  "ranges_jaw64 b = [range_jaw_angle64 b, range_jaw_chinRatio64 b, range_jaw_asymmetry64 b]"

definition weights_eyes64 :: "WeightingFactors64 \<Rightarrow> double list" where
  "weights_eyes64 w =
     [weight_eyes_aspectRatio64 w, weight_eyes_symmetry64 w, weight_eyes_tilt64 w]"

definition weights_nose64 :: "WeightingFactors64 \<Rightarrow> double list" where
  "weights_nose64 w = [weight_nose_width64 w, weight_nose_projection64 w, weight_nose_symmetry64 w]"

definition weights_jaw64 :: "WeightingFactors64 \<Rightarrow> double list" where
  "weights_jaw64 w = [weight_jaw_angle64 w, weight_jaw_projection64 w, weight_jaw_asymmetry64 w]"

text \<open>
  A region's weighted deviation, the sum from left to right of weight times deviation
  over its quantities, and the region value \<open>100 * (1 - weightedDeviation)\<close> clamped to
  \<open>[0, 100]\<close>.
\<close>

definition weighted_deviation64 ::
  "double list \<Rightarrow> double list \<Rightarrow> (double \<times> double) list \<Rightarrow> double" where
  "weighted_deviation64 ws qs rs =
     (case map (\<lambda>(w, q, r). d_mul w (calculateDeviation64 q r)) (zip ws (zip qs rs)) of
        [] \<Rightarrow> Fin 0
      | t # ts \<Rightarrow> foldl d_add t ts)"

definition region_value64 :: "double \<Rightarrow> double" where
  "region_value64 wd = d_max (Fin 0) (d_min (Fin 100) (d_mul (Fin 100) (d_sub (Fin 1) wd)))"

text \<open>
  An interval is regular when its computed span \<open>max - min\<close> is a positive finite number
  and its computed centre \<open>(min + max) / 2\<close> is finite. A regular configuration has regular
  intervals and finite weights that are not negative. The scored quantities of a set of
  features are defined when none of them is \<open>NaN\<close>. \<open>nonneg\<close> holds of the positive
  infinity and of the finite numbers that are not negative.
\<close>

definition positive_span :: "double \<times> double \<Rightarrow> bool" where
  "positive_span r = (case r of (a, b) \<Rightarrow> (case d_sub b a of Fin s \<Rightarrow> 0 < s | _ \<Rightarrow> False))"

definition centre64 :: "double \<times> double \<Rightarrow> double" where
  "centre64 r = (case r of (a, b) \<Rightarrow> d_div (d_add a b) (Fin 2))"

definition regular_interval :: "double \<times> double \<Rightarrow> bool" where
  "regular_interval r = (positive_span r \<and> is_fin (centre64 r))"

definition nonneg_weight :: "double \<Rightarrow> bool" where
  "nonneg_weight w = (case w of Fin y \<Rightarrow> 0 \<le> y | _ \<Rightarrow> False)"

definition regular_configuration :: "FacialMetricsCalculator64 \<Rightarrow> bool" where
  "regular_configuration c =
     (list_all regular_interval
        (ranges_eyes64 (baselineRanges64 c) @ ranges_nose64 (baselineRanges64 c) @
         ranges_jaw64 (baselineRanges64 c)) \<and>
      list_all nonneg_weight
        (weights_eyes64 (weightingFactors64 c) @ weights_nose64 (weightingFactors64 c) @
         weights_jaw64 (weightingFactors64 c)))"

definition quantities_defined64 :: "FacialFeatures64 \<Rightarrow> bool" where
  "quantities_defined64 f =
     list_all (\<lambda>q. q \<noteq> NotANumber)
       (scored_eyes64 (eyes64 f) @ scored_nose64 (nose64 f) @ scored_jaw64 (jaw64 f))"

definition nonneg :: "double \<Rightarrow> bool" where
  "nonneg a = (case a of Fin y \<Rightarrow> 0 \<le> y | PosInf \<Rightarrow> True | _ \<Rightarrow> False)"

section \<open>Concrete inputs\<close>

text \<open>A landmark at the centre of the image whose visibility is exactly one half.\<close>

definition half_visible_landmark :: NormalizedLandmark where
  "half_visible_landmark =
     \<lparr>lm_x = Num 0.5, lm_y = Num 0.5, lm_z = None, lm_visibility = Some (Num 0.5),
      lm_presence = None\<rparr>"

text \<open>A landmark at the centre of the image, clearly visible.\<close>

definition centre_landmark :: NormalizedLandmark where
  "centre_landmark =
     \<lparr>lm_x = Num 0.5, lm_y = Num 0.5, lm_z = None, lm_visibility = Some (Num 0.9),
      lm_presence = None\<rparr>"

text \<open>The issue that \<open>validateImageQuality\<close> raises for a contrast of 20 under the default thresholds.\<close>

definition low_contrast_issue :: QualityIssue where
  "low_contrast_issue =
     \<lparr>issue_type = ty_contrast, severity = low,
      message = ''Image has low contrast. Please ensure even lighting.'',
      issue_value = Some (Num 20), threshold = Some (Num 30)\<rparr>"

text \<open>An image of no pixels, and a single mid-gray pixel.\<close>

definition empty_image :: ImageElement where
  "empty_image = \<lparr>el_width = 0, el_height = 0, el_pixels = [], el_context = True\<rparr>"

definition gray_pixel_image :: ImageElement where
  "gray_pixel_image =
     \<lparr>el_width = 1, el_height = 1, el_pixels = [128, 128, 128, 255], el_context = True\<rparr>"

text \<open>A 2 by 2 image of four equal mid-gray pixels.\<close>

definition gray_square_image :: ImageElement where
  "gray_square_image =
     \<lparr>el_width = 2, el_height = 2,
      el_pixels = [128, 128, 128, 255, 128, 128, 128, 255, 128, 128, 128, 255,
                   128, 128, 128, 255],
      el_context = True\<rparr>"

text \<open>
  A landmark set of 468 points, all at the centre but landmark 172, the first point of
  the left jaw line, which lies 0.3 to the right and 0.4 below.
\<close>

definition jaw_corner_landmark :: NormalizedLandmark where
  "jaw_corner_landmark =
     \<lparr>lm_x = Num 0.8, lm_y = Num 0.9, lm_z = None, lm_visibility = None, lm_presence = None\<rparr>"

definition wide_jaw_landmarks :: "NormalizedLandmark list" where
  "wide_jaw_landmarks =
     replicate 172 centre_landmark @ [jaw_corner_landmark] @ replicate 295 centre_landmark"

text \<open>The image of the given width and height all of whose pixels have the same bytes.\<close>

definition uniform_image ::
  "nat \<Rightarrow> nat \<Rightarrow> 8 word \<Rightarrow> 8 word \<Rightarrow> 8 word \<Rightarrow> 8 word \<Rightarrow> ImageElement" where
  "uniform_image w h r g b a =
     \<lparr>el_width = w, el_height = h, el_pixels = concat (replicate (w * h) [r, g, b, a]),
      el_context = True\<rparr>"

section \<open>Concrete inputs in double precision\<close>

text \<open>
  Features inside every default interval but for the tilt of both eyes (7.421875
  degrees) and the jaw angle (132.5 degrees). All numbers are doubles exactly.
\<close>

definition tilted_eye64 :: SingleEyeMetrics64 where
  "tilted_eye64 =
     \<lparr>eye_width64 = Fin 0.09375, eye_height64 = Fin 0.03125, eye_aspectRatio64 = Fin 3,
      eye_tilt64 = Fin 7.421875, eye_landmarks64 = []\<rparr>"

definition tilted_features64 :: FacialFeatures64 where
  "tilted_features64 =
     \<lparr>eyes64 = \<lparr>leftEye64 = tilted_eye64, rightEye64 = tilted_eye64,
                 interPupillaryDistance64 = Fin 0.125, eyeSymmetry64 = Fin 1\<rparr>,
      nose64 = \<lparr>nose_width64 = Fin 0.1015625, nose_length64 = Fin 0.125,
                 tipProjection64 = Fin 0.6875, bridgeWidth64 = Fin 0.125,
                 nostrilSymmetry64 = Fin 1,
                 nose_landmarks64 = []\<rparr>,
      jaw64 = \<lparr>jaw_width64 = Fin 0.25, jaw_angle64 = Fin 132.5, chinProjection64 = Fin 0,
                lowerFaceRatio64 = Fin 0.875, jaw_asymmetry64 = Fin 1,
                jaw_landmarks64 = []\<rparr>\<rparr>"

text \<open>
  The same features with coinciding nostril and bridge landmarks: nose width and bridge
  width are both 0.
\<close>

definition flat_nose_features64 :: FacialFeatures64 where
  "flat_nose_features64 =
     tilted_features64
       \<lparr>nose64 := \<lparr>nose_width64 = Fin 0, nose_length64 = Fin 0.125,
                    tipProjection64 = Fin 0.6875, bridgeWidth64 = Fin 0,
                    nostrilSymmetry64 = Fin 1,
                 nose_landmarks64 = []\<rparr>\<rparr>"

text \<open>
  Features at the boundary of two intervals: the aspect ratios of the eyes are the
  double \<open>2.8\<close> and the double just below it, 2.7999999999999994, whose mean rounds to
  the double \<open>2.8\<close>; the lower-face ratio is the double \<open>0.955\<close>.
\<close>

definition boundary_features64 :: FacialFeatures64 where
  "boundary_features64 =
     \<lparr>eyes64 = \<lparr>leftEye64 = \<lparr>eye_width64 = Fin 0.0875, eye_height64 = Fin 0.03125,
                               eye_aspectRatio64 = lit 2.8, eye_tilt64 = Fin 0,
                               eye_landmarks64 = []\<rparr>,
                 rightEye64 = \<lparr>eye_width64 = Fin 0.0875, eye_height64 = Fin 0.03125,
                                eye_aspectRatio64 = Fin (6305039478318693 / 2251799813685248),
                                eye_tilt64 = Fin 0, eye_landmarks64 = []\<rparr>,
                 interPupillaryDistance64 = Fin 0.125, eyeSymmetry64 = Fin 1\<rparr>,
      nose64 = \<lparr>nose_width64 = Fin 0.1015625, nose_length64 = Fin 0.125,
                 tipProjection64 = Fin 0.6875, bridgeWidth64 = Fin 0.125,
                 nostrilSymmetry64 = Fin 1,
                 nose_landmarks64 = []\<rparr>,
      jaw64 = \<lparr>jaw_width64 = Fin 0.25, jaw_angle64 = Fin 125, chinProjection64 = Fin 0,
                lowerFaceRatio64 = lit 0.955, jaw_asymmetry64 = Fin 1,
                jaw_landmarks64 = []\<rparr>\<rparr>"

section \<open>Auxiliary facts\<close>

lemma keyLandmarkIndices_eq:
  "keyLandmarkIndices = [33, 7, 163, 144, 362, 382, 381, 380, 1, 2, 5, 4, 18, 175, 199, 200]"
  by (simp add: keyLandmarkIndices_def LEFT_EYE_def RIGHT_EYE_def NOSE_TIP_def CHIN_def)

lemma fold_count_all:
  "\<forall>i\<in>set xs. P i \<Longrightarrow> fold (\<lambda>i c. if P i then c + 1 else c) xs (n::nat) = n + length xs"
  by (induction xs arbitrary: n) auto

lemma fold_count_none:
  "\<forall>i\<in>set xs. \<not> P i \<Longrightarrow> fold (\<lambda>i c. if P i then c + 1 else c) xs (n::nat) = n"
  by (induction xs arbitrary: n) auto

lemma recs_distinct:
  "distinct [REC_LIGHTING, REC_FACE_ANGLE, REC_FACE_SIZE, REC_BLUR, REC_POSITIVE]"
  by (simp add: REC_LIGHTING_def REC_FACE_ANGLE_def REC_FACE_SIZE_def REC_BLUR_def
      REC_POSITIVE_def)

lemma fold_severity:
  "fold (\<lambda>issue c. case severity issue of high \<Rightarrow> c - 30 | medium \<Rightarrow> c - 15 | low \<Rightarrow> c - 5) xs (c::int) =
     c - 30 * int (length (filter (\<lambda>i. severity i = high) xs))
       - 15 * int (length (filter (\<lambda>i. severity i = medium) xs))
       - 5 * int (length (filter (\<lambda>i. severity i = low) xs))"
proof (induction xs arbitrary: c)
  case Nil
  then show ?case by simp
next
  case (Cons a xs)
  then show ?case by (cases "severity a") simp_all
qed

lemma extract_replicate:
  "\<forall>i\<in>set idx. i < n \<Longrightarrow> extractLandmarksByIndices (replicate n p) idx = Inr (replicate (length idx) p)"
  by (induction idx) (auto simp: nth_opt_def bind_err_def)

lemma bbox_replicate_Suc:
  "calculateFaceBoundingBox (replicate (Suc n) \<lparr>lm_x = Num a, lm_y = Num b, lm_z = z, lm_visibility = v, lm_presence = q\<rparr>)
     = \<lparr>bb_left = Num a, bb_top = Num b, bb_width = Num 0, bb_height = Num 0\<rparr>"
proof -
  let ?p = "\<lparr>lm_x = Num a, lm_y = Num b, lm_z = z, lm_visibility = v, lm_presence = q\<rparr>"
  have "fold (\<lambda>landmark (minX, maxX, minY, maxY).
                    (js_min minX (lm_x landmark), js_max maxX (lm_x landmark),
                     js_min minY (lm_y landmark), js_max maxY (lm_y landmark)))
              (replicate k ?p) (Num a, Num a, Num b, Num b) = (Num a, Num a, Num b, Num b)" for k
    by (induction k) (simp_all add: js_min_def js_max_def)
  then show ?thesis
    by (simp add: calculateFaceBoundingBox_def js_min_def js_max_def js_sub_def)
qed

lemma centroid_replicate_Suc:
  "quality_calculateCentroid (replicate (Suc n) \<lparr>lm_x = Num a, lm_y = Num b, lm_z = z, lm_visibility = v, lm_presence = q\<rparr>)
     = (Num a, Num b)"
proof -
  let ?p = "\<lparr>lm_x = Num a, lm_y = Num b, lm_z = z, lm_visibility = v, lm_presence = q\<rparr>"
  have "fold (\<lambda>landmark acc. (js_add (fst acc) (lm_x landmark),
                                        js_add (snd acc) (lm_y landmark)))
                 (replicate k ?p) (Num s, Num t) = (Num (s + real k * a), Num (t + real k * b))" for k s t
    by (induction k arbitrary: s t) (simp_all add: algebra_simps)
  then show ?thesis
    by (simp add: quality_calculateCentroid_def) (simp add: field_simps)
qed

lemma bbox_replicate:
  "0 < n \<Longrightarrow> calculateFaceBoundingBox (replicate n \<lparr>lm_x = Num a, lm_y = Num b, lm_z = z, lm_visibility = v, lm_presence = q\<rparr>)
     = \<lparr>bb_left = Num a, bb_top = Num b, bb_width = Num 0, bb_height = Num 0\<rparr>"
  using bbox_replicate_Suc [of "n - 1"] by simp

lemma centroid_replicate:
  "0 < n \<Longrightarrow> quality_calculateCentroid (replicate n \<lparr>lm_x = Num a, lm_y = Num b, lm_z = z, lm_visibility = v, lm_presence = q\<rparr>)
     = (Num a, Num b)"
  using centroid_replicate_Suc [of "n - 1"] by simp

lemma iq_gray: "analyzeImageQuality gray_pixel_image
   = Inr \<lparr>iq_brightness = Num 128, iq_contrast = Num 0, iq_blur = NaN, iq_saturation = Num 0, iq_noise = NaN\<rparr>"
  by (simp add: gray_pixel_image_def analyzeImageQuality_def pixel_offsets_def estimateBlur_def estimateNoise_def
      calculateSaturation_def interior_grid_def interior_def js_max_def js_min_def js_sub_def
      luminance_at_def byte_at_def nth_opt_def js_pow2_def js_eq_def)

lemma completeness_centre:
  "calculateFaceCompleteness (replicate 468 centre_landmark) = Num 1"
proof -
  have "\<forall>i\<in>set keyLandmarkIndices. landmark_visible (replicate 468 centre_landmark) i"
    by (simp add: keyLandmarkIndices_eq landmark_visible_def nth_opt_def
        centre_landmark_def js_gt_def js_ge_def)
  then show ?thesis
    by (simp add: calculateFaceCompleteness_def fold_count_all keyLandmarkIndices_eq)
qed

lemma extract_replicate_len:
  "\<forall>i\<in>set idx. i < n \<Longrightarrow> length idx = k \<Longrightarrow>
   extractLandmarksByIndices (replicate n p) idx = Inr (replicate k p)"
  using extract_replicate by blast

lemma extract_centre:
  "extractLandmarksByIndices (replicate 468 centre_landmark) LEFT_EYE =
     Inr (replicate 16 centre_landmark)"
  "extractLandmarksByIndices (replicate 468 centre_landmark) RIGHT_EYE =
     Inr (replicate 16 centre_landmark)"
  "extractLandmarksByIndices (replicate 468 centre_landmark) FACE_OUTLINE =
     Inr (replicate 36 centre_landmark)"
  by (rule extract_replicate_len; simp add: LEFT_EYE_def RIGHT_EYE_def FACE_OUTLINE_def)+

lemma centroid_centre:
  "quality_calculateCentroid (replicate 16 centre_landmark) = (Num 0.5, Num 0.5)"
  by (simp add: centre_landmark_def centroid_replicate)

lemma symmetry_centre:
  "calculateFaceSymmetry (replicate 468 centre_landmark) = Inr NaN"
  by (simp add: calculateFaceSymmetry_def extract_centre bind_err_def centroid_centre
      Let_def js_sub_def js_pow2_def js_min_def js_max_def)

lemma angles_centre:
  "calculateFaceAngles (replicate 36 centre_landmark) = (Num 0, Num 0, Num 0)"
  by (simp add: calculateFaceAngles_def nth_opt_def centre_landmark_def js_sub_def
      atan2_real_def Let_def)

lemma fq_centre: "analyzeFaceQuality (replicate 468 centre_landmark) gray_pixel_image
   = Inr \<lparr>fq_yaw = Num 0, fq_pitch = Num 0, fq_roll = Num 0, fq_size_width = Num 0, fq_size_height = Num 0,
      fq_size_area = Num 0, fq_centerX = Num 0.5, fq_centerY = Num 0.5, fq_offsetFromCenter = Num 0,
      fq_completeness = Num 1, fq_symmetry = NaN\<rparr>"
proof -
  have bb: "calculateFaceBoundingBox (replicate 468 centre_landmark) =
      \<lparr>bb_left = Num 0.5, bb_top = Num 0.5, bb_width = Num 0, bb_height = Num 0\<rparr>"
    by (simp add: centre_landmark_def bbox_replicate)
  show ?thesis
    by (simp add: analyzeFaceQuality_def extract_centre bind_err_def
        angles_centre bb completeness_centre symmetry_centre gray_pixel_image_def Let_def
        js_sub_def js_pow2_def)
qed


lemma validateImage_centre:
  "validateImage DEFAULT_QUALITY_THRESHOLDS gray_pixel_image (replicate 468 centre_landmark) =
     Inr \<lparr>isValid = True,
          issues = [\<lparr>issue_type = ty_contrast, severity = low,
              message = ''Image has low contrast. Please ensure even lighting.'',
              issue_value = Some (Num 0), threshold = Some (Num 30)\<rparr>,
              \<lparr>issue_type = ty_face_size, severity = medium,
              message = ''Please move closer to the camera for better analysis.'',
              issue_value = Some (Num 0), threshold = Some (Num 0.3)\<rparr>],
          confidence = 90, recommendations = [REC_FACE_SIZE]\<rparr>"
proof -
  define iq0 where "iq0 = \<lparr>iq_brightness = Num 128, iq_contrast = Num 0, iq_blur = NaN,
    iq_saturation = Num 0, iq_noise = NaN\<rparr>"
  define fq0 where "fq0 = \<lparr>fq_yaw = Num 0, fq_pitch = Num 0, fq_roll = Num 0,
    fq_size_width = Num 0, fq_size_height = Num 0, fq_size_area = Num 0, fq_centerX = Num 0.5,
    fq_centerY = Num 0.5, fq_offsetFromCenter = Num 0, fq_completeness = Num 1,
    fq_symmetry = NaN\<rparr>"
  define i1 where "i1 = \<lparr>issue_type = ty_contrast, severity = low,
              message = ''Image has low contrast. Please ensure even lighting.'',
              issue_value = Some (Num 0), threshold = Some (Num 30)\<rparr>"
  define i2 where "i2 = \<lparr>issue_type = ty_face_size, severity = medium,
              message = ''Please move closer to the camera for better analysis.'',
              issue_value = Some (Num 0), threshold = Some (Num 0.3)\<rparr>"
  have iq: "analyzeImageQuality gray_pixel_image = Inr iq0"
    by (simp add: iq0_def iq_gray)
  have fq: "analyzeFaceQuality (replicate 468 centre_landmark) gray_pixel_image = Inr fq0"
    by (simp add: fq0_def fq_centre)
  have iqi: "validateImageQuality DEFAULT_QUALITY_THRESHOLDS iq0 = [i1]"
    by (simp add: validateImageQuality_def DEFAULT_QUALITY_THRESHOLDS_def js_gt_def iq0_def
        i1_def)
  have fqi: "validateFaceQuality DEFAULT_QUALITY_THRESHOLDS fq0 = [i2]"
    by (simp add: validateFaceQuality_def DEFAULT_QUALITY_THRESHOLDS_def js_gt_def fq0_def
        i2_def)
  have conf: "calculateConfidence DEFAULT_QUALITY_THRESHOLDS [i1, i2] iq0 fq0 = 90"
    by (simp add: calculateConfidence_def DEFAULT_QUALITY_THRESHOLDS_def js_gt_def iq0_def
        fq0_def i1_def i2_def)
  have res: "createResult True [i1, i2] 90 =
      \<lparr>isValid = True, issues = [i1, i2], confidence = 90, recommendations = [REC_FACE_SIZE]\<rparr>"
    by (simp add: createResult_def i1_def i2_def)
  have "validateImage DEFAULT_QUALITY_THRESHOLDS gray_pixel_image
          (replicate 468 centre_landmark) =
        Inr \<lparr>isValid = True, issues = [i1, i2], confidence = 90,
             recommendations = [REC_FACE_SIZE]\<rparr>"
    by (simp add: validateImage_def iq fq bind_err_def estimateFaceCount_def iqi fqi conf
        Let_def) (simp add: i1_def i2_def res [unfolded i1_def i2_def])
  then show ?thesis by (simp add: i1_def i2_def)
qed

lemma deviation_defined:
  assumes "q \<noteq> NaN" and "a \<le> b"
  shows "\<exists>d. calculateDeviation q (Num a, Num b) = Num d \<and> 0 \<le> d \<and> d \<le> 1"
proof (cases q)
  case (Num v)
  with assms(2) show ?thesis
    by (auto simp add: calculateDeviation_def js_ge_def js_sub_def js_min_def Let_def)
next
  case PInf
  with assms(2) show ?thesis
    by (auto simp add: calculateDeviation_def js_ge_def js_sub_def js_min_def Let_def)
next
  case NInf
  with assms(2) show ?thesis
    by (auto simp add: calculateDeviation_def js_ge_def js_sub_def js_min_def Let_def)
next
  case NaN
  with assms(1) show ?thesis by simp
qed

lemma deviationToScore_Num:
  "deviationToScore (Num wd) = Num (region_value wd)"
  by (simp add: deviationToScore_def region_value_def js_sub_def js_min_def js_max_def Let_def
      min_def max_def)

lemma is_finite_Num: "is_finite v \<Longrightarrow> v = Num (num_val v)"
  by (cases v) (simp_all add: is_finite_def num_val_def)

lemma js_sqrt_sum_squares:
  "js_sqrt (Num (u * u + v * v)) = Num (sqrt (u * u + v * v))"
  by (simp add: not_less)

lemma distance_finite:
  assumes "finite_point p" "finite_point q"
  shows "calculateDistance p q = Num (dist_real p q)"
proof -
  obtain a b c d where "lm_x p = Num a" "lm_y p = Num b" "lm_x q = Num c" "lm_y q = Num d"
    using assms is_finite_Num unfolding finite_point_def by metis
  then show ?thesis
    by (simp add: calculateDistance_def dist_real_def js_sub_def num_val_def Let_def
        power2_eq_square js_sqrt_sum_squares del: js_sqrt.simps)
qed

lemma dist_real_nonneg: "0 \<le> dist_real p q"
  by (simp add: dist_real_def)

lemma dist_real_self: "dist_real p p = 0"
  by (simp add: dist_real_def)

lemma dist_real_zero:
  "dist_real p q = 0 \<longleftrightarrow>
     num_val (lm_x p) = num_val (lm_x q) \<and> num_val (lm_y p) = num_val (lm_y q)"
  by (simp add: dist_real_def sum_power2_eq_zero_iff)

lemma extract_nth:
  "\<forall>i\<in>set idx. i < length landmarks \<Longrightarrow>
   extractLandmarksByIndices landmarks idx = Inr (map ((!) landmarks) idx)"
  by (induction idx) (auto simp: nth_opt_def bind_err_def)

lemma angle_defined:
  assumes "finite_point p" "finite_point c" "finite_point q"
  shows "calculateAngle p c q \<noteq> NaN"
proof -
  obtain a b a' b' a'' b'' where "lm_x p = Num a" "lm_y p = Num b" "lm_x c = Num a'"
      "lm_y c = Num b'" "lm_x q = Num a''" "lm_y q = Num b''"
    using assms is_finite_Num unfolding finite_point_def by metis
  then show ?thesis
    by (auto simp add: calculateAngle_def js_sub_def js_eq_def js_min_def js_max_def Let_def
        js_sqrt_sum_squares simp del: js_sqrt.simps)
qed

lemma perimeter_fold:
  assumes "\<forall>p\<in>set ps. finite_point p" and "n \<le> length ps - 1"
  shows "fold (\<lambda>i perimeter.
             case (nth_opt ps i, nth_opt ps (i + 1)) of
               (Some current, Some next) \<Rightarrow> js_add perimeter (calculateDistance current next)
             | _ \<Rightarrow> perimeter)
       [0 ..< n] (Num 0) = Num (\<Sum>i<n. dist_real (ps ! i) (ps ! (i + 1)))"
  using assms(2)
proof (induction n)
  case 0
  then show ?case by simp
next
  case (Suc n)
  then have lt: "n < length ps" "n + 1 < length ps" by simp_all
  with assms(1) have "finite_point (ps ! n)" "finite_point (ps ! (n + 1))"
    by (simp_all add: nth_mem del: add.commute)
  then have "calculateDistance (ps ! n) (ps ! (n + 1)) = Num (dist_real (ps ! n) (ps ! (n + 1)))"
    by (rule distance_finite)
  with Suc lt show ?case
    by (simp add: nth_opt_def)
qed

lemma jaw_side_size:
  assumes "\<forall>p\<in>set ps. finite_point p"
  shows "calculateJawSideSize ps = Num (\<Sum>i<length ps - 1. dist_real (ps ! i) (ps ! (i + 1)))"
  unfolding calculateJawSideSize_def using perimeter_fold [OF assms order_refl] .

lemma chain_equal:
  "\<forall>i<n. g (ps ! i) = g (ps ! (i + 1)) \<Longrightarrow> k \<le> n \<Longrightarrow> g (ps ! 0) = g (ps ! k)"
  by (induction k) auto

lemma perimeter_zero:
  assumes "(\<Sum>i<n. dist_real (ps ! i) (ps ! (i + 1))) = 0" and "k \<le> n"
  shows "dist_real (ps ! 0) (ps ! k) = 0"
proof -
  have "\<forall>i\<in>{..<n}. dist_real (ps ! i) (ps ! (i + 1)) = 0"
    using assms(1) by (subst (asm) sum_nonneg_eq_0_iff) (simp_all add: dist_real_nonneg)
  then have e: "\<forall>i<n. num_val (lm_x (ps ! i)) = num_val (lm_x (ps ! (i + 1)))"
     "\<forall>i<n. num_val (lm_y (ps ! i)) = num_val (lm_y (ps ! (i + 1)))"
    by (simp_all add: dist_real_zero)
  show ?thesis
    using chain_equal [OF e(1) assms(2)] chain_equal [OF e(2) assms(2)]
    by (simp add: dist_real_zero)
qed


lemma extract_region:
  assumes "468 \<le> length landmarks"
  shows "extractLandmarksByIndices landmarks LEFT_EYE = Inr (map ((!) landmarks) LEFT_EYE)"
    and "extractLandmarksByIndices landmarks RIGHT_EYE = Inr (map ((!) landmarks) RIGHT_EYE)"
    and "extractLandmarksByIndices landmarks NOSE_TIP = Inr (map ((!) landmarks) NOSE_TIP)"
    and "extractLandmarksByIndices landmarks NOSE_BRIDGE = Inr (map ((!) landmarks) NOSE_BRIDGE)"
    and "extractLandmarksByIndices landmarks NOSTRIL_LEFT = Inr (map ((!) landmarks) NOSTRIL_LEFT)"
    and "extractLandmarksByIndices landmarks NOSTRIL_RIGHT = Inr (map ((!) landmarks) NOSTRIL_RIGHT)"
    and "extractLandmarksByIndices landmarks JAW_LEFT = Inr (map ((!) landmarks) JAW_LEFT)"
    and "extractLandmarksByIndices landmarks JAW_RIGHT = Inr (map ((!) landmarks) JAW_RIGHT)"
    and "extractLandmarksByIndices landmarks CHIN = Inr (map ((!) landmarks) CHIN)"
  using assms
  by (intro extract_nth; simp add: LEFT_EYE_def RIGHT_EYE_def NOSE_TIP_def NOSE_BRIDGE_def
      NOSTRIL_LEFT_def NOSTRIL_RIGHT_def JAW_LEFT_def JAW_RIGHT_def CHIN_def)+

lemma eye_metrics_ok:
  assumes "468 \<le> length landmarks"
  shows "\<exists>e. calculateEyeMetrics landmarks = Inr e"
  using assms
  by (simp add: calculateEyeMetrics_def extract_region [OF assms] bind_err_def
      calculateSingleEyeMetrics_def nth_opt_def LEFT_EYE_def RIGHT_EYE_def Let_def)

lemma nose_metrics_ok:
  assumes "468 \<le> length landmarks"
  shows "\<exists>n. calculateNoseMetrics landmarks = Inr n"
  using assms
  by (simp add: calculateNoseMetrics_def extract_region [OF assms] bind_err_def
      calculateNostrilWidth_def nth_opt_def NOSE_TIP_def NOSE_BRIDGE_def NOSTRIL_LEFT_def
      NOSTRIL_RIGHT_def Let_def)

lemma jaw_metrics_eq:
  assumes "468 \<le> length landmarks"
  shows "calculateJawMetrics landmarks =
     Inr \<lparr>jaw_width = calculateDistance (landmarks ! 172) (landmarks ! 397),
          jaw_angle = calculateAngle (landmarks ! 172) (landmarks ! 18) (landmarks ! 397),
          chinProjection = or_zero (lm_z (landmarks ! 18)),
          lowerFaceRatio = js_div (calculateDistance (landmarks ! 9) (landmarks ! 9))
                             (calculateDistance (landmarks ! 172) (landmarks ! 397)),
          jaw_asymmetry = js_div (calculateJawSideSize (map ((!) landmarks) JAW_LEFT))
                            (calculateJawSideSize (map ((!) landmarks) JAW_RIGHT)),
          jaw_landmarks = map ((!) landmarks) JAW_LEFT @ map ((!) landmarks) JAW_RIGHT @
                            map ((!) landmarks) CHIN\<rparr>"
proof -
  have n: "nth_opt (map ((!) landmarks) JAW_LEFT) 0 = Some (landmarks ! 172)"
    "nth_opt (map ((!) landmarks) JAW_RIGHT) 0 = Some (landmarks ! 397)"
    "nth_opt (map ((!) landmarks) CHIN) 0 = Some (landmarks ! 18)"
    "nth_opt (map ((!) landmarks) CHIN) 4 = Some (landmarks ! 9)"
    "nth_opt (map ((!) landmarks) CHIN) 12 = Some (landmarks ! 9)"
    by (simp_all add: nth_opt_def JAW_LEFT_def JAW_RIGHT_def CHIN_def)
  show ?thesis
    by (simp add: calculateJawMetrics_def extract_region [OF assms] bind_err_def n
        calculateChinWidth_def Let_def)
qed

lemma facial_features_jaw:
  assumes "468 \<le> length landmarks"
  shows "\<exists>e n. calculateFacialFeatures landmarks =
     Inr \<lparr>eyes = e, nose = n,
       jaw = \<lparr>jaw_width = calculateDistance (landmarks ! 172) (landmarks ! 397),
          jaw_angle = calculateAngle (landmarks ! 172) (landmarks ! 18) (landmarks ! 397),
          chinProjection = or_zero (lm_z (landmarks ! 18)),
          lowerFaceRatio = js_div (calculateDistance (landmarks ! 9) (landmarks ! 9))
                             (calculateDistance (landmarks ! 172) (landmarks ! 397)),
          jaw_asymmetry = js_div (calculateJawSideSize (map ((!) landmarks) JAW_LEFT))
                            (calculateJawSideSize (map ((!) landmarks) JAW_RIGHT)),
          jaw_landmarks = map ((!) landmarks) JAW_LEFT @ map ((!) landmarks) JAW_RIGHT @
                            map ((!) landmarks) CHIN\<rparr>\<rparr>"
proof -
  obtain e where e: "calculateEyeMetrics landmarks = Inr e"
    using eye_metrics_ok [OF assms] by blast
  obtain n where n: "calculateNoseMetrics landmarks = Inr n"
    using nose_metrics_ok [OF assms] by blast
  show ?thesis
    using assms by (simp add: calculateFacialFeatures_def e n jaw_metrics_eq bind_err_def)
qed


lemma finite_landmarks_nth:
  "finite_landmarks landmarks \<Longrightarrow> i < length landmarks \<Longrightarrow> finite_point (landmarks ! i)"
  by (simp add: finite_landmarks_def list_all_length)

lemma jaw_left_perimeter:
  assumes "468 \<le> length landmarks" and "finite_landmarks landmarks"
    and "dist_real (landmarks ! 172) (landmarks ! 397) \<noteq> 0"
  shows "\<exists>l. calculateJawSideSize (map ((!) landmarks) JAW_LEFT) = Num l \<and> 0 < l"
proof -
  let ?ps = "map ((!) landmarks) JAW_LEFT"
  let ?l = "\<Sum>i<length ?ps - 1. dist_real (?ps ! i) (?ps ! (i + 1))"
  have "\<forall>p\<in>set ?ps. finite_point p"
    using assms(1) finite_landmarks_nth [OF assms(2)] by (simp add: JAW_LEFT_def)
  then have eq: "calculateJawSideSize ?ps = Num ?l"
    by (rule jaw_side_size)
  have ends: "?ps ! 0 = landmarks ! 172" "?ps ! 12 = landmarks ! 397" "12 \<le> length ?ps - 1"
    by (simp_all add: JAW_LEFT_def)
  have "?l \<noteq> 0"
  proof
    assume "?l = 0"
    then have "dist_real (?ps ! 0) (?ps ! 12) = 0"
      using ends(3) by (rule perimeter_zero)
    with assms(3) show False by (simp only: ends)
  qed
  moreover have "0 \<le> ?l"
    by (intro sum_nonneg) (simp add: dist_real_nonneg)
  ultimately have "0 < ?l" by simp
  with eq show ?thesis by blast
qed

lemma jaw_right_perimeter:
  assumes "468 \<le> length landmarks" and "finite_landmarks landmarks"
  shows "\<exists>r. calculateJawSideSize (map ((!) landmarks) JAW_RIGHT) = Num r \<and> 0 \<le> r"
proof -
  let ?ps = "map ((!) landmarks) JAW_RIGHT"
  have "\<forall>p\<in>set ?ps. finite_point p"
    using assms(1) finite_landmarks_nth [OF assms(2)] by (simp add: JAW_RIGHT_def)
  then have "calculateJawSideSize ?ps =
      Num (\<Sum>i<length ?ps - 1. dist_real (?ps ! i) (?ps ! (i + 1)))"
    by (rule jaw_side_size)
  moreover have "0 \<le> (\<Sum>i<length ?ps - 1. dist_real (?ps ! i) (?ps ! (i + 1)))"
    by (intro sum_nonneg) (simp add: dist_real_nonneg)
  ultimately show ?thesis by blast
qed

lemma chin_ratio_deviation:
  "calculateDeviation (Num 0) (range_jaw_chinRatio DEFAULT_BASELINE_RANGES) = Num 1"
  by (simp add: DEFAULT_BASELINE_RANGES_def calculateDeviation_def js_ge_def js_sub_def
      js_min_def Let_def)

lemma jaw_score_bound:
  assumes "jaw_angle m \<noteq> NaN" and "lowerFaceRatio m = Num 0" and "jaw_asymmetry m \<noteq> NaN"
  shows "\<exists>v. calculateJawScore default_calculator m = Num v \<and> 0 \<le> v \<and> v \<le> 70"
proof -
  obtain da where da: "calculateDeviation (jaw_angle m) (Num 120, Num 130) = Num da" "0 \<le> da"
    using deviation_defined [OF assms(1), of 120 130] by auto
  obtain ds where ds: "calculateDeviation (jaw_asymmetry m) (Num 0.95, Num 1.05) = Num ds"
      "0 \<le> ds"
    using deviation_defined [OF assms(3), of "0.95" "1.05"] by auto
  have "calculateJawScore default_calculator m =
      Num (region_value (0.45 * da + 0.3 * 1 + 0.25 * ds))"
    using chin_ratio_deviation da(1) ds(1)
    by (simp add: calculateJawScore_def default_calculator_def DEFAULT_BASELINE_RANGES_def
        DEFAULT_WEIGHTING_FACTORS_def assms(2) deviationToScore_Num Let_def)
  moreover have "0 \<le> region_value (0.45 * da + 0.3 * 1 + 0.25 * ds)"
    by (simp add: region_value_def)
  moreover have "region_value (0.45 * da + 0.3 * 1 + 0.25 * ds) \<le> 70"
    using da(2) ds(2) by (simp add: region_value_def)
  ultimately show ?thesis by blast
qed

lemma wide_jaw_length: "468 \<le> length wide_jaw_landmarks"
  by (simp add: wide_jaw_landmarks_def)

lemma wide_jaw_finite: "finite_landmarks wide_jaw_landmarks"
  by (simp add: wide_jaw_landmarks_def finite_landmarks_def finite_point_def
      centre_landmark_def jaw_corner_landmark_def is_finite_def list_all_iff)

lemma wide_jaw_points:
  "wide_jaw_landmarks ! 172 = jaw_corner_landmark" "wide_jaw_landmarks ! 397 = centre_landmark"
  by (simp_all add: wide_jaw_landmarks_def nth_append)

lemma wide_jaw_width:
  "calculateDistance jaw_corner_landmark centre_landmark \<noteq> Num 0"
  by (simp add: calculateDistance_def jaw_corner_landmark_def centre_landmark_def js_sub_def
      Let_def)

section \<open>Uniform images\<close>

text \<open>
  In exact arithmetic, the contrast of a uniform image of at least 3 by 3 pixels is 0 and
  its blur is 1 (\<open>uniform_image_metrics\<close>).
\<close>

lemma uniform_length: "length (concat (replicate n [r, g, b, a])) = 4 * n"
  by (induction n) simp_all

lemma uniform_nth:
  "k < n \<Longrightarrow>
   concat (replicate n [r, g, b, a]) ! (4 * k) = r \<and>
   concat (replicate n [r, g, b, a]) ! (4 * k + 1) = g \<and>
   concat (replicate n [r, g, b, a]) ! (4 * k + 2) = b"
proof (induction n arbitrary: k)
  case 0
  then show ?case by simp
next
  case (Suc n)
  show ?case
  proof (cases k)
    case 0
    then show ?thesis by simp
  next
    case (Suc j)
    with Suc.prems have "j < n" by simp
    from Suc.IH [OF this] show ?thesis
      by (simp add: Suc nth_Cons')
  qed
qed

lemma uniform_byte_at:
  assumes "k < n"
  shows "byte_at (concat (replicate n [r, g, b, a])) (4 * k) = Num (real (unat r))"
    and "luminance_at (concat (replicate n [r, g, b, a])) (4 * k) =
           Num (0.299 * real (unat r) + 0.587 * real (unat g) + 0.114 * real (unat b))"
  using uniform_nth [OF assms, of r g b a] assms
  by (simp_all add: byte_at_def luminance_at_def nth_opt_def uniform_length)

lemma offsets_set:
  "i \<in> set (pixel_offsets (concat (replicate n [r, g, b, a]))) \<Longrightarrow> \<exists>k<n. i = 4 * k"
  by (auto simp add: pixel_offsets_def uniform_length)

lemma filter_mod4_length: "length (filter (\<lambda>i. i mod 4 = 0) [0 ..< 4 * n]) = n"
proof (induction n)
  case 0
  then show ?case by simp
next
  case (Suc n)
  have four: "[m ..< m + 4] = [m, m + 1, m + 2, m + 3]" for m :: nat
    by (simp add: numeral_eq_Suc)
  have "[0 ..< 4 * Suc n] = [0 ..< 4 * n] @ [4 * n ..< 4 * n + 4]"
    using upt_add_eq_append [of 0 "4 * n" 4] by (simp add: add.commute)
  then have "[0 ..< 4 * Suc n] = [0 ..< 4 * n] @ [4 * n, 4 * n + 1, 4 * n + 2, 4 * n + 3]"
    by (simp only: four)
  then show ?case using Suc by (simp add: mod_Suc)
qed

lemma offsets_length:
  "length (pixel_offsets (concat (replicate n [r, g, b, a]))) = n"
  by (simp add: pixel_offsets_def uniform_length filter_mod4_length)

lemma fold_constant_sum:
  "\<forall>i\<in>set xs. f i = Num c \<Longrightarrow>
   fold (\<lambda>i t. js_add t (f i)) xs (Num s) = Num (s + real (length xs) * c)"
  by (induction xs arbitrary: s) (simp_all add: algebra_simps)


lemma grid_length:
  "length (concat (map (\<lambda>y. map (\<lambda>x. (x, y)) xs) ys)) = length xs * length ys"
  by (induction ys) simp_all

lemma interior_all: "interior (Suc 0) n = [Suc 0 ..< n - Suc 0]"
  by (simp add: interior_def)

lemma interior_grid_mem:
  "(x, y) \<in> set (interior_grid 1 w h) \<Longrightarrow> 1 \<le> x \<and> x < w - 1 \<and> 1 \<le> y \<and> y < h - 1"
  by (auto simp add: interior_grid_def interior_all)

lemma interior_grid_length: "length (interior_grid 1 w h) = (w - 2) * (h - 2)"
  by (simp add: interior_grid_def interior_all grid_length numeral_2_eq_2)

lemma pixel_index_bound:
  assumes "x < w" and "y < h"
  shows "y * w + x < w * (h :: nat)"
proof -
  have "y * w + x < y * w + w" using assms(1) by simp
  also have "\<dots> = Suc y * w" by simp
  also have "\<dots> \<le> h * w" using assms(2) by (intro mult_le_mono1) simp
  finally show ?thesis by (simp add: mult.commute)
qed

lemma fold_no_edges:
  assumes "\<forall>e\<in>set xs. \<forall>c. step e (Num 0, c) = (Num 0, c + 1)"
  shows "fold step xs (Num 0, c) = (Num 0, c + length xs)"
  using assms by (induction xs arbitrary: c) simp_all

lemma uniform_blur:
  assumes "3 \<le> w" and "3 \<le> h"
  shows "estimateBlur (concat (replicate (w * h) [r, g, b, a])) w h = Num 1"
proof -
  let ?px = "concat (replicate (w * h) [r, g, b, a])"
  let ?step = "\<lambda>(x, y) (edgeSum, edgeCount).
                    let index = (y * w + x) * 4;
                        current = byte_at ?px index;
                        right = byte_at ?px (index + 4);
                        down = byte_at ?px ((y + 1) * w * 4 + x * 4);
                        edgeStrength = js_add (js_abs (js_sub current right))
                                              (js_abs (js_sub current down))
                    in (js_add edgeSum edgeStrength, edgeCount + (1::nat))"
  have step: "\<forall>e\<in>set (interior_grid 1 w h). \<forall>c. ?step e (Num 0, c) = (Num 0, c + 1)"
  proof (intro ballI allI)
    fix e c assume e: "e \<in> set (interior_grid 1 w h)"
    obtain x y where xy: "e = (x, y)" by (cases e)
    with e have b: "1 \<le> x" "x < w - 1" "1 \<le> y" "y < h - 1"
      using interior_grid_mem by blast+
    have k: "y * w + x < w * h" "y * w + x + 1 < w * h" "(y + 1) * w + x < w * h"
      using b pixel_index_bound [of x w y h] pixel_index_bound [of "x + 1" w y h]
        pixel_index_bound [of x w "y + 1" h] by simp_all
    have i: "(y * w + x) * 4 = 4 * (y * w + x)" "(y * w + x) * 4 + 4 = 4 * (y * w + x + 1)"
      "(y + 1) * w * 4 + x * 4 = 4 * ((y + 1) * w + x)"
      by (simp_all add: algebra_simps)
    have b1: "byte_at ?px (4 * (y * w + x)) = Num (real (unat r))"
      and b2: "byte_at ?px (4 * (y * w + x + 1)) = Num (real (unat r))"
      and b3: "byte_at ?px (4 * ((y + 1) * w + x)) = Num (real (unat r))"
      using k by (intro uniform_byte_at(1); simp)+
    have "byte_at ?px ((y * w + x) * 4) = Num (real (unat r))"
      using b1 by (simp only: i(1))
    moreover have "byte_at ?px ((y * w + x) * 4 + 4) = Num (real (unat r))"
      using b2 by (simp only: i(2))
    moreover have "byte_at ?px ((y + 1) * w * 4 + x * 4) = Num (real (unat r))"
      using b3 by (simp only: i(3))
    ultimately have "?step (x, y) (Num 0, c) = (Num 0, c + 1)"
      by (simp add: js_sub_def Let_def)
    then show "?step e (Num 0, c) = (Num 0, c + 1)"
      by (simp only: xy)
  qed
  have cnt: "0 < (w - 2) * (h - 2)" using assms by simp
  have "fold ?step (interior_grid 1 w h) (Num 0, 0) =
      (Num 0, 0 + length (interior_grid 1 w h))"
    by (rule fold_no_edges [OF step])
  then have run: "fold ?step (interior_grid 1 w h) (Num 0, 0) = (Num 0, (w - 2) * (h - 2))"
    by (simp only: interior_grid_length add_0)
  have "estimateBlur ?px w h =
      js_max (Num 0) (js_min (Num 1)
        (js_sub (Num 1) (js_div (js_div (Num 0) (Num (real ((w - 2) * (h - 2))))) (Num 255))))"
    unfolding estimateBlur_def by (subst run) (simp only: Let_def prod.case)
  also have "\<dots> = Num 1"
    using cnt by (simp add: js_sub_def js_min_def js_max_def)
  finally show ?thesis .
qed

lemma uniform_brightness_contrast:
  fixes r g b a :: "8 word"
  assumes "0 < n"
  defines "px \<equiv> concat (replicate n [r, g, b, a])"
  defines "l \<equiv> 0.299 * real (unat r) + 0.587 * real (unat g) + 0.114 * real (unat b)"
  shows "js_div (fold (\<lambda>i total. js_add total (luminance_at px i)) (pixel_offsets px) (Num 0))
           (js_div (Num (real (length px))) (Num 4)) = Num l"
    and "js_sqrt (js_div
           (fold (\<lambda>i total. js_add total (js_pow2 (js_sub (luminance_at px i) (Num l))))
              (pixel_offsets px) (Num 0))
           (js_div (Num (real (length px))) (Num 4))) = Num 0"
proof -
  have lum: "\<forall>i\<in>set (pixel_offsets px). luminance_at px i = Num l"
    using offsets_set [of _ n r g b a] uniform_byte_at(2) [of _ n r g b a]
    unfolding px_def l_def by blast
  then have var: "\<forall>i\<in>set (pixel_offsets px).
      js_pow2 (js_sub (luminance_at px i) (Num l)) = Num 0"
    by (simp add: js_sub_def js_pow2_def)
  have len: "length (pixel_offsets px) = n" "length px = 4 * n"
    by (simp_all add: px_def offsets_length uniform_length)
  show "js_div (fold (\<lambda>i total. js_add total (luminance_at px i)) (pixel_offsets px) (Num 0))
           (js_div (Num (real (length px))) (Num 4)) = Num l"
    using assms(1) by (simp add: fold_constant_sum [OF lum] len)
  show "js_sqrt (js_div
           (fold (\<lambda>i total. js_add total (js_pow2 (js_sub (luminance_at px i) (Num l))))
              (pixel_offsets px) (Num 0))
           (js_div (Num (real (length px))) (Num 4))) = Num 0"
    using assms(1) by (simp add: fold_constant_sum [OF var] len)
qed

lemma uniform_image_metrics:
  assumes "3 \<le> w" and "3 \<le> h"
  shows "\<exists>m. analyzeImageQuality (uniform_image w h r g b a) = Inr m \<and>
             iq_brightness m =
               Num (0.299 * real (unat r) + 0.587 * real (unat g) + 0.114 * real (unat b)) \<and>
             iq_contrast m = Num 0 \<and> iq_blur m = Num 1"
proof -
  have n: "0 < w * h" using assms by simp
  have z: "\<not> (w = 0 \<or> h = 0)" using assms by simp
  show ?thesis
    unfolding analyzeImageQuality_def uniform_image_def Let_def
    by (simp only: ImageElement.select_convs uniform_brightness_contrast [OF n]
        uniform_blur [OF assms] z) simp
qed

section \<open>Auxiliary facts on double precision\<close>

text \<open>
Rounding: signs, a concrete rounding from its binade, overflow, and bounds.
\<close>

lemma round_half_even_nonneg: "0 \<le> m \<Longrightarrow> 0 \<le> round_half_even m"
  by (auto simp add: round_half_even_def Let_def)

lemma round_half_even_nonpos: "m \<le> 0 \<Longrightarrow> round_half_even m \<le> 0"
proof -
  assume m: "m \<le> 0"
  show ?thesis
  proof (cases "m = 0")
    case True
    then show ?thesis by (simp add: round_half_even_def)
  next
    case False
    with m have "\<lfloor>m\<rfloor> \<le> - 1" by (simp add: floor_le_iff)
    then show ?thesis by (auto simp add: round_half_even_def Let_def)
  qed
qed

lemma round64_not_nan: "round64 x \<noteq> NotANumber"
  by (simp add: round64_def signed_inf_def signed_zero_def Let_def)

lemma round64_pos:
  assumes "0 < x"
  shows "round64 x = PosInf \<or> (\<exists>y\<ge>0. round64 x = Fin y)"
proof -
  let ?u = "2 powi (binade x - 52) :: real"
  have "0 < ?u" by simp
  with assms have "0 \<le> x / ?u" by simp
  then have "0 \<le> round_half_even (x / ?u)" by (rule round_half_even_nonneg)
  then have "0 \<le> of_int (round_half_even (x / ?u)) * ?u" by simp
  with assms show ?thesis
    by (auto simp add: round64_def signed_inf_def signed_zero_def Let_def)
qed

lemma round64_neg:
  assumes "x < 0"
  shows "round64 x = NegInf \<or> round64 x = NegZero \<or> (\<exists>y<0. round64 x = Fin y)"
proof -
  let ?u = "2 powi (binade x - 52) :: real"
  have u: "0 < ?u" by simp
  with assms have "x / ?u \<le> 0" by (simp add: divide_nonpos_pos)
  then have "round_half_even (x / ?u) \<le> 0" by (rule round_half_even_nonpos)
  then have le: "of_int (round_half_even (x / ?u)) * ?u \<le> 0"
    using u by (simp add: mult_nonpos_nonneg)
  show ?thesis
  proof (cases "of_int (round_half_even (x / ?u)) * ?u = 0")
    case True
    with assms show ?thesis
      by (simp add: round64_def signed_inf_def signed_zero_def Let_def)
  next
    case False
    with le have "of_int (round_half_even (x / ?u)) * ?u < 0"
      by (rule order.not_eq_order_implies_strict [rotated])
    with assms False show ?thesis
      by (simp add: round64_def signed_inf_def signed_zero_def Let_def)
  qed
qed

lemma binade_eq:
  assumes "2 powi e \<le> \<bar>x\<bar>" and "\<bar>x\<bar> < 2 powi (e + 1)" and "- 1022 \<le> e"
  shows "binade x = e"
proof -
  have pos: "0 < \<bar>x\<bar>" using assms(1) by (smt (verit) zero_less_power_int)
  have "(2::real) powr real_of_int e = 2 powi e" "(2::real) powr (real_of_int e + 1) = 2 powi (e + 1)"
    using powr_real_of_int' [of 2 e] powr_real_of_int' [of 2 "e + 1"] by simp_all
  with assms(1,2) have "\<lfloor>log 2 \<bar>x\<bar>\<rfloor> = e"
    using floor_log_eq_powr_iff [of "\<bar>x\<bar>" 2 e] pos by simp
  with assms(3) show ?thesis by (simp add: binade_def)
qed

lemma round_half_even_nonzero:
  assumes "1 \<le> \<bar>m\<bar>"
  shows "round_half_even m \<noteq> 0"
proof -
  define f where "f = \<lfloor>m\<rfloor>"
  define d where "d = m - of_int f"
  have r: "round_half_even m =
      (if d < 1 / 2 then f else if 1 / 2 < d then f + 1 else if even f then f else f + 1)"
    by (simp add: round_half_even_def Let_def f_def d_def)
  show ?thesis
  proof (cases "0 \<le> m")
    case True
    with assms have "1 \<le> f" by (simp add: f_def)
    then show ?thesis unfolding r by auto
  next
    case False
    with assms have m: "m \<le> - 1" by simp
    then have f: "f \<le> - 1" by (simp add: f_def floor_le_iff)
    show ?thesis
    proof (cases "f = - 1")
      case True
      with m have "d < 1 / 2" by (simp add: d_def)
      then show ?thesis unfolding r using True by simp
    next
      case False
      with f have "f \<le> - 2" by arith
      then show ?thesis unfolding r by auto
    qed
  qed
qed

lemma round64_eval:
  assumes "2 powi e \<le> \<bar>x\<bar>" and "\<bar>x\<bar> < 2 powi (e + 1)" and "- 1022 \<le> e"
    and "\<bar>x\<bar> < overflow_threshold"
  shows "round64 x = Fin (of_int (round_half_even (x / 2 powi (e - 52))) * 2 powi (e - 52))"
proof -
  have x: "x \<noteq> 0" using assms(1) by (smt (verit) zero_less_power_int)
  have b: "binade x = e" using assms(1-3) by (rule binade_eq)
  have "2 powi e = (2::real) powi 52 * 2 powi (e - 52)"
    using power_int_add [of "2::real" 52 "e - 52"] by simp
  then have "1 \<le> \<bar>x\<bar> / 2 powi (e - 52)"
    using assms(1) by (simp add: le_divide_eq)
  then have "1 \<le> \<bar>x / 2 powi (e - 52)\<bar>" by simp
  then have "round_half_even (x / 2 powi (e - 52)) \<noteq> 0"
    by (rule round_half_even_nonzero)
  then show ?thesis
    using x assms(4) by (simp add: round64_def b Let_def)
qed

lemma round64_overflow:
  assumes "overflow_threshold \<le> \<bar>x\<bar>"
  shows "round64 x = signed_inf (x < 0)"
proof -
  have "0 < overflow_threshold" by (simp add: overflow_threshold_def)
  with assms have "x \<noteq> 0" by auto
  with assms show ?thesis by (simp add: round64_def)
qed

lemma round_half_even_le_int:
  assumes "t \<le> of_int M"
  shows "round_half_even t \<le> M"
proof -
  define f where "f = \<lfloor>t\<rfloor>"
  define d where "d = t - of_int f"
  have r: "round_half_even t =
      (if d < 1 / 2 then f else if 1 / 2 < d then f + 1 else if even f then f else f + 1)"
    by (simp add: round_half_even_def Let_def f_def d_def)
  have fM: "f \<le> M" unfolding f_def using assms by (simp add: floor_le_iff)
  show ?thesis
  proof (cases "f = M")
    case True
    have "of_int f \<le> t" unfolding f_def by simp
    with assms True have "d = 0" by (simp add: d_def)
    then show ?thesis unfolding r using True by simp
  next
    case False
    with fM have "f + 1 \<le> M" by arith
    then show ?thesis unfolding r by auto
  qed
qed

lemma binade_le_52:
  assumes "0 < x" and "x < 2 ^ 53"
  shows "binade x \<le> 52"
proof -
  have "log 2 x < 53"
    using assms log_less_iff [of 2 x 53] by (simp add: powr_realpow)
  then have "\<lfloor>log 2 x\<rfloor> < 53" by (simp add: floor_less_iff)
  with assms(1) show ?thesis by (simp add: binade_def)
qed

lemma round64_le_nat:
  assumes "0 < x" and "x \<le> real c" and "c < 2 ^ 53"
  shows "\<exists>y. round64 x = Fin y \<and> 0 \<le> y \<and> y \<le> real c"
proof -
  have c: "real c < 2 ^ 53" using assms(3) by (metis of_nat_less_iff of_nat_numeral of_nat_power)
  with assms(2) have x53: "x < 2 ^ 53" by simp
  have "(2::real) ^ 53 < overflow_threshold" by (simp add: overflow_threshold_def)
  with x53 assms(1) have novf: "\<not> overflow_threshold \<le> \<bar>x\<bar>" by simp
  define n where "n = nat (52 - binade x)"
  have b: "binade x - 52 = - int n"
    using binade_le_52 [OF assms(1) x53] by (simp add: n_def)
  define u :: real where "u = 2 powi (binade x - 52)"
  have u: "u = 1 / 2 ^ n" unfolding u_def b by (simp add: power_int_minus field_simps)
  have upos: "0 < u" by (simp add: u)
  have xu: "x / u = x * 2 ^ n" by (simp add: u)
  define M where "M = int c * 2 ^ n"
  have "x / u \<le> of_int M"
    unfolding xu M_def using assms(2) by simp
  then have le: "round_half_even (x / u) \<le> M" by (rule round_half_even_le_int)
  have "0 \<le> x / u" using assms(1) upos by simp
  then have ge: "0 \<le> round_half_even (x / u)" by (rule round_half_even_nonneg)
  define y where "y = of_int (round_half_even (x / u)) * u"
  have y0: "0 \<le> y" unfolding y_def using ge upos by simp
  have "y \<le> of_int M * u"
    unfolding y_def using le upos by (simp add: mult_right_mono)
  also have "of_int M * u = real c" by (simp add: M_def u)
  finally have yc: "y \<le> real c" .
  have "round64 x = (if y = 0 then signed_zero (x < 0) else Fin y)"
    unfolding round64_def Let_def u_def [symmetric] y_def [symmetric]
    using assms(1) novf by simp
  then have "round64 x = Fin y"
    using assms(1) by (simp add: signed_zero_def)
  with y0 yc show ?thesis by simp
qed

text \<open>
The operations on numbers that are not negative, and on numbers that are not \<open>NaN\<close>.
\<close>

lemma nonneg_cases:
  assumes "nonneg a"
  obtains "a = PosInf" | y where "a = Fin y" and "0 \<le> y"
  using assms by (cases a) (simp_all add: nonneg_def)

lemma nonneg_not_nan: "nonneg a \<Longrightarrow> a \<noteq> NotANumber"
  by (auto simp add: nonneg_def)

lemma round64_pos_nonneg: "0 < x \<Longrightarrow> nonneg (round64 x)"
  using round64_pos [of x] by (auto simp add: nonneg_def)

lemma d_abs_nonneg: "a \<noteq> NotANumber \<Longrightarrow> nonneg (d_abs a)"
  by (cases a) (simp_all add: d_abs_def nonneg_def)

lemma d_div_nonneg:
  assumes "nonneg q" and "0 < s"
  shows "nonneg (d_div q (Fin s))"
  using assms(1)
proof (cases rule: nonneg_cases)
  case 1
  with assms(2) show ?thesis
    by (simp add: d_div_def is_inf_def is_neg_def signed_inf_def nonneg_def)
next
  case (2 y)
  show ?thesis
  proof (cases "y = 0")
    case True
    with 2 assms(2) show ?thesis
      by (simp add: d_div_def is_inf_def is_neg_def val_def signed_zero_def nonneg_def)
  next
    case False
    with 2 assms(2) have "0 < y / s" by simp
    then have "nonneg (round64 (y / s))" by (rule round64_pos_nonneg)
    with 2 assms(2) False show ?thesis
      by (simp add: d_div_def is_inf_def val_def)
  qed
qed

lemma d_mul_nonneg:
  assumes "0 \<le> w" and "0 \<le> d"
  shows "nonneg (d_mul (Fin w) (Fin d))"
proof (cases "w = 0 \<or> d = 0")
  case True
  with assms show ?thesis
    by (auto simp add: d_mul_def is_inf_def is_neg_def val_def signed_zero_def nonneg_def)
next
  case False
  with assms have "0 < w * d" by simp
  then have "nonneg (round64 (w * d))" by (rule round64_pos_nonneg)
  with False show ?thesis by (simp add: d_mul_def is_inf_def val_def)
qed

lemma d_add_nonneg:
  assumes "nonneg a" and "nonneg b"
  shows "nonneg (d_add a b)"
  using assms(1)
proof (cases rule: nonneg_cases)
  case 1
  with assms(2) show ?thesis
    by (cases b) (simp_all add: d_add_def is_inf_def nonneg_def)
next
  case a: (2 x)
  from assms(2) show ?thesis
  proof (cases rule: nonneg_cases)
    case 1
    with a show ?thesis by (simp add: d_add_def is_inf_def nonneg_def)
  next
    case b: (2 y)
    show ?thesis
    proof (cases "x + y = 0")
      case True
      with a b show ?thesis
        by (simp add: d_add_def is_inf_def val_def signed_zero_def nonneg_def)
    next
      case False
      with a b have "0 < x + y" by simp
      then have "nonneg (round64 (x + y))" by (rule round64_pos_nonneg)
      with a b False show ?thesis by (simp add: d_add_def is_inf_def val_def)
    qed
  qed
qed

lemma d_min_one:
  assumes "nonneg r"
  shows "\<exists>d. d_min r (Fin 1) = Fin d \<and> 0 \<le> d \<and> d \<le> 1"
  using assms
proof (cases rule: nonneg_cases)
  case 1
  then show ?thesis by (simp add: d_min_def d_lt_def val_def)
next
  case (2 y)
  then show ?thesis by (auto simp add: d_min_def d_lt_def val_def is_neg_def)
qed

lemma d_add_fin_not_nan: "is_fin a \<Longrightarrow> b \<noteq> NotANumber \<Longrightarrow> d_add a b \<noteq> NotANumber"
  by (cases a; cases b)
     (simp_all add: is_fin_def d_add_def is_inf_def signed_zero_def round64_not_nan)

lemma d_add_not_nan_fin: "a \<noteq> NotANumber \<Longrightarrow> is_fin b \<Longrightarrow> d_add a b \<noteq> NotANumber"
  by (cases a; cases b)
     (simp_all add: is_fin_def d_add_def is_inf_def signed_zero_def round64_not_nan)

lemma d_neg_not_nan: "a \<noteq> NotANumber \<Longrightarrow> d_neg a \<noteq> NotANumber"
  by (cases a) (simp_all add: d_neg_def)

lemma d_neg_fin: "is_fin a \<Longrightarrow> is_fin (d_neg a)"
  by (cases a) (simp_all add: d_neg_def is_fin_def)

lemma d_sub_not_nan:
  assumes "v \<noteq> NotANumber" and "c \<noteq> NotANumber" and "is_fin v \<or> is_fin c"
  shows "d_sub v c \<noteq> NotANumber"
  using assms d_add_fin_not_nan [of v "d_neg c"] d_add_not_nan_fin [of v "d_neg c"]
    d_neg_not_nan [of c] d_neg_fin [of c]
  by (auto simp add: d_sub_def)

lemma is_fin_not_nan: "is_fin a \<Longrightarrow> a \<noteq> NotANumber"
  by (auto simp add: is_fin_def)

lemma span_fin:
  assumes "d_sub b a = Fin s"
  shows "is_fin a \<and> is_fin b"
  using assms
  by (cases a; cases b)
     (simp_all add: d_sub_def d_add_def d_neg_def is_inf_def is_fin_def split: if_splits)

lemma d_div_two_not_nan: "x \<noteq> NotANumber \<Longrightarrow> d_div x (Fin 2) \<noteq> NotANumber"
  by (cases x)
     (simp_all add: d_div_def is_inf_def val_def signed_inf_def signed_zero_def round64_not_nan)

text \<open>
The range of the deviation, of a region value, of the mean and of a rounded score.
\<close>

lemma deviation64_unit:
  assumes "v \<noteq> NotANumber" and "is_fin v \<or> is_fin (centre64 (a, b))"
    and "positive_span (a, b)"
  shows "\<exists>d. calculateDeviation64 v (a, b) = Fin d \<and> 0 \<le> d \<and> d \<le> 1"
proof (cases "d_ge v a \<and> d_le v b")
  case True
  then show ?thesis by (simp add: calculateDeviation64_def)
next
  case False
  from assms(3) obtain s where s: "d_sub b a = Fin s" "0 < s"
    by (auto simp add: positive_span_def split: double.splits)
  then have fin: "is_fin a" "is_fin b" using span_fin by blast+
  define c where "c = d_div (d_add a b) (Fin 2)"
  have "d_add a b \<noteq> NotANumber"
    using fin by (simp add: d_add_fin_not_nan is_fin_not_nan)
  then have "c \<noteq> NotANumber" unfolding c_def by (rule d_div_two_not_nan)
  with assms(1,2) have "d_sub v c \<noteq> NotANumber"
    by (intro d_sub_not_nan) (simp_all add: c_def centre64_def)
  then have "nonneg (d_abs (d_sub v c))" by (rule d_abs_nonneg)
  then have "nonneg (d_div (d_abs (d_sub v c)) (Fin s))" using s(2) by (rule d_div_nonneg)
  then have "\<exists>d. d_min (d_div (d_abs (d_sub v c)) (Fin s)) (Fin 1) = Fin d \<and> 0 \<le> d \<and> d \<le> 1"
    by (rule d_min_one)
  with False s(1) show ?thesis
    by (simp add: calculateDeviation64_def Let_def c_def)
qed

lemma deviationToScore64_range:
  assumes "wd \<noteq> NotANumber"
  shows "\<exists>r. deviationToScore64 wd = Fin r \<and> 0 \<le> r \<and> r \<le> 100"
proof -
  define x where "x = d_sub (Fin 1) wd"
  define s where "s = d_mul (Fin 100) x"
  define m where "m = d_min (Fin 100) s"
  have x: "x \<noteq> NotANumber"
    unfolding x_def using assms by (intro d_sub_not_nan) (simp_all add: is_fin_def)
  have s: "s \<noteq> NotANumber"
    using x unfolding s_def
    by (cases x)
       (simp_all add: d_mul_def is_inf_def val_def signed_inf_def signed_zero_def round64_not_nan)
  have m: "m = NegInf \<or> m = NegZero \<or> (\<exists>r\<le>100. m = Fin r)"
    using s unfolding m_def
    by (cases s) (auto simp add: d_min_def d_lt_def val_def is_neg_def)
  have "\<exists>r. d_max (Fin 0) m = Fin r \<and> 0 \<le> r \<and> r \<le> 100"
    using m by (auto simp add: d_max_def d_lt_def val_def is_neg_def)
  then show ?thesis
    by (simp add: deviationToScore64_def Let_def m_def s_def x_def)
qed

lemma d_add_bounded:
  assumes "0 \<le> x" and "x \<le> real c" and "0 \<le> y" and "y \<le> real e" and "c + e < 2 ^ 53"
  shows "\<exists>z. d_add (Fin x) (Fin y) = Fin z \<and> 0 \<le> z \<and> z \<le> real (c + e)"
proof (cases "x + y = 0")
  case True
  then show ?thesis by (simp add: d_add_def is_inf_def val_def signed_zero_def)
next
  case False
  with assms have "0 < x + y" "x + y \<le> real (c + e)" by simp_all
  then have "\<exists>z. round64 (x + y) = Fin z \<and> 0 \<le> z \<and> z \<le> real (c + e)"
    using assms(5) by (rule round64_le_nat)
  with False show ?thesis by (simp add: d_add_def is_inf_def val_def)
qed

lemma d_div_three_bounded:
  assumes "0 \<le> x" and "x \<le> 300"
  shows "\<exists>z. d_div (Fin x) (Fin 3) = Fin z \<and> 0 \<le> z \<and> z \<le> 100"
proof (cases "x = 0")
  case True
  then show ?thesis by (simp add: d_div_def is_inf_def is_neg_def val_def signed_zero_def)
next
  case False
  with assms have "0 < x / 3" "x / 3 \<le> real 100" by simp_all
  then have "\<exists>z. round64 (x / 3) = Fin z \<and> 0 \<le> z \<and> z \<le> real 100"
    by (rule round64_le_nat) simp
  with False show ?thesis by (simp add: d_div_def is_inf_def val_def)
qed

lemma mean_bounded:
  assumes "0 \<le> e" "e \<le> 100" "0 \<le> n" "n \<le> 100" "0 \<le> j" "j \<le> 100"
  shows "\<exists>m. d_div (d_add (d_add (Fin e) (Fin n)) (Fin j)) (Fin 3) = Fin m \<and> 0 \<le> m \<and> m \<le> 100"
proof -
  obtain a where a: "d_add (Fin e) (Fin n) = Fin a" "0 \<le> a" "a \<le> 200"
    using d_add_bounded [of e 100 n 100] assms by auto
  obtain b where b: "d_add (Fin a) (Fin j) = Fin b" "0 \<le> b" "b \<le> 300"
    using d_add_bounded [of a 200 j 100] a assms by auto
  show ?thesis
    using d_div_three_bounded [OF b(2,3)] a(1) b(1) by simp
qed

lemma d_round_range:
  assumes "0 \<le> r" and "r \<le> 100"
  shows "\<exists>k. d_round (Fin r) = Fin (of_int k) \<and> 0 \<le> k \<and> k \<le> 100"
proof -
  have "0 \<le> \<lfloor>r + 1 / 2\<rfloor>" "\<lfloor>r + 1 / 2\<rfloor> \<le> 100" using assms by linarith+
  then show ?thesis
    using assms(1) by (auto simp add: d_round_def signed_zero_def intro: exI [of _ 0])
qed

lemma weighted_term_nonneg:
  assumes "nonneg_weight w" and "q \<noteq> NotANumber" and "regular_interval r"
  shows "nonneg (d_mul w (calculateDeviation64 q r))"
proof -
  obtain a b where r: "r = (a, b)" by (cases r)
  from assms(1) obtain y where w: "w = Fin y" "0 \<le> y"
    by (cases w) (simp_all add: nonneg_weight_def)
  from assms(2,3) obtain d where "calculateDeviation64 q (a, b) = Fin d" "0 \<le> d"
    using deviation64_unit [of q a b] unfolding r regular_interval_def by auto
  with w show ?thesis unfolding r by (simp add: d_mul_nonneg)
qed

lemma region_value64_range:
  assumes "nonneg_weight w1" "nonneg_weight w2" "nonneg_weight w3"
    and "q1 \<noteq> NotANumber" "q2 \<noteq> NotANumber" "q3 \<noteq> NotANumber"
    and "regular_interval r1" "regular_interval r2" "regular_interval r3"
  shows "\<exists>v. region_value64 (weighted_deviation64 [w1, w2, w3] [q1, q2, q3] [r1, r2, r3]) = Fin v
           \<and> 0 \<le> v \<and> v \<le> 100"
proof -
  have "nonneg (weighted_deviation64 [w1, w2, w3] [q1, q2, q3] [r1, r2, r3])"
    using weighted_term_nonneg [OF assms(1,4,7)] weighted_term_nonneg [OF assms(2,5,8)]
      weighted_term_nonneg [OF assms(3,6,9)]
    by (simp add: weighted_deviation64_def d_add_nonneg)
  then have "weighted_deviation64 [w1, w2, w3] [q1, q2, q3] [r1, r2, r3] \<noteq> NotANumber"
    by (rule nonneg_not_nan)
  then show ?thesis
    using deviationToScore64_range by (simp add: deviationToScore64_def region_value64_def Let_def)
qed

lemma eye_score_value:
  "calculateEyeScore64 this m =
     region_value64 (weighted_deviation64 (weights_eyes64 (weightingFactors64 this))
       (scored_eyes64 m) (ranges_eyes64 (baselineRanges64 this)))"
  by (simp add: calculateEyeScore64_def deviationToScore64_def region_value64_def
      weighted_deviation64_def weights_eyes64_def scored_eyes64_def ranges_eyes64_def Let_def)

lemma nose_score_value:
  "calculateNoseScore64 this m =
     region_value64 (weighted_deviation64 (weights_nose64 (weightingFactors64 this))
       (scored_nose64 m) (ranges_nose64 (baselineRanges64 this)))"
  by (simp add: calculateNoseScore64_def deviationToScore64_def region_value64_def
      weighted_deviation64_def weights_nose64_def scored_nose64_def ranges_nose64_def Let_def)

lemma jaw_score_value:
  "calculateJawScore64 this m =
     region_value64 (weighted_deviation64 (weights_jaw64 (weightingFactors64 this))
       (scored_jaw64 m) (ranges_jaw64 (baselineRanges64 this)))"
  by (simp add: calculateJawScore64_def deviationToScore64_def region_value64_def
      weighted_deviation64_def weights_jaw64_def scored_jaw64_def ranges_jaw64_def Let_def)

text \<open>
The operations on finite operands and on \<open>NaN\<close>, as rewrite rules.
\<close>

lemma d_add_Fin:
  "d_add (Fin x) (Fin y) = (if x + y = 0 then Fin 0 else round64 (x + y))"
  by (simp add: d_add_def is_inf_def val_def signed_zero_def)

lemma d_sub_Fin:
  "d_sub (Fin x) (Fin y) = (if x - y = 0 then Fin 0 else round64 (x - y))"
  by (simp add: d_sub_def d_neg_def d_add_def is_inf_def val_def signed_zero_def)

lemma d_mul_Fin:
  "d_mul (Fin x) (Fin y) =
     (if x = 0 \<or> y = 0 then signed_zero ((x < 0) \<noteq> (y < 0)) else round64 (x * y))"
  by (simp add: d_mul_def is_inf_def is_neg_def val_def)

lemma d_div_Fin:
  "d_div (Fin x) (Fin y) =
     (if y = 0 then (if x = 0 then NotANumber else signed_inf (x < 0))
      else if x = 0 then signed_zero (y < 0)
      else round64 (x / y))"
  by (simp add: d_div_def is_inf_def is_neg_def val_def)

lemma d_min_Fin: "d_min (Fin x) (Fin y) = Fin (min x y)"
  by (auto simp add: d_min_def d_lt_def val_def is_neg_def min_def)

lemma d_max_Fin: "d_max (Fin x) (Fin y) = Fin (max x y)"
  by (auto simp add: d_max_def d_lt_def val_def is_neg_def max_def)

lemma d_abs_Fin: "d_abs (Fin x) = Fin \<bar>x\<bar>"
  by (simp add: d_abs_def)

lemma d_le_Fin: "d_le (Fin x) (Fin y) = (x \<le> y)"
  by (simp add: d_le_def val_def)

lemma d_ge_Fin: "d_ge (Fin x) (Fin y) = (y \<le> x)"
  by (simp add: d_ge_def d_le_def val_def)

lemma d_round_Fin:
  "d_round (Fin r) =
     (if \<lfloor>r + 1 / 2\<rfloor> = 0 then signed_zero (r < 0) else Fin (of_int \<lfloor>r + 1 / 2\<rfloor>))"
  by (simp add: d_round_def)

lemma deviation64_Fin:
  "calculateDeviation64 (Fin v) (Fin a, Fin b) =
     (if a \<le> v \<and> v \<le> b then Fin 0
      else d_min (d_div (d_abs (d_sub (Fin v) (d_div (d_add (Fin a) (Fin b)) (Fin 2))))
                  (d_sub (Fin b) (Fin a))) (Fin 1))"
  by (simp add: calculateDeviation64_def d_ge_Fin d_le_Fin Let_def)

lemma deviation64_NaN: "calculateDeviation64 NotANumber r = NotANumber"
  by (cases r)
     (simp add: calculateDeviation64_def d_ge_def d_le_def d_sub_def d_add_def d_neg_def d_div_def
       d_abs_def d_min_def Let_def)

lemma d_mul_NaN: "d_mul w NotANumber = NotANumber"
  by (simp add: d_mul_def)

lemma d_add_NaN: "d_add NotANumber b = NotANumber" "d_add a NotANumber = NotANumber"
  by (simp_all add: d_add_def)

lemma d_div_NaN: "d_div NotANumber b = NotANumber"
  by (simp add: d_div_def)

lemma d_round_NaN: "d_round NotANumber = NotANumber"
  by (simp add: d_round_def)

lemma deviationToScore64_NaN: "deviationToScore64 NotANumber = NotANumber"
  by (simp add: deviationToScore64_def d_sub_def d_neg_def d_add_def d_mul_def d_min_def d_max_def)

lemmas nan_ops = deviation64_NaN d_mul_NaN d_add_NaN d_div_NaN d_round_NaN deviationToScore64_NaN

lemma deviationToScore64_Fin:
  "deviationToScore64 (Fin wd) =
     d_max (Fin 0) (d_min (Fin 100) (d_mul (Fin 100) (d_sub (Fin 1) (Fin wd))))"
  by (simp add: deviationToScore64_def)

lemmas fin_ops = d_add_Fin d_sub_Fin d_mul_Fin d_div_Fin d_min_Fin d_max_Fin d_abs_Fin d_le_Fin
  d_ge_Fin d_round_Fin deviation64_Fin deviationToScore64_Fin signed_zero_def signed_inf_def

text \<open>
  The default configuration: the doubles that its literals denote, and its regularity.
  Each rounding is evaluated from the binade of the exact result.
\<close>

lemma default_ranges64:
  "DEFAULT_BASELINE_RANGES64 =
     \<lparr>range_eyes_aspectRatio64 = (Fin (3152519739159347 / 1125899906842624), Fin (3602879701896397 / 1125899906842624)),
      range_eyes_symmetry64 = (Fin (8106479329266893 / 9007199254740992), Fin (2476979795053773 / 2251799813685248)),
      range_eyes_tilt64 = (Fin (- 5), Fin 5),
      range_nose_widthRatio64 = (Fin (3 / 4), Fin (7656119366529843 / 9007199254740992)),
      range_nose_projection64 = (Fin (6034823500676465 / 9007199254740992), Fin (3 / 4)),
      range_nose_symmetry64 = (Fin (8106479329266893 / 9007199254740992), Fin (2476979795053773 / 2251799813685248)),
      range_jaw_angle64 = (Fin 120, Fin 130),
      range_jaw_chinRatio64 = (Fin (7656119366529843 / 9007199254740992), Fin (4278419646001971 / 4503599627370496)),
      range_jaw_asymmetry64 = (Fin (4278419646001971 / 4503599627370496), Fin (4728779608739021 / 4503599627370496))\<rparr>"
  unfolding DEFAULT_BASELINE_RANGES64_def lit_def
  using
    round64_eval [of "1" "14 / 5"] round64_eval [of "1" "16 / 5"]
      round64_eval [of "- 1" "9 / 10"] round64_eval [of "0" "11 / 10"]
      round64_eval [of "2" "- 5"] round64_eval [of "2" "5"] round64_eval [of "- 1" "3 / 4"]
      round64_eval [of "- 1" "17 / 20"] round64_eval [of "- 1" "67 / 100"]
      round64_eval [of "6" "120"] round64_eval [of "7" "130"] round64_eval [of "- 1" "19 / 20"]
      round64_eval [of "0" "21 / 20"]
  by (simp add:
      fin_ops nan_ops overflow_threshold_def round_half_even_def)

lemma default_weights64:
  "DEFAULT_WEIGHTING_FACTORS64 =
     \<lparr>weight_eyes_aspectRatio64 = Fin (3602879701896397 / 9007199254740992),
      weight_eyes_symmetry64 = Fin (3152519739159347 / 9007199254740992),
      weight_eyes_tilt64 = Fin (1 / 4),
      weight_nose_width64 = Fin (3602879701896397 / 9007199254740992),
      weight_nose_projection64 = Fin (3152519739159347 / 9007199254740992),
      weight_nose_symmetry64 = Fin (1 / 4),
      weight_jaw_angle64 = Fin (8106479329266893 / 18014398509481984),
      weight_jaw_projection64 = Fin (5404319552844595 / 18014398509481984),
      weight_jaw_asymmetry64 = Fin (1 / 4)\<rparr>"
  unfolding DEFAULT_WEIGHTING_FACTORS64_def lit_def
  using
    round64_eval [of "- 2" "2 / 5"] round64_eval [of "- 2" "7 / 20"]
      round64_eval [of "- 2" "1 / 4"] round64_eval [of "- 2" "9 / 20"]
      round64_eval [of "- 2" "3 / 10"]
  by (simp add:
      fin_ops nan_ops overflow_threshold_def round_half_even_def)

lemma default_regular:
  "regular_configuration default_calculator64"
  using
    round64_eval [of "- 2" "225179981368525 / 562949953421312"] round64_eval [of "2" "6"]
      round64_eval [of "1" "3"] round64_eval [of "- 3" "1801439850948199 / 9007199254740992"]
      round64_eval [of "1" "18014398509481985 / 9007199254740992"] round64_eval [of "0" "1"]
      round64_eval [of "3" "10"] round64_eval [of "- 4" "900719925474099 / 9007199254740992"]
      round64_eval [of "0" "14411518807585587 / 9007199254740992"]
      round64_eval [of "- 1" "3602879701896397 / 4503599627370496"]
      round64_eval [of "- 4" "720575940379279 / 9007199254740992"]
      round64_eval [of "0" "12790222941732209 / 9007199254740992"]
      round64_eval [of "- 1" "799388933858263 / 1125899906842624"] round64_eval [of "7" "250"]
      round64_eval [of "6" "125"] round64_eval [of "0" "16212958658533785 / 9007199254740992"]
      round64_eval [of "- 1" "2026619832316723 / 2251799813685248"]
      round64_eval [of "- 4" "225179981368525 / 2251799813685248"] round64_eval [of "1" "2"]
  by (simp add:
      regular_configuration_def default_calculator64_def default_ranges64 default_weights64
        ranges_eyes64_def ranges_nose64_def ranges_jaw64_def weights_eyes64_def
        weights_nose64_def weights_jaw64_def regular_interval_def positive_span_def
        centre64_def nonneg_weight_def is_fin_def fin_ops nan_ops overflow_threshold_def
        round_half_even_def)

text \<open>
The scores of the concrete features under the default configuration.
\<close>

lemma tilted_eye_score:
  "calculateEyeScore64 default_calculator64 (eyes64 tilted_features64) = Fin (10425 / 128)"
  using
    round64_eval [of "2" "6"] round64_eval [of "1" "3"] round64_eval [of "3" "475 / 32"]
      round64_eval [of "2" "475 / 64"] round64_eval [of "3" "10"]
      round64_eval [of "- 1" "95 / 128"] round64_eval [of "- 3" "95 / 512"]
      round64_eval [of "- 1" "417 / 512"] round64_eval [of "6" "10425 / 128"]
  by (simp add:
      calculateEyeScore64_def tilted_features64_def tilted_eye64_def default_calculator64_def
        default_ranges64 default_weights64 Let_def fin_ops nan_ops overflow_threshold_def
        round_half_even_def)

lemma tilted_nose_score:
  "calculateNoseScore64 default_calculator64 (nose64 tilted_features64) = Fin 100"
  using
    round64_eval [of "- 1" "13 / 16"] round64_eval [of "0" "1"] round64_eval [of "6" "100"]
  by (simp add:
      calculateNoseScore64_def tilted_features64_def tilted_eye64_def default_calculator64_def
        default_ranges64 default_weights64 Let_def fin_ops nan_ops overflow_threshold_def
        round_half_even_def)

lemma tilted_jaw_score:
  "calculateJawScore64 default_calculator64 (jaw64 tilted_features64) = Fin (265 / 4)"
  using
    round64_eval [of "7" "250"] round64_eval [of "6" "125"] round64_eval [of "3" "10"]
      round64_eval [of "2" "15 / 2"] round64_eval [of "- 1" "3 / 4"]
      round64_eval [of "- 2" "24319437987800679 / 72057594037927936"]
      round64_eval [of "- 2" "3039929748475085 / 9007199254740992"]
      round64_eval [of "- 1" "5967269506265907 / 9007199254740992"]
      round64_eval [of "6" "149181737656647675 / 2251799813685248"]
  by (simp add:
      calculateJawScore64_def tilted_features64_def tilted_eye64_def default_calculator64_def
        default_ranges64 default_weights64 Let_def fin_ops nan_ops overflow_threshold_def
        round_half_even_def)

lemma tilted_scores:
  "calculateQualityScores64 default_calculator64 tilted_features64 =
     \<lparr>eyes_score64 = Fin 81, nose_score64 = Fin 100, jaw_score64 = Fin 66, overall64 = Fin 83\<rparr>"
  using
    round64_eval [of "7" "23225 / 128"] round64_eval [of "7" "31705 / 128"]
      round64_eval [of "6" "31705 / 384"]
  by (simp add:
      calculateQualityScores64_def tilted_eye_score tilted_nose_score tilted_jaw_score Let_def
        fin_ops nan_ops overflow_threshold_def round_half_even_def)

lemma tilted_rounded_mean:
  "d_round (d_div (d_add (d_add (Fin 81) (Fin 100)) (Fin 66)) (Fin 3)) = Fin 82"
  using
    round64_eval [of "7" "181"] round64_eval [of "7" "247"] round64_eval [of "6" "247 / 3"]
  by (simp add:
      fin_ops nan_ops overflow_threshold_def round_half_even_def)

lemma flat_nose_eye_score:
  "calculateEyeScore64 default_calculator64 (eyes64 flat_nose_features64) = Fin (10425 / 128)"
  using
    round64_eval [of "2" "6"] round64_eval [of "1" "3"] round64_eval [of "3" "475 / 32"]
      round64_eval [of "2" "475 / 64"] round64_eval [of "3" "10"]
      round64_eval [of "- 1" "95 / 128"] round64_eval [of "- 3" "95 / 512"]
      round64_eval [of "- 1" "417 / 512"] round64_eval [of "6" "10425 / 128"]
  by (simp add:
      calculateEyeScore64_def flat_nose_features64_def tilted_features64_def tilted_eye64_def
        default_calculator64_def default_ranges64 default_weights64 Let_def fin_ops nan_ops
        overflow_threshold_def round_half_even_def)

lemma flat_nose_nose_score:
  "calculateNoseScore64 default_calculator64 (nose64 flat_nose_features64) = NotANumber"
  using
    round64_eval [of "0" "14411518807585587 / 9007199254740992"]
      round64_eval [of "- 1" "3602879701896397 / 4503599627370496"]
      round64_eval [of "- 4" "900719925474099 / 9007199254740992"]
  by (simp add:
      calculateNoseScore64_def flat_nose_features64_def tilted_features64_def tilted_eye64_def
        default_calculator64_def default_ranges64 default_weights64 Let_def fin_ops nan_ops
        overflow_threshold_def round_half_even_def)

lemma flat_nose_jaw_score:
  "calculateJawScore64 default_calculator64 (jaw64 flat_nose_features64) = Fin (265 / 4)"
  using
    round64_eval [of "7" "250"] round64_eval [of "6" "125"] round64_eval [of "3" "10"]
      round64_eval [of "2" "15 / 2"] round64_eval [of "- 1" "3 / 4"]
      round64_eval [of "- 2" "24319437987800679 / 72057594037927936"]
      round64_eval [of "- 2" "3039929748475085 / 9007199254740992"]
      round64_eval [of "- 1" "5967269506265907 / 9007199254740992"]
      round64_eval [of "6" "149181737656647675 / 2251799813685248"]
  by (simp add:
      calculateJawScore64_def flat_nose_features64_def tilted_features64_def tilted_eye64_def
        default_calculator64_def default_ranges64 default_weights64 Let_def fin_ops nan_ops
        overflow_threshold_def round_half_even_def)

lemma flat_nose_scores:
  "calculateQualityScores64 default_calculator64 flat_nose_features64 =
     \<lparr>eyes_score64 = Fin 81, nose_score64 = NotANumber, jaw_score64 = Fin 66, overall64 = NotANumber\<rparr>"
  by (simp add:
      calculateQualityScores64_def flat_nose_eye_score flat_nose_nose_score flat_nose_jaw_score
        Let_def fin_ops nan_ops overflow_threshold_def round_half_even_def)

lemma boundary_eye_score:
  "calculateEyeScore64 default_calculator64 (eyes64 boundary_features64) = Fin 100"
  using
    round64_eval [of "1" "14 / 5"] round64_eval [of "2" "12610078956637387 / 2251799813685248"]
      round64_eval [of "1" "3152519739159347 / 1125899906842624"] round64_eval [of "0" "1"]
      round64_eval [of "6" "100"]
  by (simp add:
      calculateEyeScore64_def boundary_features64_def lit_def default_calculator64_def
        default_ranges64 default_weights64 Let_def fin_ops nan_ops overflow_threshold_def
        round_half_even_def)

lemma boundary_nose_score:
  "calculateNoseScore64 default_calculator64 (nose64 boundary_features64) = Fin 100"
  using
    round64_eval [of "- 1" "13 / 16"] round64_eval [of "0" "1"] round64_eval [of "6" "100"]
  by (simp add:
      calculateNoseScore64_def boundary_features64_def lit_def default_calculator64_def
        default_ranges64 default_weights64 Let_def fin_ops nan_ops overflow_threshold_def
        round_half_even_def)

lemma boundary_jaw_score:
  "calculateJawScore64 default_calculator64 (jaw64 boundary_features64) = Fin (5875790138834943 / 70368744177664)"
  using
    round64_eval [of "- 1" "191 / 200"]
      round64_eval [of "0" "16212958658533785 / 9007199254740992"]
      round64_eval [of "- 1" "2026619832316723 / 2251799813685248"]
      round64_eval [of "- 4" "900719925474099 / 9007199254740992"]
      round64_eval [of "- 5" "495395959010755 / 9007199254740992"]
      round64_eval [of "- 1" "495395959010755 / 900719925474099"]
      round64_eval [of "- 3" "26772780676820233152144039036845 / 162259276829213363391578010288128"]
      round64_eval [of "- 3" "5944751508129061 / 36028797018963968"]
      round64_eval [of "- 1" "30084045510834907 / 36028797018963968"]
      round64_eval [of "6" "188025284442718175 / 2251799813685248"]
  by (simp add:
      calculateJawScore64_def boundary_features64_def lit_def default_calculator64_def
        default_ranges64 default_weights64 Let_def fin_ops nan_ops overflow_threshold_def
        round_half_even_def)

lemma boundary_scores:
  "calculateQualityScores64 default_calculator64 boundary_features64 =
     \<lparr>eyes_score64 = Fin 100, nose_score64 = Fin 100, jaw_score64 = Fin 83, overall64 = Fin 95\<rparr>"
  using
    round64_eval [of "7" "200"] round64_eval [of "8" "19949538974367743 / 70368744177664"]
      round64_eval [of "6" "189 / 2"]
  by (simp add:
      calculateQualityScores64_def boundary_eye_score boundary_nose_score boundary_jaw_score
        Let_def fin_ops nan_ops overflow_threshold_def round_half_even_def)

lemma boundary_defined:
  "quantities_defined64 boundary_features64"
  using
    round64_eval [of "1" "14 / 5"] round64_eval [of "- 1" "191 / 200"]
      round64_eval [of "2" "12610078956637387 / 2251799813685248"]
      round64_eval [of "1" "3152519739159347 / 1125899906842624"]
      round64_eval [of "- 1" "13 / 16"]
  by (simp add:
      quantities_defined64_def boundary_features64_def lit_def scored_eyes64_def
        scored_nose64_def scored_jaw64_def fin_ops nan_ops overflow_threshold_def
        round_half_even_def)

text \<open>
Deviations on extreme intervals, and on the default jaw-angle interval.
\<close>

lemma round64_pow_1023: "round64 (2 ^ 1023) = Fin (2 ^ 1023)"
  using round64_eval [of 1023 "2 ^ 1023"]
  by (simp add: overflow_threshold_def round_half_even_def)

lemma round64_pow_1022: "round64 (2 ^ 1022) = Fin (2 ^ 1022)"
  using round64_eval [of 1022 "2 ^ 1022"]
  by (simp add: overflow_threshold_def round_half_even_def)

lemma round64_pow_1024: "round64 (2 ^ 1024) = PosInf" "round64 (- (2 ^ 1024)) = NegInf"
  using round64_overflow [of "2 ^ 1024"] round64_overflow [of "- (2 ^ 1024)"]
  by (simp_all add: overflow_threshold_def signed_inf_def)

lemma round64_large: "round64 (5 * 2 ^ 1022) = PosInf"
  using round64_overflow [of "5 * 2 ^ 1022"]
  by (simp add: overflow_threshold_def signed_inf_def)

lemma round64_five: "round64 5 = Fin 5"
  using round64_eval [of 2 5]
  by (simp add: overflow_threshold_def round_half_even_def)

lemma overflowing_span:
  "calculateDeviation64 (Fin (- (3 * 2 ^ 1022))) (Fin (- (2 ^ 1022)), Fin (3 * 2 ^ 1022)) =
     NotANumber"
proof -
  have c: "d_div (d_add (Fin (- (2 ^ 1022))) (Fin (3 * 2 ^ 1022))) (Fin 2) = Fin (2 ^ 1022)"
    using round64_pow_1023 round64_pow_1022 by (simp add: d_add_Fin d_div_Fin)
  have s: "d_sub (Fin (3 * 2 ^ 1022)) (Fin (- (2 ^ 1022))) = PosInf"
    using round64_pow_1024 by (simp add: d_sub_Fin)
  have d: "d_sub (Fin (- (3 * 2 ^ 1022))) (Fin (2 ^ 1022)) = NegInf"
    using round64_pow_1024 by (simp add: d_sub_Fin)
  have m: "d_min (d_div (d_abs NegInf) PosInf) (Fin 1) = NotANumber"
    by (simp add: d_abs_def d_div_def d_min_def is_inf_def)
  show ?thesis
    unfolding calculateDeviation64_def Let_def prod.case c s d m
    by (simp add: d_ge_Fin d_le_Fin)
qed

lemma negative_zero_span: "calculateDeviation64 (Fin 5) (Fin 0, NegZero) = NegInf"
proof -
  have c: "d_div (d_add (Fin 0) NegZero) (Fin 2) = Fin 0"
    by (simp add: d_add_def d_div_def is_inf_def is_neg_def val_def signed_zero_def)
  have s: "d_sub NegZero (Fin 0) = NegZero"
    by (simp add: d_sub_def d_neg_def d_add_def is_inf_def val_def signed_zero_def)
  have d: "d_sub (Fin 5) (Fin 0) = Fin 5"
    using round64_five by (simp add: d_sub_Fin)
  have m: "d_min (d_div (d_abs (Fin 5)) NegZero) (Fin 1) = NegInf"
    by (simp add: d_abs_def d_div_def d_min_def d_lt_def is_inf_def is_neg_def val_def
        signed_inf_def)
  have "\<not> d_le (Fin 5) NegZero" by (simp add: d_le_def val_def)
  then show ?thesis
    unfolding calculateDeviation64_def Let_def prod.case c s d m by simp
qed

lemma overflowing_centre:
  "calculateDeviation64 (Fin (7 * 2 ^ 1020)) (Fin (2 ^ 1023), Fin (3 * 2 ^ 1022)) = Fin 1"
proof -
  have c: "d_div (d_add (Fin (2 ^ 1023)) (Fin (3 * 2 ^ 1022))) (Fin 2) = PosInf"
    using round64_large
    by (simp add: d_add_Fin d_div_def is_inf_def is_neg_def signed_inf_def)
  have s: "d_sub (Fin (3 * 2 ^ 1022)) (Fin (2 ^ 1023)) = Fin (2 ^ 1022)"
    using round64_pow_1022 by (simp add: d_sub_Fin)
  have d: "d_sub (Fin (7 * 2 ^ 1020)) PosInf = NegInf"
    by (simp add: d_sub_def d_neg_def d_add_def is_inf_def)
  have m: "d_min (d_div (d_abs NegInf) (Fin (2 ^ 1022))) (Fin 1) = Fin 1"
    by (simp add: d_abs_def d_div_def d_min_def d_lt_def is_inf_def is_neg_def val_def
        signed_inf_def)
  show ?thesis
    unfolding calculateDeviation64_def Let_def prod.case c s d m
    by (simp add: d_ge_Fin d_le_Fin)
qed

lemma jaw_interval_span: "positive_span (Fin 120, Fin 130)"
  using round64_eval [of 3 10]
  by (simp add: positive_span_def d_sub_Fin overflow_threshold_def round_half_even_def)

lemma jaw_interval_centre: "centre64 (Fin 120, Fin 130) = Fin 125"
  using round64_eval [of 7 250] round64_eval [of 6 125]
  by (simp add: centre64_def d_add_Fin d_div_Fin overflow_threshold_def round_half_even_def)

lemma jaw_interval_outside:
  "d_min (d_div (d_abs (d_sub (Fin 132) (Fin 125))) (d_sub (Fin 130) (Fin 120))) (Fin 1) =
     Fin (3152519739159347 / 4503599627370496)"
  using round64_eval [of 3 10] round64_eval [of 2 7] round64_eval [of "- 1" "7 / 10"]
  by (simp add: fin_ops overflow_threshold_def round_half_even_def)

section \<open>The deviation function\<close>

text \<open>
  Three finite inputs with \<open>min \<le> max\<close>. On the interval \<open>[-2^1022, 3 * 2^1022]\<close> the
  span overflows to \<open>Infinity\<close>, and so does the distance of \<open>-3 * 2^1022\<close> to the centre:
  the deviation is \<open>NaN\<close>. On the interval \<open>[0, -0]\<close> the span is \<open>-0\<close> and the deviation
  of 5 is \<open>-Infinity\<close>. On the interval \<open>[2^1023, 3 * 2^1022]\<close> the sum \<open>min + max\<close>
  overflows and the deviation of \<open>7 * 2^1020\<close> is 1, where the formula of the
  specification gives 3 / 4.
\<close>

theorem deviation64_counterexample:
  "d_le (Fin (- (2 ^ 1022))) (Fin (3 * 2 ^ 1022)) \<and>
   calculateDeviation64 (Fin (- (3 * 2 ^ 1022))) (Fin (- (2 ^ 1022)), Fin (3 * 2 ^ 1022)) =
     NotANumber \<and>
   d_le (Fin 0) NegZero \<and>
   calculateDeviation64 (Fin 5) (Fin 0, NegZero) = NegInf \<and>
   d_le (Fin (2 ^ 1023)) (Fin (3 * 2 ^ 1022)) \<and>
   calculateDeviation64 (Fin (7 * 2 ^ 1020)) (Fin (2 ^ 1023), Fin (3 * 2 ^ 1022)) = Fin 1 \<and>
   min (\<bar>7 * 2 ^ 1020 - (2 ^ 1023 + 3 * 2 ^ 1022) / 2\<bar> / (3 * 2 ^ 1022 - 2 ^ 1023)) 1 =
     (3 / 4 :: real)"
proof (intro conjI)
  show "d_le (Fin (- (2 ^ 1022))) (Fin (3 * 2 ^ 1022))" by (simp add: d_le_Fin)
  show "d_le (Fin 0) NegZero" by (simp add: d_le_def val_def)
  show "d_le (Fin (2 ^ 1023)) (Fin (3 * 2 ^ 1022))" by (simp add: d_le_Fin)
  show "min (\<bar>7 * 2 ^ 1020 - (2 ^ 1023 + 3 * 2 ^ 1022) / 2\<bar> / (3 * 2 ^ 1022 - 2 ^ 1023)) 1 =
     (3 / 4 :: real)" by simp
qed (rule overflowing_span negative_zero_span overflowing_centre)+

text \<open>
  Claim C1, amended. In double precision the deviation is 0 for every value with
  \<open>min \<le> value \<le> max\<close>. For every value that is not \<open>NaN\<close> and every interval whose
  computed span \<open>max - min\<close> is a positive finite number, the value or the computed
  centre \<open>(min + max) / 2\<close> being finite, the deviation is a number between 0 and 1.
  Outside the interval it is the minimum of 1 and the distance to the computed centre
  divided by the computed span, each operation rounded.
\<close>

theorem deviation64_range:
  "(d_ge v a \<and> d_le v b \<longrightarrow> calculateDeviation64 v (a, b) = Fin 0) \<and>
   (v \<noteq> NotANumber \<and> (is_fin v \<or> is_fin (centre64 (a, b))) \<and> positive_span (a, b) \<longrightarrow>
      (\<exists>d. calculateDeviation64 v (a, b) = Fin d \<and> 0 \<le> d \<and> d \<le> 1)) \<and>
   (\<not> (d_ge v a \<and> d_le v b) \<longrightarrow>
      calculateDeviation64 v (a, b) =
        d_min (d_div (d_abs (d_sub v (centre64 (a, b)))) (d_sub b a)) (Fin 1))"
proof (intro conjI impI)
  assume "d_ge v a \<and> d_le v b"
  then show "calculateDeviation64 v (a, b) = Fin 0"
    by (simp add: calculateDeviation64_def)
next
  assume "v \<noteq> NotANumber \<and> (is_fin v \<or> is_fin (centre64 (a, b))) \<and> positive_span (a, b)"
  then show "\<exists>d. calculateDeviation64 v (a, b) = Fin d \<and> 0 \<le> d \<and> d \<le> 1"
    by (intro deviation64_unit) simp_all
next
  assume "\<not> (d_ge v a \<and> d_le v b)"
  then show "calculateDeviation64 v (a, b) =
      d_min (d_div (d_abs (d_sub v (centre64 (a, b)))) (d_sub b a)) (Fin 1)"
    by (auto simp add: calculateDeviation64_def centre64_def Let_def)
qed

text \<open>
  The default jaw-angle interval \<open>[120, 130]\<close>: a value inside, the positive infinity, and
  132, whose deviation is the double nearest to 0.7.
\<close>

theorem deviation64_range_witness:
  "d_ge (Fin 125) (Fin 120) \<and> d_le (Fin 125) (Fin 130) \<and>
   calculateDeviation64 (Fin 125) (Fin 120, Fin 130) = Fin 0 \<and>
   PosInf \<noteq> NotANumber \<and> is_fin (centre64 (Fin 120, Fin 130)) \<and>
   positive_span (Fin 120, Fin 130) \<and>
   (\<exists>d. calculateDeviation64 PosInf (Fin 120, Fin 130) = Fin d \<and> 0 \<le> d \<and> d \<le> 1) \<and>
   \<not> (d_ge (Fin 132) (Fin 120) \<and> d_le (Fin 132) (Fin 130)) \<and>
   calculateDeviation64 (Fin 132) (Fin 120, Fin 130) =
     Fin (3152519739159347 / 4503599627370496)"
  using deviation64_range [of "Fin 125" "Fin 120" "Fin 130"]
    deviation64_range [of PosInf "Fin 120" "Fin 130"]
    deviation64_range [of "Fin 132" "Fin 120" "Fin 130"]
  by (simp add: d_ge_Fin d_le_Fin jaw_interval_span jaw_interval_centre jaw_interval_outside
      is_fin_def)

section \<open>Quality scores\<close>

text \<open>
  Under the default configuration the features \<open>tilted_features64\<close> have the region
  values 81.4453125, 100 and 66.25: the region scores are 81, 100 and 66 and the overall
  score is 83, the rounded mean 82.565... of the region values, whereas the mean of the
  three rounded scores rounds to 82. And coinciding nostril and bridge landmarks (nose
  width and bridge width both 0) make the nose score \<open>NaN\<close>, which is no integer.
\<close>

theorem quality_scores64_counterexample:
  "calculateQualityScores64 default_calculator64 tilted_features64 =
     \<lparr>eyes_score64 = Fin 81, nose_score64 = Fin 100, jaw_score64 = Fin 66,
      overall64 = Fin 83\<rparr> \<and>
   d_round (d_div (d_add (d_add (Fin 81) (Fin 100)) (Fin 66)) (Fin 3)) = Fin 82 \<and>
   nose_score64 (calculateQualityScores64 default_calculator64 flat_nose_features64) =
     NotANumber"
  by (intro conjI) (rule tilted_scores, rule tilted_rounded_mean, simp add: flat_nose_scores)

text \<open>
  Claim C2, amended. In double precision, under a regular configuration (the default one
  is regular) and for features none of whose scored quantities is \<open>NaN\<close>: with each
  region's value being \<open>100 * (1 - weightedDeviation)\<close> clamped to \<open>[0, 100]\<close>, each
  operation rounded, each region score is that value rounded to the nearest integer, the
  overall score is the mean of the three region values (not of the rounded scores)
  rounded to the nearest integer, and all four scores are integers between 0 and 100.
\<close>

theorem quality_scores64_integers:
  assumes "regular_configuration this" and "quantities_defined64 features"
  shows "let e = region_value64 (weighted_deviation64 (weights_eyes64 (weightingFactors64 this))
                   (scored_eyes64 (eyes64 features)) (ranges_eyes64 (baselineRanges64 this)));
             n = region_value64 (weighted_deviation64 (weights_nose64 (weightingFactors64 this))
                   (scored_nose64 (nose64 features)) (ranges_nose64 (baselineRanges64 this)));
             j = region_value64 (weighted_deviation64 (weights_jaw64 (weightingFactors64 this))
                   (scored_jaw64 (jaw64 features)) (ranges_jaw64 (baselineRanges64 this)));
             s = calculateQualityScores64 this features
         in s = \<lparr>eyes_score64 = d_round e, nose_score64 = d_round n, jaw_score64 = d_round j,
                  overall64 = d_round (d_div (d_add (d_add e n) j) (Fin 3))\<rparr> \<and>
            (\<exists>k. eyes_score64 s = Fin (of_int k) \<and> 0 \<le> k \<and> k \<le> 100) \<and>
            (\<exists>k. nose_score64 s = Fin (of_int k) \<and> 0 \<le> k \<and> k \<le> 100) \<and>
            (\<exists>k. jaw_score64 s = Fin (of_int k) \<and> 0 \<le> k \<and> k \<le> 100) \<and>
            (\<exists>k. overall64 s = Fin (of_int k) \<and> 0 \<le> k \<and> k \<le> 100)"
proof -
  define e where "e = region_value64 (weighted_deviation64 (weights_eyes64 (weightingFactors64 this))
                   (scored_eyes64 (eyes64 features)) (ranges_eyes64 (baselineRanges64 this)))"
  define n where "n = region_value64 (weighted_deviation64 (weights_nose64 (weightingFactors64 this))
                   (scored_nose64 (nose64 features)) (ranges_nose64 (baselineRanges64 this)))"
  define j where "j = region_value64 (weighted_deviation64 (weights_jaw64 (weightingFactors64 this))
                   (scored_jaw64 (jaw64 features)) (ranges_jaw64 (baselineRanges64 this)))"
  have "\<exists>v. e = Fin v \<and> 0 \<le> v \<and> v \<le> 100"
    using assms unfolding e_def weights_eyes64_def scored_eyes64_def ranges_eyes64_def
    by (intro region_value64_range)
       (simp_all add: regular_configuration_def quantities_defined64_def ranges_eyes64_def
         weights_eyes64_def scored_eyes64_def)
  then obtain ev where ev: "e = Fin ev" "0 \<le> ev" "ev \<le> 100" by blast
  have "\<exists>v. n = Fin v \<and> 0 \<le> v \<and> v \<le> 100"
    using assms unfolding n_def weights_nose64_def scored_nose64_def ranges_nose64_def
    by (intro region_value64_range)
       (simp_all add: regular_configuration_def quantities_defined64_def ranges_nose64_def
         weights_nose64_def scored_nose64_def)
  then obtain nv where nv: "n = Fin nv" "0 \<le> nv" "nv \<le> 100" by blast
  have "\<exists>v. j = Fin v \<and> 0 \<le> v \<and> v \<le> 100"
    using assms unfolding j_def weights_jaw64_def scored_jaw64_def ranges_jaw64_def
    by (intro region_value64_range)
       (simp_all add: regular_configuration_def quantities_defined64_def ranges_jaw64_def
         weights_jaw64_def scored_jaw64_def)
  then obtain jv where jv: "j = Fin jv" "0 \<le> jv" "jv \<le> 100" by blast
  obtain m where m: "d_div (d_add (d_add e n) j) (Fin 3) = Fin m" "0 \<le> m" "m \<le> 100"
    using mean_bounded [OF ev(2,3) nv(2,3) jv(2,3)] unfolding ev(1) nv(1) jv(1) by blast
  have q: "calculateQualityScores64 this features =
      \<lparr>eyes_score64 = d_round e, nose_score64 = d_round n, jaw_score64 = d_round j,
       overall64 = d_round (d_div (d_add (d_add e n) j) (Fin 3))\<rparr>"
    by (simp add: calculateQualityScores64_def eye_score_value nose_score_value jaw_score_value
        e_def n_def j_def Let_def)
  have re: "\<exists>k. d_round e = Fin (of_int k) \<and> 0 \<le> k \<and> k \<le> 100"
    unfolding ev(1) using ev(2,3) by (rule d_round_range)
  have rn: "\<exists>k. d_round n = Fin (of_int k) \<and> 0 \<le> k \<and> k \<le> 100"
    unfolding nv(1) using nv(2,3) by (rule d_round_range)
  have rj: "\<exists>k. d_round j = Fin (of_int k) \<and> 0 \<le> k \<and> k \<le> 100"
    unfolding jv(1) using jv(2,3) by (rule d_round_range)
  have rm: "\<exists>k. d_round (d_div (d_add (d_add e n) j) (Fin 3)) = Fin (of_int k) \<and> 0 \<le> k \<and> k \<le> 100"
    unfolding m(1) using m(2,3) by (rule d_round_range)
  show ?thesis
    unfolding Let_def e_def [symmetric] n_def [symmetric] j_def [symmetric] q
    using re rn rj rm by simp
qed

text \<open>
  The default configuration and the features \<open>boundary_features64\<close>: the mean aspect ratio
  rounds into its interval and the jaw value is 83.49999999999999, so the scores are
  100, 100 and 83, and the overall score is 95, the mean 94.5 of the region values
  rounded upwards.
\<close>

theorem quality_scores64_integers_witness:
  "regular_configuration default_calculator64 \<and> quantities_defined64 boundary_features64 \<and>
   calculateQualityScores64 default_calculator64 boundary_features64 =
     \<lparr>eyes_score64 = Fin 100, nose_score64 = Fin 100, jaw_score64 = Fin 83,
      overall64 = Fin 95\<rparr>"
  using quality_scores64_integers [OF default_regular boundary_defined]
  by (simp add: default_regular boundary_defined boundary_scores)

section \<open>Validation of an empty landmark list\<close>

text \<open>
  Claim C3. Whatever the image and the thresholds, an empty landmark list makes the
  validator return at once: the result is not valid, its confidence is 0, its only
  issue is \<open>no_face_detected\<close> with severity \<open>high\<close>, and no image or face check has
  contributed anything (there is no other issue and no recommendation).
\<close>

theorem validateImage_no_landmarks:
  "validateImage thresholds imageElement [] =
     Inr \<lparr>isValid = False,
          issues = [\<lparr>issue_type = ty_no_face_detected, severity = high,
                     message = ''No face detected in the image. Please ensure your face is clearly visible.'',
                     issue_value = None, threshold = None\<rparr>],
          confidence = 0, recommendations = []\<rparr>"
  by (simp add: validateImage_def createResult_def)

section \<open>Too few landmarks\<close>

text \<open>
  Claim C4. On a landmark list of fewer than 468 elements \<open>calculateFacialFeatures\<close>
  fails with the error whose code is \<open>INSUFFICIENT_LANDMARKS\<close>; no features are returned.
\<close>

theorem calculateFacialFeatures_insufficient:
  "length landmarks < 468 \<Longrightarrow>
   calculateFacialFeatures landmarks =
     Inl (MetricsCalculationError INSUFFICIENT_LANDMARKS ''general'' None)"
  by (simp add: calculateFacialFeatures_def)

theorem calculateFacialFeatures_insufficient_witness:
  "length (replicate 10 centre_landmark) < 468 \<and>
   calculateFacialFeatures (replicate 10 centre_landmark) =
     Inl (MetricsCalculationError INSUFFICIENT_LANDMARKS ''general'' None)"
  using calculateFacialFeatures_insufficient [of "replicate 10 centre_landmark"]
  by simp

section \<open>Confidence and validity\<close>

text \<open>
  Claim C5. When the validator returns a result on a non-empty landmark list, both
  analyzers have returned their metrics, and the confidence is the clamp to \<open>[0, 100]\<close>
  of 100, minus 30, 15 and 5 for each issue of severity \<open>high\<close>, \<open>medium\<close> and \<open>low\<close>,
  plus 5 when the contrast exceeds 1.5 times its threshold, plus 5 when the blur is below
  half its threshold, plus 10 when the completeness exceeds 0.95, plus 5 when the
  symmetry exceeds 0.9. So the confidence lies in \<open>[0, 100]\<close>; and the result is valid
  exactly when no issue has severity \<open>high\<close>.
\<close>

theorem confidence_formula:
  assumes "landmarks \<noteq> []"
    and "validateImage thresholds imageElement landmarks = Inr result"
  shows "(\<exists>imageQuality faceQuality.
           analyzeImageQuality imageElement = Inr imageQuality \<and>
           analyzeFaceQuality landmarks imageElement = Inr faceQuality \<and>
           confidence result =
             max 0 (min 100
               (100 - 30 * int (length (filter (\<lambda>i. severity i = high) (issues result)))
                    - 15 * int (length (filter (\<lambda>i. severity i = medium) (issues result)))
                    - 5 * int (length (filter (\<lambda>i. severity i = low) (issues result)))
                    + (if js_gt (iq_contrast imageQuality)
                            (js_mul (contrast_min thresholds) (Num 1.5)) then 5 else 0)
                    + (if js_lt (iq_blur imageQuality)
                            (js_mul (blur_max thresholds) (Num 0.5)) then 5 else 0)
                    + (if js_gt (fq_completeness faceQuality) (Num 0.95) then 10 else 0)
                    + (if js_gt (fq_symmetry faceQuality) (Num 0.9) then 5 else 0)))) \<and>
         0 \<le> confidence result \<and> confidence result \<le> 100 \<and>
         (isValid result \<longleftrightarrow> \<not> (\<exists>i\<in>set (issues result). severity i = high))"
proof -
  from assms obtain iq where iq: "analyzeImageQuality imageElement = Inr iq"
    by (cases "analyzeImageQuality imageElement") (auto simp: validateImage_def bind_err_def Let_def)
  from assms iq obtain fq where fq: "analyzeFaceQuality landmarks imageElement = Inr fq"
    by (cases "analyzeFaceQuality landmarks imageElement")
       (auto simp: validateImage_def bind_err_def Let_def)
  define iss where "iss = (if 1 < estimateFaceCount landmarks
                       then [\<lparr>issue_type = ty_multiple_faces, severity = medium,
                               message = ''Multiple faces detected. Please ensure only one face is visible.'',
                               issue_value = Some (Num (real (estimateFaceCount landmarks))), threshold = None\<rparr>]
                       else []) @ validateImageQuality thresholds iq @ validateFaceQuality thresholds fq"
  have r: "result = createResult (length (filter (\<lambda>issue. severity issue = high) iss) = 0) iss
             (calculateConfidence thresholds iss iq fq)"
    using assms iq fq by (simp add: validateImage_def bind_err_def Let_def iss_def)
  have iss_eq: "issues result = iss" and c: "confidence result = calculateConfidence thresholds iss iq fq"
    and v: "isValid result = (length (filter (\<lambda>issue. severity issue = high) iss) = 0)"
    by (simp_all add: r createResult_def Let_def)
  have cc: "calculateConfidence thresholds iss iq fq =
     max 0 (min 100
               (100 - 30 * int (length (filter (\<lambda>i. severity i = high) iss))
                    - 15 * int (length (filter (\<lambda>i. severity i = medium) iss))
                    - 5 * int (length (filter (\<lambda>i. severity i = low) iss))
                    + (if js_gt (iq_contrast iq)
                            (js_mul (contrast_min thresholds) (Num 1.5)) then 5 else 0)
                    + (if js_lt (iq_blur iq)
                            (js_mul (blur_max thresholds) (Num 0.5)) then 5 else 0)
                    + (if js_gt (fq_completeness fq) (Num 0.95) then 10 else 0)
                    + (if js_gt (fq_symmetry fq) (Num 0.9) then 5 else 0)))"
    unfolding calculateConfidence_def fold_severity Let_def
    by (intro arg_cong [where f = "max 0"] arg_cong [where f = "min 100"]) simp
  have f1: "\<exists>imageQuality faceQuality.
           analyzeImageQuality imageElement = Inr imageQuality \<and>
           analyzeFaceQuality landmarks imageElement = Inr faceQuality \<and>
           confidence result =
             max 0 (min 100
               (100 - 30 * int (length (filter (\<lambda>i. severity i = high) (issues result)))
                    - 15 * int (length (filter (\<lambda>i. severity i = medium) (issues result)))
                    - 5 * int (length (filter (\<lambda>i. severity i = low) (issues result)))
                    + (if js_gt (iq_contrast imageQuality)
                            (js_mul (contrast_min thresholds) (Num 1.5)) then 5 else 0)
                    + (if js_lt (iq_blur imageQuality)
                            (js_mul (blur_max thresholds) (Num 0.5)) then 5 else 0)
                    + (if js_gt (fq_completeness faceQuality) (Num 0.95) then 10 else 0)
                    + (if js_gt (fq_symmetry faceQuality) (Num 0.9) then 5 else 0)))"
    unfolding iss_eq c by (intro exI conjI) (rule iq, rule fq, rule cc)
  have f2: "0 \<le> confidence result \<and> confidence result \<le> 100"
    by (simp add: c calculateConfidence_def Let_def)
  have f3: "isValid result \<longleftrightarrow> \<not> (\<exists>i\<in>set (issues result). severity i = high)"
    by (simp add: v iss_eq filter_empty_conv)
  from f1 f2 f3 show ?thesis by blast
qed

theorem confidence_formula_witness:
  "replicate 468 centre_landmark \<noteq> [] \<and>
   (\<exists>result. validateImage DEFAULT_QUALITY_THRESHOLDS gray_pixel_image
                (replicate 468 centre_landmark) = Inr result \<and>
              length (filter (\<lambda>i. severity i = high) (issues result)) = 0 \<and>
              length (filter (\<lambda>i. severity i = medium) (issues result)) = 1 \<and>
              length (filter (\<lambda>i. severity i = low) (issues result)) = 1 \<and>
              confidence result = 90 \<and> isValid result)"
proof -
  have ne: "replicate 468 centre_landmark \<noteq> []" by simp
  show ?thesis
    using confidence_formula [OF ne validateImage_centre] ne
    by (simp add: validateImage_centre)
qed

section \<open>Recommendations\<close>

text \<open>
  An image of contrast 20 whose other metrics are within the default thresholds raises
  the low-contrast issue alone. The result made of this issue is valid and carries the
  positive message although its issue list is not empty.
\<close>

theorem recommendations_counterexample:
  "validateImageQuality DEFAULT_QUALITY_THRESHOLDS
     \<lparr>iq_brightness = Num 128, iq_contrast = Num 20, iq_blur = Num 0.05,
      iq_saturation = Num 0, iq_noise = Num 0\<rparr> = [low_contrast_issue] \<and>
   REC_POSITIVE \<in> set (recommendations (createResult True [low_contrast_issue] 95)) \<and>
   issues (createResult True [low_contrast_issue] 95) \<noteq> []"
  by (simp add: createResult_def low_contrast_issue_def validateImageQuality_def
      DEFAULT_QUALITY_THRESHOLDS_def js_gt_def)

text \<open>
  Claim C6, amended. The recommendations of a result are pairwise distinct texts among the
  five fixed ones. The lighting guidance is there exactly when an issue of type
  \<open>brightness\<close> or \<open>poor_lighting\<close> is, and the guidance on the angle, the size and the
  blur exactly when an issue of that type is, however many there are. The positive
  message is there exactly when the result is valid and no issue has one of these five
  types; issues of other types do not prevent it.
\<close>

theorem recommendations_by_type:
  "distinct (recommendations (createResult valid issueList conf)) \<and>
   set (recommendations (createResult valid issueList conf)) \<subseteq>
     {REC_LIGHTING, REC_FACE_ANGLE, REC_FACE_SIZE, REC_BLUR, REC_POSITIVE} \<and>
   (REC_LIGHTING \<in> set (recommendations (createResult valid issueList conf)) \<longleftrightarrow>
      ty_brightness \<in> issue_type ` set issueList \<or>
      ty_poor_lighting \<in> issue_type ` set issueList) \<and>
   (REC_FACE_ANGLE \<in> set (recommendations (createResult valid issueList conf)) \<longleftrightarrow>
      ty_face_angle \<in> issue_type ` set issueList) \<and>
   (REC_FACE_SIZE \<in> set (recommendations (createResult valid issueList conf)) \<longleftrightarrow>
      ty_face_size \<in> issue_type ` set issueList) \<and>
   (REC_BLUR \<in> set (recommendations (createResult valid issueList conf)) \<longleftrightarrow>
      ty_blur \<in> issue_type ` set issueList) \<and>
   (REC_POSITIVE \<in> set (recommendations (createResult valid issueList conf)) \<longleftrightarrow>
      valid \<and> ty_brightness \<notin> issue_type ` set issueList \<and>
      ty_poor_lighting \<notin> issue_type ` set issueList \<and>
      ty_face_angle \<notin> issue_type ` set issueList \<and>
      ty_face_size \<notin> issue_type ` set issueList \<and>
      ty_blur \<notin> issue_type ` set issueList)"
  using recs_distinct by (auto simp add: createResult_def Let_def)

theorem recommendations_by_type_witness:
  "recommendations (createResult True [low_contrast_issue] 95) = [REC_POSITIVE] \<and>
   REC_LIGHTING \<notin> set (recommendations (createResult True [low_contrast_issue] 95))"
  using recommendations_by_type [of True "[low_contrast_issue]" 95]
  by (simp add: createResult_def low_contrast_issue_def)

section \<open>Image quality analyzer on degenerate images\<close>

text \<open>
  On the image of width and height 0 the analyzer fails with the exception of the canvas,
  and the validator reports it with the code \<open>ANALYSIS_FAILED\<close>, not \<open>INVALID_IMAGE\<close>.
\<close>

theorem zero_area_counterexample:
  "analyzeImageQuality empty_image = Inl DOMException \<and>
   validateImage DEFAULT_QUALITY_THRESHOLDS empty_image (replicate 468 centre_landmark) =
     Inl (QualityValidationError ANALYSIS_FAILED DOMException)"
  by (simp add: empty_image_def analyzeImageQuality_def validateImage_def bind_err_def
      Let_def)

text \<open>
  Claim C7, amended. On an image of width 0 or height 0 the analyzer fails and returns no
  metrics: with the \<open>Error\<close> of a missing 2d context or else with the exception of the
  canvas. The validator, given such an image and a non-empty landmark list, fails with an
  error of code \<open>ANALYSIS_FAILED\<close> that wraps it; no error of code \<open>INVALID_IMAGE\<close> is
  raised.
\<close>

theorem zero_area_fails:
  assumes "el_width imageElement = 0 \<or> el_height imageElement = 0"
  shows "(\<exists>err. analyzeImageQuality imageElement = Inl err) \<and>
         (landmarks \<noteq> [] \<longrightarrow>
            (\<exists>err. validateImage thresholds imageElement landmarks =
                     Inl (QualityValidationError ANALYSIS_FAILED err)))"
proof -
  have "\<exists>err. analyzeImageQuality imageElement = Inl err"
    using assms by (cases "el_context imageElement") (simp_all add: analyzeImageQuality_def)
  then obtain err where e: "analyzeImageQuality imageElement = Inl err" ..
  then have "landmarks \<noteq> [] \<longrightarrow>
      validateImage thresholds imageElement landmarks =
        Inl (QualityValidationError ANALYSIS_FAILED err)"
    by (simp add: validateImage_def bind_err_def Let_def)
  with e show ?thesis by blast
qed

theorem zero_area_fails_witness:
  "(el_width empty_image = 0 \<or> el_height empty_image = 0) \<and>
   (\<exists>err. analyzeImageQuality empty_image = Inl err) \<and>
   (\<exists>err. validateImage DEFAULT_QUALITY_THRESHOLDS empty_image (replicate 468 centre_landmark) =
            Inl (QualityValidationError ANALYSIS_FAILED err))"
proof -
  have z: "el_width empty_image = 0 \<or> el_height empty_image = 0"
    by (simp add: empty_image_def)
  show ?thesis
    using zero_area_fails [OF z, of "replicate 468 centre_landmark" DEFAULT_QUALITY_THRESHOLDS] z
    by simp
qed

text \<open>
  Claim C8. On a uniform image the claim asks for a contrast of 0 and a blur of 1. But an
  image narrower or lower than 3 pixels has no interior pixel, the edge count 0 is a
  divisor, and the blur is \<open>NaN\<close>; the contrast is 0 as claimed.
\<close>

theorem analyzeImageQuality_gray_square:
  "analyzeImageQuality gray_square_image =
     Inr \<lparr>iq_brightness = Num 128, iq_contrast = Num 0, iq_blur = NaN, iq_saturation = Num 0,
          iq_noise = NaN\<rparr>"
  by (simp add: gray_square_image_def analyzeImageQuality_def pixel_offsets_def
      estimateBlur_def estimateNoise_def calculateSaturation_def interior_grid_def
      interior_def js_max_def js_min_def js_sub_def luminance_at_def byte_at_def nth_opt_def
      js_pow2_def js_eq_def)

section \<open>Face completeness\<close>

text \<open>
  All 468 landmarks lie at the centre of the image with a visibility of exactly 0.5: every
  key landmark is inside the image with a visibility of at least 0.5, and the completeness
  is 0.
\<close>

theorem completeness_counterexample:
  "calculateFaceCompleteness (replicate 468 half_visible_landmark) = Num 0"
proof -
  have "\<forall>i\<in>set keyLandmarkIndices.
          \<not> landmark_visible (replicate 468 half_visible_landmark) i"
    by (simp add: keyLandmarkIndices_eq landmark_visible_def nth_opt_def
        half_visible_landmark_def js_gt_def)
  then show ?thesis
    by (simp add: calculateFaceCompleteness_def fold_count_none keyLandmarkIndices_eq)
qed

text \<open>
  Claim C9, amended. The completeness is 1 whenever every key landmark index resolves to a
  point whose \<open>x\<close> and \<open>y\<close> lie within \<open>[0, 1]\<close> and whose visibility is absent or
  strictly greater than 0.5.
\<close>

theorem completeness_full:
  assumes "\<forall>i\<in>set keyLandmarkIndices.
             i < length landmarks \<and>
             (\<exists>a b. lm_x (landmarks ! i) = Num a \<and> lm_y (landmarks ! i) = Num b \<and>
                    0 \<le> a \<and> a \<le> 1 \<and> 0 \<le> b \<and> b \<le> 1) \<and>
             (lm_visibility (landmarks ! i) = None \<or>
              (\<exists>v. lm_visibility (landmarks ! i) = Some (Num v) \<and> 0.5 < v))"
  shows "calculateFaceCompleteness landmarks = Num 1"
proof -
  have "\<forall>i\<in>set keyLandmarkIndices. landmark_visible landmarks i"
  proof
    fix i assume "i \<in> set keyLandmarkIndices"
    with assms show "landmark_visible landmarks i"
      by (fastforce simp: landmark_visible_def nth_opt_def js_ge_def js_gt_def)
  qed
  then have "fold (\<lambda>index visibleCount.
                    if landmark_visible landmarks index then visibleCount + 1 else visibleCount)
              keyLandmarkIndices (0 :: nat) = length keyLandmarkIndices"
    by (simp add: fold_count_all)
  then show ?thesis
    by (simp add: calculateFaceCompleteness_def keyLandmarkIndices_eq)
qed

theorem completeness_full_witness:
  "calculateFaceCompleteness (replicate 468 centre_landmark) = Num 1"
proof -
  have xy: "\<exists>a b. lm_x centre_landmark = Num a \<and> lm_y centre_landmark = Num b \<and>
                 0 \<le> a \<and> a \<le> 1 \<and> 0 \<le> b \<and> b \<le> 1"
    by (intro exI [of _ "1 / 2"]) (simp add: centre_landmark_def)
  have vis: "\<exists>v. lm_visibility centre_landmark = Some (Num v) \<and> 0.5 < v"
    by (intro exI [of _ "9 / 10"]) (simp add: centre_landmark_def)
  show ?thesis
    using completeness_full [of "replicate 468 centre_landmark"] xy vis
    by (simp add: keyLandmarkIndices_eq)
qed

section \<open>The lower-face ratio\<close>

text \<open>
  Claim C10. Positions 4 and 12 of the chin index list both hold landmark 9, so the chin
  width is the distance of a point to itself. For every set of at least 468 landmarks with
  finite coordinates the feature extraction succeeds, and whenever the jaw width is not 0
  the lower-face ratio is exactly 0; its deviation from the default chin-ratio interval is
  then 1, and the jaw score under the default configuration is an integer of at most 70.
\<close>

theorem lower_face_ratio_zero:
  assumes "468 \<le> length landmarks" and "finite_landmarks landmarks"
  shows "\<exists>features. calculateFacialFeatures landmarks = Inr features \<and>
           (jaw_width (jaw features) \<noteq> Num 0 \<longrightarrow>
              lowerFaceRatio (jaw features) = Num 0 \<and>
              calculateDeviation (lowerFaceRatio (jaw features))
                (range_jaw_chinRatio DEFAULT_BASELINE_RANGES) = Num 1 \<and>
              (\<exists>s. jaw_score (calculateQualityScores default_calculator features) =
                      Num (of_int s) \<and> 0 \<le> s \<and> s \<le> 70))"
proof -
  let ?w = "dist_real (landmarks ! 172) (landmarks ! 397)"
  obtain e n where f: "calculateFacialFeatures landmarks =
     Inr \<lparr>eyes = e, nose = n,
       jaw = \<lparr>jaw_width = calculateDistance (landmarks ! 172) (landmarks ! 397),
          jaw_angle = calculateAngle (landmarks ! 172) (landmarks ! 18) (landmarks ! 397),
          chinProjection = or_zero (lm_z (landmarks ! 18)),
          lowerFaceRatio = js_div (calculateDistance (landmarks ! 9) (landmarks ! 9))
                             (calculateDistance (landmarks ! 172) (landmarks ! 397)),
          jaw_asymmetry = js_div (calculateJawSideSize (map ((!) landmarks) JAW_LEFT))
                            (calculateJawSideSize (map ((!) landmarks) JAW_RIGHT)),
          jaw_landmarks = map ((!) landmarks) JAW_LEFT @ map ((!) landmarks) JAW_RIGHT @
                            map ((!) landmarks) CHIN\<rparr>\<rparr>" (is "_ = Inr ?f")
    using facial_features_jaw [OF assms(1)] by blast
  have fp: "finite_point (landmarks ! 172)" "finite_point (landmarks ! 397)"
    "finite_point (landmarks ! 18)" "finite_point (landmarks ! 9)"
    using assms by (simp_all add: finite_landmarks_nth)
  have width: "jaw_width (jaw ?f) = Num ?w"
    by (simp add: distance_finite fp)
  have "lowerFaceRatio (jaw ?f) = Num 0 \<and>
        calculateDeviation (lowerFaceRatio (jaw ?f))
          (range_jaw_chinRatio DEFAULT_BASELINE_RANGES) = Num 1 \<and>
        (\<exists>s. jaw_score (calculateQualityScores default_calculator ?f) = Num (of_int s) \<and>
              0 \<le> s \<and> s \<le> 70)"
    if nz: "jaw_width (jaw ?f) \<noteq> Num 0"
  proof -
    from nz width have w: "?w \<noteq> 0" by simp
    have ratio: "lowerFaceRatio (jaw ?f) = Num 0"
      using w by (simp add: distance_finite fp dist_real_self)
    have angle: "jaw_angle (jaw ?f) \<noteq> NaN"
      by (simp add: angle_defined fp)
    obtain l where l: "calculateJawSideSize (map ((!) landmarks) JAW_LEFT) = Num l" "0 < l"
      using jaw_left_perimeter [OF assms w] by blast
    obtain r where r: "calculateJawSideSize (map ((!) landmarks) JAW_RIGHT) = Num r" "0 \<le> r"
      using jaw_right_perimeter [OF assms] by blast
    have asym: "jaw_asymmetry (jaw ?f) \<noteq> NaN"
      using l r by simp
    obtain v where v: "calculateJawScore default_calculator (jaw ?f) = Num v" "0 \<le> v" "v \<le> 70"
      using jaw_score_bound [OF angle ratio asym] by blast
    have "jaw_score (calculateQualityScores default_calculator ?f) = Num (of_int \<lfloor>v + 1 / 2\<rfloor>)"
      using v(1) by (simp add: calculateQualityScores_def Let_def)
    moreover have "0 \<le> \<lfloor>v + 1 / 2\<rfloor>" "\<lfloor>v + 1 / 2\<rfloor> \<le> 70"
      using v(2,3) by linarith+
    ultimately show ?thesis
      using ratio chin_ratio_deviation by auto
  qed
  with f show ?thesis by blast
qed

theorem lower_face_ratio_zero_witness:
  "468 \<le> length wide_jaw_landmarks \<and> finite_landmarks wide_jaw_landmarks \<and>
   (\<exists>features. calculateFacialFeatures wide_jaw_landmarks = Inr features \<and>
      jaw_width (jaw features) \<noteq> Num 0 \<and> lowerFaceRatio (jaw features) = Num 0 \<and>
      (\<exists>s. jaw_score (calculateQualityScores default_calculator features) = Num (of_int s) \<and>
            0 \<le> s \<and> s \<le> 70))"
proof -
  obtain features where f: "calculateFacialFeatures wide_jaw_landmarks = Inr features"
    and imp: "jaw_width (jaw features) \<noteq> Num 0 \<longrightarrow>
              lowerFaceRatio (jaw features) = Num 0 \<and>
              calculateDeviation (lowerFaceRatio (jaw features))
                (range_jaw_chinRatio DEFAULT_BASELINE_RANGES) = Num 1 \<and>
              (\<exists>s. jaw_score (calculateQualityScores default_calculator features) =
                      Num (of_int s) \<and> 0 \<le> s \<and> s \<le> 70)"
    using lower_face_ratio_zero [OF wide_jaw_length wide_jaw_finite] by blast
  have "jaw_width (jaw features) =
      calculateDistance (wide_jaw_landmarks ! 172) (wide_jaw_landmarks ! 397)"
    using facial_features_jaw [OF wide_jaw_length] f by auto
  then have "jaw_width (jaw features) \<noteq> Num 0"
    by (simp add: wide_jaw_points wide_jaw_width)
  with f imp wide_jaw_length wide_jaw_finite show ?thesis by blast
qed

end
